theory Spec2Isabelle
  imports Main "HOL-Library.Word"
begin

section \<open>Enumerations\<close>

text \<open>
  The enumerations of the package. Their declarations live in sibling files of
  \<^verbatim>\<open>peerconnection.go\<close>; every Go enumeration is an integer type, so each datatype
  has one extra constructor standing for the zero value and every other integer that is
  not a named member.
\<close>

datatype SignalingState =
    SignalingStateStable
  | SignalingStateHaveLocalOffer
  | SignalingStateHaveRemoteOffer
  | SignalingStateHaveLocalPranswer
  | SignalingStateHaveRemotePranswer
  | SignalingStateClosed

datatype SDPType =
    SDPTypeUnknown
  | SDPTypeOffer
  | SDPTypePranswer
  | SDPTypeAnswer
  | SDPTypeRollback

datatype stateChangeOp =
    stateChangeOpUnknown
  | stateChangeOpSetLocal
  | stateChangeOpSetRemote

datatype SDPSemantics =
    SDPSemanticsUnifiedPlan
  | SDPSemanticsPlanB
  | SDPSemanticsUnifiedPlanWithFallback

datatype RTPCodecType =
    RTPCodecTypeUnknown
  | RTPCodecTypeAudio
  | RTPCodecTypeVideo

datatype RTPTransceiverDirection =
    RTPTransceiverDirectionUnknown
  | RTPTransceiverDirectionSendrecv
  | RTPTransceiverDirectionSendonly
  | RTPTransceiverDirectionRecvonly
  | RTPTransceiverDirectionInactive

datatype PeerConnectionState =
    PeerConnectionStateNew
  | PeerConnectionStateClosed

text \<open>
  \<^verbatim>\<open>sdp.ConnectionRole\<close> of the SDP library and the text \<^verbatim>\<open>String()\<close> gives it
  (the \<^verbatim>\<open>a=setup\<close> values of RFC 4145).
\<close>

datatype ConnectionRole =
    ConnectionRoleActive
  | ConnectionRolePassive
  | ConnectionRoleActpass
  | ConnectionRoleHoldconn

fun ConnectionRole_String :: "ConnectionRole \<Rightarrow> string" where
  "ConnectionRole_String ConnectionRoleActive = ''active''"
| "ConnectionRole_String ConnectionRolePassive = ''passive''"
| "ConnectionRole_String ConnectionRoleActpass = ''actpass''"
| "ConnectionRole_String ConnectionRoleHoldconn = ''holdconn''"

section \<open>Errors\<close>

text \<open>
  One value per error the file can return. \<open>Errorf\<close> carries the format string of a
  \<^verbatim>\<open>fmt.Errorf\<close> call (its rendered arguments are not modelled); the \<^verbatim>\<open>rtcerr\<close> kinds wrap
  the error they are built from; \<open>CollaboratorError\<close> is an error handed back by a
  collaborator (SDP library, ICE, DTLS, SCTP, SRTP, media engine); \<open>Panic\<close> is a run-time
  panic of the Go program (nil dereference, index or slice out of range);
  \<open>FlattenedErrs\<close> is what \<^verbatim>\<open>util.FlattenErrs\<close> builds from a non-empty list.
\<close>

datatype error =
    Errorf string
  | ErrConnectionClosed
  | ErrNoRemoteDescription
  | ErrIncorrectSDPSemantics
  | ErrMaxDataChannelID
  | ErrRetransmitsOrPacketLifeTime
  | ErrModifyingPeerIdentity
  | ErrModifyingCertificates
  | ErrModifyingBundlePolicy
  | ErrModifyingRTCPMuxPolicy
  | ErrModifyingICECandidatePoolSize
  | ErrTransitionNotPermitted
  | InvalidStateError error
  | InvalidModificationError error
  | OperationError error
  | TypeError error
  | CollaboratorError string
  | Panic string
  | FlattenedErrs "error list"

section \<open>Strings\<close>

definition HasPrefix :: "string \<Rightarrow> string \<Rightarrow> bool" where
  "HasPrefix s pre = (take (length pre) s = pre)"

definition TrimPrefix :: "string \<Rightarrow> string \<Rightarrow> string" where
  "TrimPrefix s pre = (if HasPrefix s pre then drop (length pre) s else s)"

text \<open>\<^verbatim>\<open>strings.Split(s, " ")\<close>: the pieces between the spaces.\<close>

fun Split_space :: "string \<Rightarrow> string list" where
  "Split_space [] = [[]]"
| "Split_space (c # cs) =
     (if c = CHR '' '' then [] # Split_space cs
      else (case Split_space cs of
              p # ps \<Rightarrow> (c # p) # ps
            | [] \<Rightarrow> [[c]]))"

text \<open>\<^verbatim>\<open>strconv.Itoa\<close> on a count (never negative here).\<close>

fun Itoa :: "nat \<Rightarrow> string" where
  "Itoa n =
     (if n < 10 then [''0123456789'' ! n]
      else Itoa (n div 10) @ [''0123456789'' ! (n mod 10)])"

declare Itoa.simps [simp del]

section \<open>The SDP document\<close>

text \<open>
  The parsed SDP tree of the external SDP library, cut down to what
  \<^verbatim>\<open>peerconnection.go\<close> reads and writes: session attributes and media sections, each media
  section with its media name and its attributes. The library's builder methods append
  to these lists. The session's origin, timing and version lines, which the library fills
  in by itself, are not modelled.
\<close>

record Attribute =
  Key :: string
  Value :: string

record MediaDescription =
  Media :: string
  Port :: int
  Protos :: "string list"
  Formats :: "string list"
  ConnectionInformation :: "(string \<times> string \<times> string) option"
  MediaAttributes :: "Attribute list"

record sdp_SessionDescription =
  Attributes :: "Attribute list"
  MediaDescriptions :: "MediaDescription list"

definition NewAttribute :: "string \<Rightarrow> string \<Rightarrow> Attribute" where
  "NewAttribute k v = \<lparr>Key = k, Value = v\<rparr>"

definition NewPropertyAttribute :: "string \<Rightarrow> Attribute" where
  "NewPropertyAttribute k = \<lparr>Key = k, Value = []\<rparr>"

text \<open>\<^verbatim>\<open>Attribute.String()\<close>: the key, and the value after a colon when there is one.\<close>

definition Attribute_String :: "Attribute \<Rightarrow> string" where
  "Attribute_String a = (if Value a \<noteq> [] then Key a @ '':'' @ Value a else Key a)"

definition IsICECandidate :: "Attribute \<Rightarrow> bool" where
  "IsICECandidate a = (Key a = ''candidate'')"

text \<open>\<^verbatim>\<open>Attribute(key)\<close> of a session or a media section: the first value under the key.\<close>

fun lookupAttribute :: "Attribute list \<Rightarrow> string \<Rightarrow> string \<times> bool" where
  "lookupAttribute [] k = ([], False)"
| "lookupAttribute (a # as) k = (if Key a = k then (Value a, True) else lookupAttribute as k)"

definition NewJSEPSessionDescription :: "bool \<Rightarrow> sdp_SessionDescription" where
  "NewJSEPSessionDescription identity =
     \<lparr>Attributes = (if identity then [NewPropertyAttribute ''identity''] else []),
      MediaDescriptions = []\<rparr>"

definition WithValueAttribute :: "string \<Rightarrow> string \<Rightarrow> sdp_SessionDescription \<Rightarrow> sdp_SessionDescription" where
  "WithValueAttribute k v d = d\<lparr>Attributes := Attributes d @ [NewAttribute k v]\<rparr>"

definition WithFingerprint :: "string \<Rightarrow> string \<Rightarrow> sdp_SessionDescription \<Rightarrow> sdp_SessionDescription" where
  "WithFingerprint algorithm v d = WithValueAttribute ''fingerprint'' (algorithm @ '' '' @ v) d"

definition WithMedia :: "MediaDescription \<Rightarrow> sdp_SessionDescription \<Rightarrow> sdp_SessionDescription" where
  "WithMedia md d = d\<lparr>MediaDescriptions := MediaDescriptions d @ [md]\<rparr>"

definition NewJSEPMediaDescription :: "string \<Rightarrow> MediaDescription" where
  "NewJSEPMediaDescription codecType =
     \<lparr>Media = codecType, Port = 9, Protos = [''UDP'', ''TLS'', ''RTP'', ''SAVPF''], Formats = [],
      ConnectionInformation = Some (''IN'', ''IP4'', ''0.0.0.0''), MediaAttributes = []\<rparr>"

definition media_WithValueAttribute :: "string \<Rightarrow> string \<Rightarrow> MediaDescription \<Rightarrow> MediaDescription" where
  "media_WithValueAttribute k v m = m\<lparr>MediaAttributes := MediaAttributes m @ [NewAttribute k v]\<rparr>"

definition media_WithPropertyAttribute :: "string \<Rightarrow> MediaDescription \<Rightarrow> MediaDescription" where
  "media_WithPropertyAttribute k m = m\<lparr>MediaAttributes := MediaAttributes m @ [NewPropertyAttribute k]\<rparr>"

definition WithICECredentials :: "string \<Rightarrow> string \<Rightarrow> MediaDescription \<Rightarrow> MediaDescription" where
  "WithICECredentials username password m =
     media_WithValueAttribute ''ice-pwd'' password (media_WithValueAttribute ''ice-ufrag'' username m)"

record RTCPFeedback =
  fb_Type :: string
  fb_Parameter :: string

record RTPCodec =
  codec_PayloadType :: "8 word"
  codec_Name :: string
  codec_ClockRate :: "32 word"
  codec_Channels :: "16 word"
  codec_SDPFmtpLine :: string
  codec_RTCPFeedback :: "RTCPFeedback list"

definition WithCodec ::
  "8 word \<Rightarrow> string \<Rightarrow> 32 word \<Rightarrow> 16 word \<Rightarrow> string \<Rightarrow> MediaDescription \<Rightarrow> MediaDescription" where
  "WithCodec payloadType name clockrate channels fmtp m =
     (let m1 = m\<lparr>Formats := Formats m @ [Itoa (unat payloadType)]\<rparr>;
          rtpmap = Itoa (unat payloadType) @ '' '' @ name @ ''/'' @ Itoa (unat clockrate);
          rtpmap' = (if channels > 0 then rtpmap @ ''/'' @ Itoa (unat channels) else rtpmap);
          m2 = media_WithValueAttribute ''rtpmap'' rtpmap' m1
      in if fmtp \<noteq> [] then media_WithValueAttribute ''fmtp'' (Itoa (unat payloadType) @ '' '' @ fmtp) m2
         else m2)"

definition WithMediaSource ::
  "32 word \<Rightarrow> string \<Rightarrow> string \<Rightarrow> string \<Rightarrow> MediaDescription \<Rightarrow> MediaDescription" where
  "WithMediaSource ssrc cname streamLabel label m =
     media_WithValueAttribute ''ssrc'' (Itoa (unat ssrc) @ '' label:'' @ label)
       (media_WithValueAttribute ''ssrc'' (Itoa (unat ssrc) @ '' mslabel:'' @ streamLabel)
         (media_WithValueAttribute ''ssrc'' (Itoa (unat ssrc) @ '' msid:'' @ streamLabel @ '' '' @ label)
           (media_WithValueAttribute ''ssrc'' (Itoa (unat ssrc) @ '' cname:'' @ cname) m)))"
section \<open>Transceivers\<close>

record Track =
  track_payloadType :: "8 word"
  track_ssrc :: "32 word"
  track_id :: string
  track_label :: string
  track_kind :: RTPCodecType

record RTPSender =
  sender_track :: "Track option"
  sender_hasSent :: bool

record RTPReceiver =
  receiver_track :: "Track option"

record RTPTransceiver =
  Sender :: "RTPSender option"
  Receiver :: "RTPReceiver option"
  Direction :: RTPTransceiverDirection
  kind :: RTPCodecType
  stopped :: bool

subsection \<open>satisfyTypeAndDirection\<close>

definition getPreferredDirections :: "RTPTransceiverDirection \<Rightarrow> RTPTransceiverDirection list" where
  "getPreferredDirections remoteDirection =
     (case remoteDirection of
        RTPTransceiverDirectionSendrecv \<Rightarrow>
          [RTPTransceiverDirectionRecvonly, RTPTransceiverDirectionSendrecv]
      | RTPTransceiverDirectionSendonly \<Rightarrow>
          [RTPTransceiverDirectionRecvonly, RTPTransceiverDirectionSendrecv]
      | RTPTransceiverDirectionRecvonly \<Rightarrow>
          [RTPTransceiverDirectionSendonly, RTPTransceiverDirectionSendrecv]
      | _ \<Rightarrow> [])"

text \<open>
  The inner loop \<^verbatim>\<open>for i := range localTransceivers\<close>, from index \<open>i\<close> on. A hit returns
  the element and \<^verbatim>\<open>append(localTransceivers[:i], localTransceivers[i+1:]...)\<close>.
\<close>

function scanTransceivers ::
  "RTPCodecType \<Rightarrow> RTPTransceiverDirection \<Rightarrow> RTPTransceiver list \<Rightarrow> nat
     \<Rightarrow> (RTPTransceiver \<times> RTPTransceiver list) option" where
  "scanTransceivers remoteKind possibleDirection localTransceivers i =
     (if i < length localTransceivers then
        (let t = localTransceivers ! i in
         if kind t \<noteq> remoteKind \<or> possibleDirection \<noteq> Direction t
         then scanTransceivers remoteKind possibleDirection localTransceivers (i + 1)
         else Some (t, take i localTransceivers @ drop (i + 1) localTransceivers))
      else None)"
  by pat_completeness auto
termination
  by (relation "measure (\<lambda>(k, d, xs, i). length xs - i)") auto

declare scanTransceivers.simps [simp del]

text \<open>The outer loop over the preferred directions.\<close>

fun scanDirections ::
  "RTPCodecType \<Rightarrow> RTPTransceiverDirection list \<Rightarrow> RTPTransceiver list
     \<Rightarrow> (RTPTransceiver \<times> RTPTransceiver list) option" where
  "scanDirections remoteKind [] localTransceivers = None"
| "scanDirections remoteKind (possibleDirection # rest) localTransceivers =
     (case scanTransceivers remoteKind possibleDirection localTransceivers 0 of
        Some r \<Rightarrow> Some r
      | None \<Rightarrow> scanDirections remoteKind rest localTransceivers)"

definition inactiveTransceiver :: "RTPCodecType \<Rightarrow> RTPTransceiver" where
  "inactiveTransceiver remoteKind =
     \<lparr>Sender = None, Receiver = None, Direction = RTPTransceiverDirectionInactive,
      kind = remoteKind, stopped = False\<rparr>"

definition satisfyTypeAndDirection ::
  "RTPCodecType \<Rightarrow> RTPTransceiverDirection \<Rightarrow> RTPTransceiver list
     \<Rightarrow> RTPTransceiver \<times> RTPTransceiver list" where
  "satisfyTypeAndDirection remoteKind remoteDirection localTransceivers =
     (case scanDirections remoteKind (getPreferredDirections remoteDirection) localTransceivers of
        Some r \<Rightarrow> r
      | None \<Rightarrow> (inactiveTransceiver remoteKind, localTransceivers))"

subsection \<open>The satisfy procedure in the words of the specification\<close>

definition spec_preferred :: "RTPTransceiverDirection \<Rightarrow> RTPTransceiverDirection list" where
  "spec_preferred remote =
     (if remote = RTPTransceiverDirectionSendrecv \<or> remote = RTPTransceiverDirectionSendonly
      then [RTPTransceiverDirectionRecvonly, RTPTransceiverDirectionSendrecv]
      else if remote = RTPTransceiverDirectionRecvonly
      then [RTPTransceiverDirectionSendonly, RTPTransceiverDirectionSendrecv]
      else [])"

text \<open>
  Every (direction, position) pair whose transceiver has the requested kind and that
  direction, enumerated in scanning order: directions in preferred order, and positions
  in list order within one direction.
\<close>

definition spec_candidates ::
  "RTPCodecType \<Rightarrow> RTPTransceiverDirection \<Rightarrow> RTPTransceiver list
     \<Rightarrow> (RTPTransceiverDirection \<times> nat) list" where
  "spec_candidates k remote xs =
     concat (map (\<lambda>d. map (Pair d)
                         (filter (\<lambda>i. kind (xs ! i) = k \<and> Direction (xs ! i) = d)
                                 [0 ..< length xs]))
                 (spec_preferred remote))"

text \<open>
  The first candidate with the list without it; without a candidate, a transceiver that
  has the requested kind, direction inactive, neither sender nor receiver and is not
  stopped, with the list as it was.
\<close>

definition spec_satisfy ::
  "RTPCodecType \<Rightarrow> RTPTransceiverDirection \<Rightarrow> RTPTransceiver list
     \<Rightarrow> RTPTransceiver \<times> RTPTransceiver list" where
  "spec_satisfy k remote xs =
     (case spec_candidates k remote xs of
        [] \<Rightarrow> (\<lparr>Sender = None, Receiver = None, Direction = RTPTransceiverDirectionInactive,
                kind = k, stopped = False\<rparr>, xs)
      | (d, i) # _ \<Rightarrow> (xs ! i, take i xs @ drop (Suc i) xs))"

section \<open>Collaborators\<close>

record ICEParameters =
  UsernameFragment :: string
  Password :: string
  ICELite :: bool

record DTLSFingerprint =
  fp_Algorithm :: string
  fp_Value :: string

text \<open>A local ICE candidate, a certificate and an ICE server are opaque here.\<close>

type_synonym ICECandidate = string
type_synonym Certificate = string
type_synonym ICEServer = string

record SCTPTransport =
  sctp_MaxChannels :: "16 word"
  sctp_association :: bool

datatype ICETransport = ICETransport

record DataChannelParameters =
  Label :: string
  ID :: "16 word"
  Ordered :: bool
  MaxPacketLifeTime :: "16 word option"
  MaxRetransmits :: "16 word option"

record DataChannelInit =
  init_Ordered :: "bool option"
  init_MaxPacketLifeTime :: "16 word option"
  init_MaxRetransmits :: "16 word option"
  init_ID :: "16 word option"

record DataChannel =
  dc_label :: string
  dc_id :: "16 word"
  dc_ordered :: bool
  dc_maxPacketLifeTime :: "16 word option"
  dc_maxRetransmits :: "16 word option"

text \<open>
  What the code outside \<^verbatim>\<open>peerconnection.go\<close> answers when the PeerConnection calls
  it: the SDP library's parser and serializer, the first certificate's fingerprints, the
  ICE gatherer and transport, the DTLS, SCTP and SRTCP transports, the media engine, the
  constructors of data channels, tracks, senders and receivers, and the declarations of sibling
  files that the file only uses (the bound \<^verbatim>\<open>sctpMaxChannels\<close>, the conversions between
  enumerations and their SDP text, certificate equality, server validation, and the
  transceiver methods \<^verbatim>\<open>Stop\<close> and \<^verbatim>\<open>setSendingTrack\<close>). Every theorem below holds for
  every such environment.
\<close>

record env =
  Unmarshal :: "string \<Rightarrow> error + sdp_SessionDescription"
  Marshal :: "sdp_SessionDescription \<Rightarrow> error + string"
  GetFingerprints :: "Certificate \<Rightarrow> error + DTLSFingerprint list"
  ToUpper :: "string \<Rightarrow> string"
  GetLocalParameters :: "error + ICEParameters"
  GetLocalCandidates :: "error + ICECandidate list"
  candidateValue :: "ICECandidate \<Rightarrow> nat \<Rightarrow> string"
  agentIsTrickle :: bool
  Gather :: "error option"
  SignalCandidates :: "error option"
  AddRemoteCandidate :: "Attribute \<Rightarrow> error option"
  ICETransport_Stop :: "error option"
  DTLSTransport_Stop :: "error option"
  SCTPTransport_Stop :: "error option"
  RTPTransceiver_Stop :: "RTPTransceiver \<Rightarrow> error option"
  setSendingTrack :: "RTPTransceiver \<Rightarrow> Track \<Rightarrow> RTPTransceiver \<times> error option"
  NewSCTPTransport :: SCTPTransport
  sctpMaxChannels :: "16 word"
  newDataChannel :: "DataChannelParameters \<Rightarrow> error + DataChannel"
  DataChannel_open :: "DataChannel \<Rightarrow> error option"
  NewRTPReceiver :: "RTPCodecType \<Rightarrow> error + RTPReceiver"
  NewRTPSender :: "Track \<Rightarrow> error + RTPSender"
  NewTrack :: "8 word \<Rightarrow> error + Track"
  GetCodecsByKind :: "RTPCodecType \<Rightarrow> RTPCodec list"
  NewRTPCodecType :: "string \<Rightarrow> RTPCodecType"
  RTPCodecType_String :: "RTPCodecType \<Rightarrow> string"
  NewRTPTransceiverDirection :: "string \<Rightarrow> RTPTransceiverDirection"
  RTPTransceiverDirection_String :: "RTPTransceiverDirection \<Rightarrow> string"
  Certificate_Equals :: "Certificate \<Rightarrow> Certificate \<Rightarrow> bool"
  ICEServer_validate :: "ICEServer \<Rightarrow> error option"
  rtcp_Marshal :: "string list \<Rightarrow> error + string"
  getSRTCPSession :: "error option"
  OpenWriteStream :: "error option"
  WriteStream_Write :: "string \<Rightarrow> error option"

section \<open>The PeerConnection\<close>

text \<open>
  The policies of a configuration are Go integer enumerations declared elsewhere; the
  file only compares them with each other and with the zero value \<^verbatim>\<open>Unknown\<close>.
\<close>

record Configuration =
  ICEServers :: "ICEServer list"
  ICETransportPolicy :: nat
  BundlePolicy :: nat
  RTCPMuxPolicy :: nat
  PeerIdentity :: string
  Certificates :: "Certificate list"
  ICECandidatePoolSize :: "8 word"
  SDPSemantics :: SDPSemantics

record SessionDescription =
  Type :: SDPType
  SDP :: string
  parsed :: "sdp_SessionDescription option"

text \<open>
  Calls with an effect outside the PeerConnection's own fields are recorded in order:
  the dispatch of the signaling-state callback, the transport and transceiver stops of
  \<^verbatim>\<open>Close\<close>, the gatherer calls, remote candidates handed to the ICE transport, the start
  of the background networking task, data-channel opens and RTCP writes.
\<close>

datatype event =
    OnSignalingStateChange SignalingState
  | EvICETransportStop
  | EvDTLSTransportStop
  | EvSCTPTransportStop
  | EvRTPTransceiverStop nat
  | EvGather
  | EvSignalCandidates
  | EvAddRemoteCandidate Attribute
  | EvStartNetworking bool string string string string
  | EvDataChannelOpen "16 word"
  | EvSetSendingTrack nat
  | EvWriteRTCP string

record PeerConnection =
  configuration :: Configuration
  currentLocalDescription :: "SessionDescription option"
  pendingLocalDescription :: "SessionDescription option"
  currentRemoteDescription :: "SessionDescription option"
  pendingRemoteDescription :: "SessionDescription option"
  signalingState :: SignalingState
  connectionState :: PeerConnectionState
  idpLoginURL :: "string option"
  isClosed :: bool
  lastOffer :: string
  lastAnswer :: string
  rtpTransceivers :: "RTPTransceiver list"
  dataChannels :: "16 word \<rightharpoonup> DataChannel"
  dataChannelsRequested :: "32 word"
  iceTransport :: "ICETransport option"
  sctpTransport :: "SCTPTransport option"
  trace :: "event list"
section \<open>The signaling state machine\<close>

text \<open>
  Modelled from the spec: \<^verbatim>\<open>checkNextSignalingState\<close>, which \<^verbatim>\<open>setDescription\<close> calls and
  which is declared in a sibling file, is the transition table of section 4.3. A row of
  the table is (from, op, type, to); every other combination raises
  \<^verbatim>\<open>InvalidModificationError\<close> (the spec does not give its text, the payload here is a
  name for it). On an error the current state is handed back.
\<close>

definition transitionTable :: "(SignalingState \<times> stateChangeOp \<times> SDPType \<times> SignalingState) list" where
  "transitionTable =
     [(SignalingStateStable, stateChangeOpSetLocal, SDPTypeOffer, SignalingStateHaveLocalOffer),
      (SignalingStateHaveLocalOffer, stateChangeOpSetLocal, SDPTypeOffer, SignalingStateHaveLocalOffer),
      (SignalingStateHaveRemoteOffer, stateChangeOpSetLocal, SDPTypeAnswer, SignalingStateStable),
      (SignalingStateHaveRemoteOffer, stateChangeOpSetLocal, SDPTypePranswer, SignalingStateHaveLocalPranswer),
      (SignalingStateHaveLocalPranswer, stateChangeOpSetLocal, SDPTypeAnswer, SignalingStateStable),
      (SignalingStateStable, stateChangeOpSetRemote, SDPTypeOffer, SignalingStateHaveRemoteOffer),
      (SignalingStateHaveLocalOffer, stateChangeOpSetRemote, SDPTypeAnswer, SignalingStateStable),
      (SignalingStateHaveLocalOffer, stateChangeOpSetRemote, SDPTypePranswer, SignalingStateHaveRemotePranswer),
      (SignalingStateHaveRemotePranswer, stateChangeOpSetRemote, SDPTypeAnswer, SignalingStateStable)]"

definition rollbackPermitted :: "SignalingState \<Rightarrow> stateChangeOp \<Rightarrow> SDPType \<Rightarrow> SignalingState \<Rightarrow> bool" where
  "rollbackPermitted cur op sdpType next =
     (sdpType = SDPTypeRollback \<and> cur \<noteq> SignalingStateClosed
      \<and> (op = stateChangeOpSetLocal \<or> op = stateChangeOpSetRemote)
      \<and> next = SignalingStateStable)"

definition checkNextSignalingState ::
  "SignalingState \<Rightarrow> SignalingState \<Rightarrow> stateChangeOp \<Rightarrow> SDPType \<Rightarrow> SignalingState \<times> error option" where
  "checkNextSignalingState cur next op sdpType =
     (if (cur, op, sdpType, next) \<in> set transitionTable \<or> rollbackPermitted cur op sdpType next
      then (next, None)
      else (cur, Some (InvalidModificationError ErrTransitionNotPermitted)))"

subsection \<open>setDescription\<close>

definition newSDPDoesNotMatchOffer :: error where
  "newSDPDoesNotMatchOffer = InvalidModificationError (Errorf ''new sdp does not match previous offer'')"

definition newSDPDoesNotMatchAnswer :: error where
  "newSDPDoesNotMatchAnswer = InvalidModificationError (Errorf ''new sdp does not match previous answer'')"

text \<open>
  The two nested switches of \<^verbatim>\<open>setDescription\<close>. \<open>Inl\<close> is a \<^verbatim>\<open>return\<close> from inside
  the switch; \<open>Inr\<close> carries the PeerConnection after the branch's \<^verbatim>\<open>if err == nil\<close>
  block together with \<^verbatim>\<open>nextState\<close> and \<^verbatim>\<open>err\<close>.
\<close>

definition setDescription_switch ::
  "PeerConnection \<Rightarrow> SessionDescription \<Rightarrow> stateChangeOp
     \<Rightarrow> error + (PeerConnection \<times> SignalingState \<times> error option)" where
  "setDescription_switch pc sd op =
     (let cur = signalingState pc;
          setLocal = stateChangeOpSetLocal;
          setRemote = stateChangeOpSetRemote
      in case op of
        stateChangeOpSetLocal \<Rightarrow>
          (case Type sd of
             SDPTypeOffer \<Rightarrow>
               if SDP sd \<noteq> lastOffer pc then Inl newSDPDoesNotMatchOffer
               else (let (nextState, err) =
                           checkNextSignalingState cur SignalingStateHaveLocalOffer setLocal (Type sd)
                     in Inr (if err = None then pc\<lparr>pendingLocalDescription := Some sd\<rparr> else pc,
                             nextState, err))
           | SDPTypeAnswer \<Rightarrow>
               if SDP sd \<noteq> lastAnswer pc then Inl newSDPDoesNotMatchAnswer
               else (let (nextState, err) =
                           checkNextSignalingState cur SignalingStateStable setLocal (Type sd)
                     in Inr (if err = None
                             then pc\<lparr>currentLocalDescription := Some sd,
                                    currentRemoteDescription := pendingRemoteDescription pc,
                                    pendingRemoteDescription := None,
                                    pendingLocalDescription := None\<rparr>
                             else pc,
                             nextState, err))
           | SDPTypeRollback \<Rightarrow>
               (let (nextState, err) =
                      checkNextSignalingState cur SignalingStateStable setLocal (Type sd)
                in Inr (if err = None then pc\<lparr>pendingLocalDescription := None\<rparr> else pc,
                        nextState, err))
           | SDPTypePranswer \<Rightarrow>
               if SDP sd \<noteq> lastAnswer pc then Inl newSDPDoesNotMatchAnswer
               else (let (nextState, err) =
                           checkNextSignalingState cur SignalingStateHaveLocalPranswer setLocal (Type sd)
                     in Inr (if err = None then pc\<lparr>pendingLocalDescription := Some sd\<rparr> else pc,
                             nextState, err))
           | SDPTypeUnknown \<Rightarrow> Inl (OperationError (Errorf ''invalid state change op: %s(%s)'')))
      | stateChangeOpSetRemote \<Rightarrow>
          (case Type sd of
             SDPTypeOffer \<Rightarrow>
               (let (nextState, err) =
                      checkNextSignalingState cur SignalingStateHaveRemoteOffer setRemote (Type sd)
                in Inr (if err = None then pc\<lparr>pendingRemoteDescription := Some sd\<rparr> else pc,
                        nextState, err))
           | SDPTypeAnswer \<Rightarrow>
               (let (nextState, err) =
                      checkNextSignalingState cur SignalingStateStable setRemote (Type sd)
                in Inr (if err = None
                        then pc\<lparr>currentRemoteDescription := Some sd,
                               currentLocalDescription := pendingLocalDescription pc,
                               pendingRemoteDescription := None,
                               pendingLocalDescription := None\<rparr>
                        else pc,
                        nextState, err))
           | SDPTypeRollback \<Rightarrow>
               (let (nextState, err) =
                      checkNextSignalingState cur SignalingStateStable setRemote (Type sd)
                in Inr (if err = None then pc\<lparr>pendingRemoteDescription := None\<rparr> else pc,
                        nextState, err))
           | SDPTypePranswer \<Rightarrow>
               (let (nextState, err) =
                      checkNextSignalingState cur SignalingStateHaveRemotePranswer setRemote (Type sd)
                in Inr (if err = None then pc\<lparr>pendingRemoteDescription := Some sd\<rparr> else pc,
                        nextState, err))
           | SDPTypeUnknown \<Rightarrow> Inl (OperationError (Errorf ''invalid state change op: %s(%s)'')))
      | stateChangeOpUnknown \<Rightarrow> Inl (OperationError (Errorf ''unhandled state change op: %q'')))"

definition setDescription ::
  "PeerConnection \<Rightarrow> SessionDescription \<Rightarrow> stateChangeOp \<Rightarrow> PeerConnection \<times> error option" where
  "setDescription pc sd op =
     (if isClosed pc then (pc, Some (InvalidStateError ErrConnectionClosed))
      else case setDescription_switch pc sd op of
             Inl e \<Rightarrow> (pc, Some e)
           | Inr (pc1, nextState, err) \<Rightarrow>
               if err = None
               then (pc1\<lparr>signalingState := nextState,
                          trace := trace pc1 @ [OnSignalingStateChange nextState]\<rparr>, None)
               else (pc1, err))"
section \<open>Reading media sections\<close>

definition RemoteDescription :: "PeerConnection \<Rightarrow> SessionDescription option" where
  "RemoteDescription pc =
     (if pendingRemoteDescription pc \<noteq> None then pendingRemoteDescription pc
      else currentRemoteDescription pc)"

fun getPeerDirection_loop :: "env \<Rightarrow> Attribute list \<Rightarrow> RTPTransceiverDirection" where
  "getPeerDirection_loop e [] = RTPTransceiverDirectionUnknown"
| "getPeerDirection_loop e (a # as) =
     (let direction = NewRTPTransceiverDirection e (Key a)
      in if direction \<noteq> RTPTransceiverDirectionUnknown then direction
         else getPeerDirection_loop e as)"

definition getPeerDirection :: "env \<Rightarrow> MediaDescription \<Rightarrow> RTPTransceiverDirection" where
  "getPeerDirection e media = getPeerDirection_loop e (MediaAttributes media)"

fun getMidValue_loop :: "Attribute list \<Rightarrow> string" where
  "getMidValue_loop [] = []"
| "getMidValue_loop (attr # as) = (if Key attr = ''mid'' then Value attr else getMidValue_loop as)"

definition getMidValue :: "MediaDescription \<Rightarrow> string" where
  "getMidValue media = getMidValue_loop (MediaAttributes media)"

subsection \<open>Plan-B detection\<close>

text \<open>
  The regular expression \<^verbatim>\<open>(?i)^(audio|video|data)$\<close>. Under \<^verbatim>\<open>(?i)\<close> a letter of
  the pattern matches itself in either case (none of the letters of the three words has
  a further case variant); \<^verbatim>\<open>^\<close> and \<^verbatim>\<open>$\<close> tie the match to the whole text.
  \<^verbatim>\<open>FindStringSubmatch\<close> returns the match and its one group, or nothing.
\<close>

definition upperASCII :: "char \<Rightarrow> char" where
  "upperASCII c =
     (case map_of (zip ''abcdefghijklmnopqrstuvwxyz'' ''ABCDEFGHIJKLMNOPQRSTUVWXYZ'') c of
        Some u \<Rightarrow> u
      | None \<Rightarrow> c)"

definition lowerASCII :: "char \<Rightarrow> char" where
  "lowerASCII c =
     (case map_of (zip ''ABCDEFGHIJKLMNOPQRSTUVWXYZ'' ''abcdefghijklmnopqrstuvwxyz'') c of
        Some l \<Rightarrow> l
      | None \<Rightarrow> c)"

definition matchFold :: "char \<Rightarrow> char \<Rightarrow> bool" where
  "matchFold p c = (c = p \<or> c = upperASCII p \<or> c = lowerASCII p)"

fun matchLiteralFold :: "string \<Rightarrow> string \<Rightarrow> bool" where
  "matchLiteralFold [] [] = True"
| "matchLiteralFold (p # ps) (c # cs) = (matchFold p c \<and> matchLiteralFold ps cs)"
| "matchLiteralFold _ _ = False"

definition detectionRegex_FindStringSubmatch :: "string \<Rightarrow> string list" where
  "detectionRegex_FindStringSubmatch s =
     (if matchLiteralFold ''audio'' s \<or> matchLiteralFold ''video'' s \<or> matchLiteralFold ''data'' s
      then [s, s] else [])"

fun descriptionIsPlanB_loop :: "MediaDescription list \<Rightarrow> bool" where
  "descriptionIsPlanB_loop [] = False"
| "descriptionIsPlanB_loop (media # rest) =
     (if length (detectionRegex_FindStringSubmatch (getMidValue media)) = 2 then True
      else descriptionIsPlanB_loop rest)"

definition descriptionIsPlanB :: "SessionDescription option \<Rightarrow> bool" where
  "descriptionIsPlanB desc =
     (case desc of
        None \<Rightarrow> False
      | Some d \<Rightarrow>
          (case parsed d of
             None \<Rightarrow> False
           | Some p \<Rightarrow> descriptionIsPlanB_loop (MediaDescriptions p)))"

text \<open>Equality of two texts up to the case of ASCII letters, in the spec's words.\<close>

definition equalIgnoringCase :: "string \<Rightarrow> string \<Rightarrow> bool" where
  "equalIgnoringCase s w = (map lowerASCII s = map lowerASCII w)"

text \<open>
  Detection in the words of the specification: at least one media section carries a
  \<open>mid\<close> attribute whose value is "audio", "video" or "data" up to case.
\<close>

definition spec_isPlanB :: "sdp_SessionDescription \<Rightarrow> bool" where
  "spec_isPlanB p =
     list_ex (\<lambda>m. list_ex (\<lambda>a. Key a = ''mid''
                              \<and> (equalIgnoringCase (Value a) ''audio''
                                 \<or> equalIgnoringCase (Value a) ''video''
                                 \<or> equalIgnoringCase (Value a) ''data''))
                         (MediaAttributes m))
             (MediaDescriptions p)"

text \<open>
  Detection that looks only at the first \<open>mid\<close> attribute of each section: a section
  counts when the first of its attributes with key \<open>mid\<close> has one of the three values
  up to case; further \<open>mid\<close> attributes of the section are not looked at.
\<close>

definition firstMid_isPlanB :: "sdp_SessionDescription \<Rightarrow> bool" where
  "firstMid_isPlanB p =
     list_ex (\<lambda>m. case filter (\<lambda>a. Key a = ''mid'') (MediaAttributes m) of
                     [] \<Rightarrow> False
                   | a # _ \<Rightarrow> equalIgnoringCase (Value a) ''audio''
                              \<or> equalIgnoringCase (Value a) ''video''
                              \<or> equalIgnoringCase (Value a) ''data'')
             (MediaDescriptions p)"

definition singleMid :: "sdp_SessionDescription \<Rightarrow> bool" where
  "singleMid p =
     list_all (\<lambda>m. length (filter (\<lambda>a. Key a = ''mid'') (MediaAttributes m)) \<le> 1)
              (MediaDescriptions p)"

section \<open>Building media sections\<close>

fun addCandidates_loop :: "env \<Rightarrow> ICECandidate list \<Rightarrow> MediaDescription \<Rightarrow> MediaDescription" where
  "addCandidates_loop e [] m = m"
| "addCandidates_loop e (c # cs) m =
     addCandidates_loop e cs
       (media_WithValueAttribute ''candidate'' (candidateValue e c 2)
         (media_WithValueAttribute ''candidate'' (candidateValue e c 1) m))"

definition addCandidatesToMediaDescriptions ::
  "env \<Rightarrow> ICECandidate list \<Rightarrow> MediaDescription \<Rightarrow> MediaDescription" where
  "addCandidatesToMediaDescriptions e candidates m =
     (let m1 = addCandidates_loop e candidates m
      in if candidates \<noteq> [] then media_WithPropertyAttribute ''end-of-candidates'' m1 else m1)"

fun addFeedback_loop :: "8 word \<Rightarrow> RTCPFeedback list \<Rightarrow> MediaDescription \<Rightarrow> MediaDescription" where
  "addFeedback_loop pt [] media = media"
| "addFeedback_loop pt (feedback # rest) media =
     addFeedback_loop pt rest
       (media_WithValueAttribute ''rtcp-fb''
          (Itoa (unat pt) @ '' '' @ fb_Type feedback @ '' '' @ fb_Parameter feedback) media)"

fun addCodecs_loop :: "RTPCodec list \<Rightarrow> MediaDescription \<Rightarrow> MediaDescription" where
  "addCodecs_loop [] media = media"
| "addCodecs_loop (codec # rest) media =
     addCodecs_loop rest
       (addFeedback_loop (codec_PayloadType codec) (codec_RTCPFeedback codec)
          (WithCodec (codec_PayloadType codec) (codec_Name codec) (codec_ClockRate codec)
             (codec_Channels codec) (codec_SDPFmtpLine codec) media))"

text \<open>
  The loop over the transceivers of one section: a sending track adds its source lines;
  under Unified Plan the first one also adds the \<^verbatim>\<open>msid\<close> line and ends the loop.
\<close>

fun addMediaSources_loop :: "SDPSemantics \<Rightarrow> RTPTransceiver list \<Rightarrow> MediaDescription \<Rightarrow> MediaDescription" where
  "addMediaSources_loop sem [] media = media"
| "addMediaSources_loop sem (mt # rest) media =
     (case Sender mt of
        None \<Rightarrow> addMediaSources_loop sem rest media
      | Some s \<Rightarrow>
          (case sender_track s of
             None \<Rightarrow> addMediaSources_loop sem rest media
           | Some track \<Rightarrow>
               (let media1 = WithMediaSource (track_ssrc track) (track_label track)
                               (track_label track) (track_id track) media
                in if sem = SDPSemanticsUnifiedPlan
                   then media_WithPropertyAttribute
                          (''msid:'' @ track_label track @ '' '' @ track_id track) media1
                   else addMediaSources_loop sem rest media1)))"

definition rejectedMedia :: "string \<Rightarrow> MediaDescription" where
  "rejectedMedia kindName =
     \<lparr>Media = kindName, Port = 0, Protos = [''UDP'', ''TLS'', ''RTP'', ''SAVPF''],
      Formats = [''0''], ConnectionInformation = None, MediaAttributes = []\<rparr>"

definition addTransceiverSDP ::
  "env \<Rightarrow> PeerConnection \<Rightarrow> sdp_SessionDescription \<Rightarrow> string \<Rightarrow> ICEParameters
     \<Rightarrow> ICECandidate list \<Rightarrow> ConnectionRole \<Rightarrow> RTPTransceiver list
     \<Rightarrow> error + sdp_SessionDescription" where
  "addTransceiverSDP e pc d midValue iceParams candidates dtlsRole transceivers =
     (case transceivers of
        [] \<Rightarrow> Inl (Errorf ''addTransceiverSDP() called with 0 transceivers'')
      | t # _ \<Rightarrow>
          (let m0 = NewJSEPMediaDescription (RTPCodecType_String e (kind t));
               m1 = media_WithValueAttribute ''setup'' (ConnectionRole_String dtlsRole) m0;
               m2 = media_WithValueAttribute ''mid'' midValue m1;
               m3 = WithICECredentials (UsernameFragment iceParams) (Password iceParams) m2;
               m4 = media_WithPropertyAttribute ''rtcp-mux'' m3;
               m5 = media_WithPropertyAttribute ''rtcp-rsize'' m4;
               codecs = GetCodecsByKind e (kind t);
               m6 = addCodecs_loop codecs m5
           in if codecs = []
              then Inr (WithMedia (rejectedMedia (RTPCodecType_String e (kind t))) d)
              else (let m7 = addMediaSources_loop (SDPSemantics (configuration pc)) transceivers m6;
                        m8 = media_WithPropertyAttribute
                               (RTPTransceiverDirection_String e (Direction t)) m7;
                        m9 = addCandidatesToMediaDescriptions e candidates m8
                    in Inr (WithMedia m9 d))))"

definition addDataMediaSection ::
  "env \<Rightarrow> sdp_SessionDescription \<Rightarrow> string \<Rightarrow> ICEParameters \<Rightarrow> ICECandidate list
     \<Rightarrow> ConnectionRole \<Rightarrow> sdp_SessionDescription" where
  "addDataMediaSection e d midValue iceParams candidates dtlsRole =
     (let m0 = \<lparr>Media = ''application'', Port = 9, Protos = [''DTLS'', ''SCTP''],
                Formats = [''5000''], ConnectionInformation = Some (''IN'', ''IP4'', ''0.0.0.0''),
                MediaAttributes = []\<rparr>;
          m1 = media_WithValueAttribute ''setup'' (ConnectionRole_String dtlsRole) m0;
          m2 = media_WithValueAttribute ''mid'' midValue m1;
          m3 = media_WithPropertyAttribute
                 (RTPTransceiverDirection_String e RTPTransceiverDirectionSendrecv) m2;
          m4 = media_WithPropertyAttribute ''sctpmap:5000 webrtc-datachannel 1024'' m3;
          m5 = WithICECredentials (UsernameFragment iceParams) (Password iceParams) m4;
          m6 = addCandidatesToMediaDescriptions e candidates m5
      in WithMedia m6 d)"

fun addFingerprint_loop :: "env \<Rightarrow> DTLSFingerprint list \<Rightarrow> sdp_SessionDescription \<Rightarrow> sdp_SessionDescription" where
  "addFingerprint_loop e [] d = d"
| "addFingerprint_loop e (fingerprint # rest) d =
     addFingerprint_loop e rest
       (WithFingerprint (fp_Algorithm fingerprint) (ToUpper e (fp_Value fingerprint)) d)"

definition addFingerprint :: "env \<Rightarrow> PeerConnection \<Rightarrow> sdp_SessionDescription \<Rightarrow> error + sdp_SessionDescription" where
  "addFingerprint e pc d =
     (case Certificates (configuration pc) of
        [] \<Rightarrow> Inl (Panic ''index out of range'')
      | c # _ \<Rightarrow>
          (case GetFingerprints e c of
             Inl err \<Rightarrow> Inl err
           | Inr fingerprints \<Rightarrow> Inr (addFingerprint_loop e fingerprints d)))"
section \<open>CreateOffer\<close>

datatype OfferOptions = OfferOptions
datatype AnswerOptions = AnswerOptions

text \<open>The closure \<^verbatim>\<open>appendBundle\<close> of \<^verbatim>\<open>CreateOffer\<close> on its two captured variables.\<close>

definition appendBundle :: "string \<Rightarrow> string \<times> nat \<Rightarrow> string \<times> nat" where
  "appendBundle midValue b = (fst b @ '' '' @ midValue, snd b + 1)"

text \<open>The loop of the Unified Plan branch: one section per transceiver.\<close>

fun offerTransceivers_loop ::
  "env \<Rightarrow> PeerConnection \<Rightarrow> ICEParameters \<Rightarrow> ICECandidate list \<Rightarrow> RTPTransceiver list
     \<Rightarrow> sdp_SessionDescription \<times> string \<times> nat
     \<Rightarrow> error + (sdp_SessionDescription \<times> string \<times> nat)" where
  "offerTransceivers_loop e pc iceParams candidates [] st = Inr st"
| "offerTransceivers_loop e pc iceParams candidates (t # ts) (d, b) =
     (let midValue = Itoa (snd b)
      in case addTransceiverSDP e pc d midValue iceParams candidates ConnectionRoleActpass [t] of
           Inl err \<Rightarrow> Inl err
         | Inr d1 \<Rightarrow>
             offerTransceivers_loop e pc iceParams candidates ts (d1, appendBundle midValue b))"

text \<open>One Plan-B section for the transceivers of one kind, when there are any.\<close>

definition offerPlanBKind ::
  "env \<Rightarrow> PeerConnection \<Rightarrow> ICEParameters \<Rightarrow> ICECandidate list \<Rightarrow> string
     \<Rightarrow> RTPTransceiver list \<Rightarrow> sdp_SessionDescription \<times> string \<times> nat
     \<Rightarrow> error + (sdp_SessionDescription \<times> string \<times> nat)" where
  "offerPlanBKind e pc iceParams candidates midValue ts st =
     (case st of (d, b) \<Rightarrow>
        if length ts > 0 then
          (case addTransceiverSDP e pc d midValue iceParams candidates ConnectionRoleActpass ts of
             Inl err \<Rightarrow> Inl err
           | Inr d1 \<Rightarrow> Inr (d1, appendBundle midValue b))
        else Inr st)"

definition offerSections ::
  "env \<Rightarrow> PeerConnection \<Rightarrow> ICEParameters \<Rightarrow> ICECandidate list \<Rightarrow> sdp_SessionDescription
     \<Rightarrow> error + (sdp_SessionDescription \<times> string \<times> nat)" where
  "offerSections e pc iceParams candidates d =
     (if SDPSemantics (configuration pc) = SDPSemanticsPlanB then
        (let video = filter (\<lambda>t. kind t = RTPCodecTypeVideo) (rtpTransceivers pc);
             audio = filter (\<lambda>t. kind t = RTPCodecTypeAudio) (rtpTransceivers pc)
         in case offerPlanBKind e pc iceParams candidates ''video'' video (d, ''BUNDLE'', 0) of
              Inl err \<Rightarrow> Inl err
            | Inr st \<Rightarrow> offerPlanBKind e pc iceParams candidates ''audio'' audio st)
      else offerTransceivers_loop e pc iceParams candidates (rtpTransceivers pc) (d, ''BUNDLE'', 0))"

definition CreateOffer ::
  "env \<Rightarrow> PeerConnection \<Rightarrow> OfferOptions option \<Rightarrow> PeerConnection \<times> (error + SessionDescription)" where
  "CreateOffer e pc options =
     (let useIdentity = (idpLoginURL pc \<noteq> None)
      in if options \<noteq> None then (pc, Inl (Errorf ''TODO handle options''))
         else if useIdentity then (pc, Inl (Errorf ''TODO handle identity provider''))
         else if isClosed pc then (pc, Inl (InvalidStateError ErrConnectionClosed))
         else
           (case addFingerprint e pc (NewJSEPSessionDescription useIdentity) of
              Inl err \<Rightarrow> (pc, Inl err)
            | Inr d0 \<Rightarrow>
           (case GetLocalParameters e of
              Inl err \<Rightarrow> (pc, Inl err)
            | Inr iceParams \<Rightarrow>
           (case GetLocalCandidates e of
              Inl err \<Rightarrow> (pc, Inl err)
            | Inr candidates \<Rightarrow>
           (case offerSections e pc iceParams candidates d0 of
              Inl err \<Rightarrow> (pc, Inl err)
            | Inr (d1, b) \<Rightarrow>
                (let midValue = (if SDPSemantics (configuration pc) = SDPSemanticsPlanB
                                 then ''data'' else Itoa (snd b));
                     d2 = addDataMediaSection e d1 midValue iceParams candidates ConnectionRoleActpass;
                     b2 = appendBundle midValue b;
                     d3 = WithValueAttribute ''group'' (fst b2) d2
                 in case Marshal e d3 of
                      Inl err \<Rightarrow> (pc, Inl err)
                    | Inr sdpBytes \<Rightarrow>
                        (let desc = \<lparr>Type = SDPTypeOffer, SDP = sdpBytes, parsed = Some d3\<rparr>
                         in (pc\<lparr>lastOffer := SDP desc\<rparr>, Inr desc))))))))"

subsection \<open>The layout of an offer in the words of the specification\<close>

text \<open>
  The mids of the sections of a Unified Plan offer, in order: the decimal position for a
  transceiver whose kind has a codec, no mid for the rejected section of a transceiver
  whose kind has none, and the number of transceivers for the data section, which comes
  last. The BUNDLE group lists the decimal positions 0 to that number.
\<close>

definition spec_unifiedMids :: "env \<Rightarrow> RTPTransceiver list \<Rightarrow> nat \<Rightarrow> string list" where
  "spec_unifiedMids e ts n =
     map (\<lambda>(i, t). if GetCodecsByKind e (kind t) = [] then [] else Itoa i) (enumerate n ts)"

definition spec_bundle :: "string list \<Rightarrow> string" where
  "spec_bundle mids = ''BUNDLE'' @ concat (map (\<lambda>m. '' '' @ m) mids)"

text \<open>
  Under Plan-B: a \<open>video\<close> section when there is a video transceiver, an \<open>audio\<close>
  section when there is an audio transceiver, and the \<open>data\<close> section.
\<close>

definition spec_planBNames :: "RTPTransceiver list \<Rightarrow> string list" where
  "spec_planBNames ts =
     (if filter (\<lambda>t. kind t = RTPCodecTypeVideo) ts \<noteq> [] then [''video''] else [])
     @ (if filter (\<lambda>t. kind t = RTPCodecTypeAudio) ts \<noteq> [] then [''audio''] else [])
     @ [''data'']"

definition spec_planBMids :: "env \<Rightarrow> RTPTransceiver list \<Rightarrow> string list" where
  "spec_planBMids e ts =
     (if filter (\<lambda>t. kind t = RTPCodecTypeVideo) ts \<noteq> []
      then [if GetCodecsByKind e RTPCodecTypeVideo = [] then [] else ''video''] else [])
     @ (if filter (\<lambda>t. kind t = RTPCodecTypeAudio) ts \<noteq> []
        then [if GetCodecsByKind e RTPCodecTypeAudio = [] then [] else ''audio''] else [])
     @ [''data'']"

text \<open>
  What is read off one section: its media name, its port, and the value of the first of
  its attributes with key \<open>mid\<close>, if it has one. A rejected section has port 0.
\<close>

definition firstMid :: "MediaDescription \<Rightarrow> string option" where
  "firstMid m =
     (case filter (\<lambda>a. Key a = ''mid'') (MediaAttributes m) of
        [] \<Rightarrow> None
      | a # _ \<Rightarrow> Some (Value a))"

definition sectionLayout :: "MediaDescription \<Rightarrow> string \<times> int \<times> string option" where
  "sectionLayout m = (Media m, Port m, firstMid m)"

text \<open>
  The section of a transceiver kind under the mid \<open>midValue\<close>: with the mid and port 9
  when the media engine has a codec of the kind, rejected and without mid when it has
  none.
\<close>

definition spec_section :: "env \<Rightarrow> RTPCodecType \<Rightarrow> string \<Rightarrow> string \<times> int \<times> string option" where
  "spec_section e k midValue =
     (if GetCodecsByKind e k = [] then (RTPCodecType_String e k, 0, None)
      else (RTPCodecType_String e k, 9, Some midValue))"

definition spec_unifiedLayout :: "env \<Rightarrow> RTPTransceiver list \<Rightarrow> (string \<times> int \<times> string option) list" where
  "spec_unifiedLayout e ts =
     map (\<lambda>(i, t). spec_section e (kind t) (Itoa i)) (enumerate 0 ts)
     @ [(''application'', 9, Some (Itoa (length ts)))]"

definition spec_planBLayout :: "env \<Rightarrow> RTPTransceiver list \<Rightarrow> (string \<times> int \<times> string option) list" where
  "spec_planBLayout e ts =
     (if filter (\<lambda>t. kind t = RTPCodecTypeVideo) ts \<noteq> []
      then [spec_section e RTPCodecTypeVideo ''video''] else [])
     @ (if filter (\<lambda>t. kind t = RTPCodecTypeAudio) ts \<noteq> []
        then [spec_section e RTPCodecTypeAudio ''audio''] else [])
     @ [(''application'', 9, Some ''data'')]"

definition groupAttributes :: "sdp_SessionDescription \<Rightarrow> string list" where
  "groupAttributes d = map Value (filter (\<lambda>a. Key a = ''group'') (Attributes d))"

section \<open>CreateAnswer\<close>

lemma scanTransceivers_shorter:
  "scanTransceivers k d xs i = Some (t, ys) \<Longrightarrow> Suc (length ys) = length xs"
proof (induction k d xs i rule: scanTransceivers.induct)
  case (1 k d xs i)
  show ?case
  proof (cases "i < length xs")
    case False
    with "1.prems" show ?thesis by (simp add: scanTransceivers.simps)
  next
    case True
    show ?thesis
    proof (cases "kind (xs ! i) \<noteq> k \<or> d \<noteq> Direction (xs ! i)")
      case miss: True
      with True "1.prems" have "scanTransceivers k d xs (i + 1) = Some (t, ys)"
        by (subst (asm) scanTransceivers.simps) (simp add: Let_def)
      with "1.IH" [OF True refl miss] show ?thesis .
    next
      case False
      with True "1.prems" have "ys = take i xs @ drop (i + 1) xs"
        by (subst (asm) scanTransceivers.simps) (simp add: Let_def)
      with True show ?thesis by simp
    qed
  qed
qed

lemma scanTransceivers_direction:
  "scanTransceivers k d xs i = Some (t, ys) \<Longrightarrow> Direction t = d"
proof (induction k d xs i rule: scanTransceivers.induct)
  case (1 k d xs i)
  show ?case
  proof (cases "i < length xs")
    case False
    with "1.prems" show ?thesis by (simp add: scanTransceivers.simps)
  next
    case True
    show ?thesis
    proof (cases "kind (xs ! i) \<noteq> k \<or> d \<noteq> Direction (xs ! i)")
      case miss: True
      with True "1.prems" have "scanTransceivers k d xs (i + 1) = Some (t, ys)"
        by (subst (asm) scanTransceivers.simps) (simp add: Let_def)
      with "1.IH" [OF True refl miss] show ?thesis .
    next
      case False
      with True "1.prems" have "t = xs ! i"
        by (subst (asm) scanTransceivers.simps) (simp add: Let_def)
      with False show ?thesis by simp
    qed
  qed
qed

lemma scanDirections_shorter:
  "scanDirections k ds xs = Some (t, ys) \<Longrightarrow> Suc (length ys) = length xs"
  by (induction ds) (auto split: option.splits dest: scanTransceivers_shorter)

lemma satisfyTypeAndDirection_shorter:
  assumes "satisfyTypeAndDirection k d xs = (t, ys)"
    and "Direction t \<noteq> RTPTransceiverDirectionInactive"
  shows "length ys < length xs"
proof (cases "scanDirections k (getPreferredDirections d) xs")
  case None
  with assms(1) have "t = inactiveTransceiver k"
    by (simp add: satisfyTypeAndDirection_def)
  with assms(2) show ?thesis
    by (simp add: inactiveTransceiver_def)
next
  case (Some r)
  with assms(1) have "scanDirections k (getPreferredDirections d) xs = Some (t, ys)"
    by (simp add: satisfyTypeAndDirection_def)
  from scanDirections_shorter [OF this] show ?thesis by simp
qed

text \<open>
  The Plan-B loop \<^verbatim>\<open>for { ... }\<close> that keeps plucking transceivers of the same kind and
  direction until \<^verbatim>\<open>satisfyTypeAndDirection\<close> hands back an inactive one. Every round
  that goes on has taken one transceiver out of the list, so the loop ends.
\<close>

function fillPlanB ::
  "RTPCodecType \<Rightarrow> RTPTransceiverDirection \<Rightarrow> RTPTransceiver list \<Rightarrow> RTPTransceiver list
     \<Rightarrow> RTPTransceiver list \<times> RTPTransceiver list" where
  "fillPlanB k direction localTransceivers mediaTransceivers =
     (case satisfyTypeAndDirection k direction localTransceivers of
        (t, localTransceivers1) \<Rightarrow>
          if Direction t = RTPTransceiverDirectionInactive
          then (localTransceivers1, mediaTransceivers)
          else fillPlanB k direction localTransceivers1 (mediaTransceivers @ [t]))"
  by pat_completeness auto
termination
  by (relation "measure (\<lambda>(k, d, xs, ms). length xs)")
     (auto dest: satisfyTypeAndDirection_shorter [OF sym])

declare fillPlanB.simps [simp del]

text \<open>
  The \<^verbatim>\<open>switch pc.configuration.SDPSemantics\<close> of one RTP section: an error, or the
  remaining local transceivers and the transceivers of the section.
\<close>

definition answerSemantics ::
  "SDPSemantics \<Rightarrow> bool \<Rightarrow> RTPCodecType \<Rightarrow> RTPTransceiverDirection \<Rightarrow> RTPTransceiver list
     \<Rightarrow> RTPTransceiver list \<Rightarrow> error + (RTPTransceiver list \<times> RTPTransceiver list)" where
  "answerSemantics sem detectedPlanB k direction localTransceivers mediaTransceivers =
     (case sem of
        SDPSemanticsUnifiedPlanWithFallback \<Rightarrow>
          if \<not> detectedPlanB then Inr (localTransceivers, mediaTransceivers)
          else if \<not> detectedPlanB then Inl (TypeError ErrIncorrectSDPSemantics)
          else Inr (fillPlanB k direction localTransceivers mediaTransceivers)
      | SDPSemanticsPlanB \<Rightarrow>
          if \<not> detectedPlanB then Inl (TypeError ErrIncorrectSDPSemantics)
          else Inr (fillPlanB k direction localTransceivers mediaTransceivers)
      | SDPSemanticsUnifiedPlan \<Rightarrow>
          if detectedPlanB then Inl (TypeError ErrIncorrectSDPSemantics)
          else Inr (localTransceivers, mediaTransceivers))"

fun answerMedia_loop ::
  "env \<Rightarrow> PeerConnection \<Rightarrow> ICEParameters \<Rightarrow> ICECandidate list \<Rightarrow> bool \<Rightarrow> MediaDescription list
     \<Rightarrow> sdp_SessionDescription \<times> string \<times> RTPTransceiver list
     \<Rightarrow> error + (sdp_SessionDescription \<times> string \<times> RTPTransceiver list)" where
  "answerMedia_loop e pc iceParams candidates detectedPlanB [] st = Inr st"
| "answerMedia_loop e pc iceParams candidates detectedPlanB (media # rest) (d, bundleValue, localTransceivers) =
     (let midValue = getMidValue media
      in if midValue = [] then
           Inl (Errorf ''RemoteDescription contained media section without mid value'')
         else if Media media = ''application'' then
           answerMedia_loop e pc iceParams candidates detectedPlanB rest
             (addDataMediaSection e d midValue iceParams candidates ConnectionRoleActive,
              bundleValue @ '' '' @ midValue, localTransceivers)
         else
           (let k = NewRTPCodecType e (Media media);
                direction = getPeerDirection e media
            in if k = RTPCodecTypeUnknown \<or> direction = RTPTransceiverDirectionUnknown then
                 answerMedia_loop e pc iceParams candidates detectedPlanB rest
                   (d, bundleValue, localTransceivers)
               else
                 (case satisfyTypeAndDirection k direction localTransceivers of
                    (t, localTransceivers1) \<Rightarrow>
                 (case answerSemantics (SDPSemantics (configuration pc)) detectedPlanB k direction
                         localTransceivers1 [t] of
                    Inl err \<Rightarrow> Inl err
                  | Inr (localTransceivers2, mediaTransceivers) \<Rightarrow>
                 (case addTransceiverSDP e pc d midValue iceParams candidates ConnectionRoleActive
                         mediaTransceivers of
                    Inl err \<Rightarrow> Inl err
                  | Inr d1 \<Rightarrow>
                      answerMedia_loop e pc iceParams candidates detectedPlanB rest
                        (d1, bundleValue @ '' '' @ midValue, localTransceivers2))))))"

definition addAnswerMediaTransceivers ::
  "env \<Rightarrow> PeerConnection \<Rightarrow> sdp_SessionDescription \<Rightarrow> error + sdp_SessionDescription" where
  "addAnswerMediaTransceivers e pc d =
     (case GetLocalParameters e of
        Inl err \<Rightarrow> Inl err
      | Inr iceParams \<Rightarrow>
     (case GetLocalCandidates e of
        Inl err \<Rightarrow> Inl err
      | Inr candidates \<Rightarrow>
          (let localTransceivers = rtpTransceivers pc;
               detectedPlanB = descriptionIsPlanB (RemoteDescription pc)
           in case RemoteDescription pc of
                None \<Rightarrow> Inl (Panic ''nil pointer dereference'')
              | Some rd \<Rightarrow>
             (case parsed rd of
                None \<Rightarrow> Inl (Panic ''nil pointer dereference'')
              | Some p \<Rightarrow>
             (case answerMedia_loop e pc iceParams candidates detectedPlanB (MediaDescriptions p)
                     (d, ''BUNDLE'', localTransceivers) of
                Inl err \<Rightarrow> Inl err
              | Inr (d1, bundleValue, _) \<Rightarrow> Inr (WithValueAttribute ''group'' bundleValue d1))))))"

definition CreateAnswer ::
  "env \<Rightarrow> PeerConnection \<Rightarrow> AnswerOptions option \<Rightarrow> PeerConnection \<times> (error + SessionDescription)" where
  "CreateAnswer e pc options =
     (let useIdentity = (idpLoginURL pc \<noteq> None)
      in if options \<noteq> None then (pc, Inl (Errorf ''TODO handle options''))
         else if RemoteDescription pc = None then (pc, Inl (InvalidStateError ErrNoRemoteDescription))
         else if useIdentity then (pc, Inl (Errorf ''TODO handle identity provider''))
         else if isClosed pc then (pc, Inl (InvalidStateError ErrConnectionClosed))
         else
           (case addFingerprint e pc (NewJSEPSessionDescription useIdentity) of
              Inl err \<Rightarrow> (pc, Inl err)
            | Inr d0 \<Rightarrow>
           (case addAnswerMediaTransceivers e pc d0 of
              Inl err \<Rightarrow> (pc, Inl err)
            | Inr d \<Rightarrow>
           (case Marshal e d of
              Inl err \<Rightarrow> (pc, Inl err)
            | Inr sdpBytes \<Rightarrow>
                (let desc = \<lparr>Type = SDPTypeAnswer, SDP = sdpBytes, parsed = Some d\<rparr>
                 in (pc\<lparr>lastAnswer := SDP desc\<rparr>, Inr desc))))))"

text \<open>
  Which remote media sections the answer's walk acts on. A section counts as an RTP
  section when it is not an \<^verbatim>\<open>application\<close> section and both its kind and its
  direction are recognised; the walk reaches an RTP section when one comes before any
  section without a mid.
\<close>

definition isRTPSection :: "env \<Rightarrow> MediaDescription \<Rightarrow> bool" where
  "isRTPSection e media =
     (Media media \<noteq> ''application''
      \<and> NewRTPCodecType e (Media media) \<noteq> RTPCodecTypeUnknown
      \<and> getPeerDirection e media \<noteq> RTPTransceiverDirectionUnknown)"

fun reachesRTPSection :: "env \<Rightarrow> MediaDescription list \<Rightarrow> bool" where
  "reachesRTPSection e [] = False"
| "reachesRTPSection e (media # rest) =
     (if getMidValue media = [] then False
      else if isRTPSection e media then True
      else reachesRTPSection e rest)"

text \<open>
  The two combinations of configured semantics and detected offer format that
  \<open>answerSemantics\<close> refuses.
\<close>

definition semanticsMismatch :: "SDPSemantics \<Rightarrow> bool \<Rightarrow> bool" where
  "semanticsMismatch sem detectedPlanB =
     (sem = SDPSemanticsUnifiedPlan \<and> detectedPlanB
      \<or> sem = SDPSemanticsPlanB \<and> \<not> detectedPlanB)"

section \<open>SetLocalDescription and SetRemoteDescription\<close>

definition SetLocalDescription ::
  "env \<Rightarrow> PeerConnection \<Rightarrow> SessionDescription \<Rightarrow> PeerConnection \<times> error option" where
  "SetLocalDescription e pc desc =
     (if isClosed pc then (pc, Some (InvalidStateError ErrConnectionClosed))
      else
        (case (if SDP desc = [] then
                 (case Type desc of
                    SDPTypeAnswer \<Rightarrow> Inr (desc\<lparr>SDP := lastAnswer pc\<rparr>)
                  | SDPTypePranswer \<Rightarrow> Inr (desc\<lparr>SDP := lastAnswer pc\<rparr>)
                  | SDPTypeOffer \<Rightarrow> Inr (desc\<lparr>SDP := lastOffer pc\<rparr>)
                  | _ \<Rightarrow> Inl (InvalidModificationError
                              (Errorf ''invalid SDP type supplied to SetLocalDescription(): %s'')))
               else Inr desc) of
           Inl err \<Rightarrow> (pc, Some err)
         | Inr desc1 \<Rightarrow>
        (case Unmarshal e (SDP desc1) of
           Inl err \<Rightarrow> (pc, Some err)
         | Inr p \<Rightarrow>
        (let desc2 = desc1\<lparr>parsed := Some p\<rparr>
         in case setDescription pc desc2 stateChangeOpSetLocal of
              (pc1, Some err) \<Rightarrow> (pc1, Some err)
            | (pc1, None) \<Rightarrow>
                if \<not> agentIsTrickle e then
                  (pc1\<lparr>trace := trace pc1 @ [EvSignalCandidates]\<rparr>, SignalCandidates e)
                else if Type desc2 = SDPTypeAnswer then
                  (pc1\<lparr>trace := trace pc1 @ [EvGather]\<rparr>, Gather e)
                else (pc1, None)))))"

text \<open>
  The loop over the attributes of one remote media section: candidates go to the ICE
  transport, and the text after \<^verbatim>\<open>ice-ufrag:\<close> and \<^verbatim>\<open>ice-pwd:\<close> is kept. The slice
  \<^verbatim>\<open>(*a.String())[len("ice-ufrag:"):]\<close> panics on a text shorter than the prefix with its
  colon. The state is handed back with the error, since candidates delivered before a
  failure stay delivered.
\<close>

fun remoteAttributes_loop ::
  "env \<Rightarrow> Attribute list \<Rightarrow> string \<times> string \<times> event list
     \<Rightarrow> (string \<times> string \<times> event list) \<times> error option" where
  "remoteAttributes_loop e [] st = (st, None)"
| "remoteAttributes_loop e (a # as) (remoteUfrag, remotePwd, evs) =
     (if IsICECandidate a then
        (case AddRemoteCandidate e a of
           Some err \<Rightarrow> ((remoteUfrag, remotePwd, evs), Some err)
         | None \<Rightarrow> remoteAttributes_loop e as (remoteUfrag, remotePwd, evs @ [EvAddRemoteCandidate a]))
      else if HasPrefix (Attribute_String a) ''ice-ufrag'' then
        (if length (Attribute_String a) < length ''ice-ufrag:''
         then ((remoteUfrag, remotePwd, evs), Some (Panic ''slice bounds out of range''))
         else remoteAttributes_loop e as
                (drop (length ''ice-ufrag:'') (Attribute_String a), remotePwd, evs))
      else if HasPrefix (Attribute_String a) ''ice-pwd'' then
        (if length (Attribute_String a) < length ''ice-pwd:''
         then ((remoteUfrag, remotePwd, evs), Some (Panic ''slice bounds out of range''))
         else remoteAttributes_loop e as
                (remoteUfrag, drop (length ''ice-pwd:'') (Attribute_String a), evs))
      else remoteAttributes_loop e as (remoteUfrag, remotePwd, evs))"

fun remoteMedia_loop ::
  "env \<Rightarrow> MediaDescription list \<Rightarrow> (string \<times> bool) \<times> string \<times> string \<times> event list
     \<Rightarrow> ((string \<times> bool) \<times> string \<times> string \<times> event list) \<times> error option" where
  "remoteMedia_loop e [] st = (st, None)"
| "remoteMedia_loop e (m # ms) (fp, st) =
     (let fp1 = (if \<not> snd fp then lookupAttribute (MediaAttributes m) ''fingerprint'' else fp)
      in case remoteAttributes_loop e (MediaAttributes m) st of
           (st1, Some err) \<Rightarrow> ((fp1, st1), Some err)
         | (st1, None) \<Rightarrow> remoteMedia_loop e ms (fp1, st1))"

text \<open>
  \<^verbatim>\<open>SetRemoteDescription\<close>. The background task that starts ICE, DTLS, SRTP and SCTP
  runs concurrently with the caller; here it is the one event that records what it was
  started with.
\<close>

definition SetRemoteDescription ::
  "env \<Rightarrow> PeerConnection \<Rightarrow> SessionDescription \<Rightarrow> PeerConnection \<times> error option" where
  "SetRemoteDescription e pc desc =
     (if currentRemoteDescription pc \<noteq> None then
        (pc, Some (Errorf ''remoteDescription is already defined, SetRemoteDescription can only be called once''))
      else if isClosed pc then (pc, Some (InvalidStateError ErrConnectionClosed))
      else
        (case Unmarshal e (SDP desc) of
           Inl err \<Rightarrow> (pc, Some err)
         | Inr p \<Rightarrow>
        (let desc1 = desc\<lparr>parsed := Some p\<rparr>
         in case setDescription pc desc1 stateChangeOpSetRemote of
              (pc1, Some err) \<Rightarrow> (pc1, Some err)
            | (pc1, None) \<Rightarrow>
        (let weOffer = (Type desc1 \<noteq> SDPTypeOffer)
         in case RemoteDescription pc1 of
              None \<Rightarrow> (pc1, Some (Panic ''nil pointer dereference''))
            | Some rd \<Rightarrow>
           (case parsed rd of
              None \<Rightarrow> (pc1, Some (Panic ''nil pointer dereference''))
            | Some rp \<Rightarrow>
           (case remoteMedia_loop e (MediaDescriptions rp)
                   (lookupAttribute (Attributes p) ''fingerprint'', [], [], []) of
              (((fingerprint, haveFingerprint), remoteUfrag, remotePwd, evs), res) \<Rightarrow>
           (let pc2 = pc1\<lparr>trace := trace pc1 @ evs\<rparr>
            in case res of
                 Some err \<Rightarrow> (pc2, Some err)
               | None \<Rightarrow>
                   if \<not> haveFingerprint then (pc2, Some (Errorf ''could not find fingerprint''))
                   else
                     (let parts = Split_space fingerprint
                      in if length parts \<noteq> 2 then (pc2, Some (Errorf ''invalid fingerprint''))
                         else
                           (let pc3 = pc2\<lparr>sctpTransport := Some (NewSCTPTransport e),
                                          trace := trace pc2 @
                                            [EvStartNetworking weOffer remoteUfrag remotePwd
                                               (parts ! 0) (parts ! 1)]\<rparr>
                            in if (Type desc1 = SDPTypeAnswer \<or> Type desc1 = SDPTypePranswer)
                                  \<and> agentIsTrickle e
                               then (pc3\<lparr>trace := trace pc3 @ [EvGather]\<rparr>, Gather e)
                               else (pc3, None))))))))))"

section \<open>Data channels\<close>

text \<open>
  The loop \<^verbatim>\<open>for ; id < max-1; id += 2\<close> of \<^verbatim>\<open>generateDataChannelID\<close> on \<^verbatim>\<open>uint16\<close>: both
  \<^verbatim>\<open>max-1\<close> and \<^verbatim>\<open>id += 2\<close> wrap around, so the loop need not end, and a run that never
  returns has the value \<open>None\<close>. Here \<open>mx\<close> is the source's \<^verbatim>\<open>max\<close> and \<open>i\<close> its
  \<^verbatim>\<open>id\<close>.
\<close>

partial_function (option) generateDataChannelID_loop ::
  "(16 word \<rightharpoonup> DataChannel) \<Rightarrow> 16 word \<Rightarrow> 16 word \<Rightarrow> (error + 16 word) option" where
  "generateDataChannelID_loop chans mx i =
     (if i < mx - 1 then
        (case chans i of
           None \<Rightarrow> Some (Inr i)
         | Some _ \<Rightarrow> generateDataChannelID_loop chans mx (i + 2))
      else Some (Inl (OperationError ErrMaxDataChannelID)))"

definition channelLimit :: "env \<Rightarrow> PeerConnection \<Rightarrow> 16 word" where
  "channelLimit e pc =
     (case sctpTransport pc of
        None \<Rightarrow> sctpMaxChannels e
      | Some t \<Rightarrow> sctp_MaxChannels t)"

definition generateDataChannelID :: "env \<Rightarrow> PeerConnection \<Rightarrow> bool \<Rightarrow> (error + 16 word) option" where
  "generateDataChannelID e pc client =
     generateDataChannelID_loop (dataChannels pc) (channelLimit e pc) (if \<not> client then 1 else 0)"

definition CreateDataChannel ::
  "env \<Rightarrow> PeerConnection \<Rightarrow> string \<Rightarrow> DataChannelInit option
     \<Rightarrow> (PeerConnection \<times> (error + DataChannel)) option" where
  "CreateDataChannel e pc label options =
     (if isClosed pc then Some (pc, Inl (InvalidStateError ErrConnectionClosed))
      else
        (case (case options of
                 None \<Rightarrow> generateDataChannelID e pc True
               | Some opts \<Rightarrow>
                   (case init_ID opts of
                      None \<Rightarrow> generateDataChannelID e pc True
                    | Some i \<Rightarrow> Some (Inr i))) of
           None \<Rightarrow> None
         | Some (Inl err) \<Rightarrow> Some (pc, Inl err)
         | Some (Inr i) \<Rightarrow>
             (let params =
                    (case options of
                       None \<Rightarrow>
                         \<lparr>Label = label, ID = i, Ordered = True,
                          MaxPacketLifeTime = None, MaxRetransmits = None\<rparr>
                     | Some opts \<Rightarrow>
                         \<lparr>Label = label, ID = i,
                          Ordered = (case init_Ordered opts of None \<Rightarrow> True | Some b \<Rightarrow> b),
                          MaxPacketLifeTime = init_MaxPacketLifeTime opts,
                          MaxRetransmits = init_MaxRetransmits opts\<rparr>)
              in case newDataChannel e params of
                   Inl err \<Rightarrow> Some (pc, Inl err)
                 | Inr d \<Rightarrow>
                     if dc_maxPacketLifeTime d \<noteq> None \<and> dc_maxRetransmits d \<noteq> None
                     then Some (pc, Inl (TypeError ErrRetransmitsOrPacketLifeTime))
                     else
                       (let pc1 = pc\<lparr>dataChannels := (dataChannels pc)(ID params \<mapsto> d),
                                      dataChannelsRequested := dataChannelsRequested pc + 1\<rparr>;
                            sctpReady = (case sctpTransport pc of
                                           None \<Rightarrow> False
                                         | Some t \<Rightarrow> sctp_association t)
                        in if sctpReady then
                             (case DataChannel_open e d of
                                Some err \<Rightarrow> Some (pc1, Inl err)
                              | None \<Rightarrow>
                                  Some (pc1\<lparr>trace := trace pc1 @ [EvDataChannelOpen (ID params)]\<rparr>,
                                        Inr d))
                           else Some (pc1, Inr d)))))"

text \<open>The options of a \<^verbatim>\<open>CreateDataChannel\<close> call carry no ID: they are nil, or their ID is.\<close>

definition optionsCarryNoID :: "DataChannelInit option \<Rightarrow> bool" where
  "optionsCarryNoID options =
     (case options of
        None \<Rightarrow> True
      | Some opts \<Rightarrow> init_ID opts = None)"

section \<open>Close\<close>

text \<open>
  Modelled from the spec: \<^verbatim>\<open>util.FlattenErrs\<close>, declared in another package of the
  repository, flattens the collected stop errors into a single composite, and is
  \<^verbatim>\<open>nil\<close> when there is none.
\<close>

definition FlattenErrs :: "error list \<Rightarrow> error option" where
  "FlattenErrs errs = (if errs = [] then None else Some (FlattenedErrs errs))"

definition errList :: "error option \<Rightarrow> error list" where
  "errList r = (case r of None \<Rightarrow> [] | Some err \<Rightarrow> [err])"

fun stopTransceivers_loop :: "env \<Rightarrow> RTPTransceiver list \<Rightarrow> nat \<Rightarrow> error list \<times> event list" where
  "stopTransceivers_loop e [] i = ([], [])"
| "stopTransceivers_loop e (t # ts) i =
     (case stopTransceivers_loop e ts (i + 1) of
        (errs, evs) \<Rightarrow> (errList (RTPTransceiver_Stop e t) @ errs, EvRTPTransceiverStop i # evs))"

definition Close :: "env \<Rightarrow> PeerConnection \<Rightarrow> PeerConnection \<times> error option" where
  "Close e pc =
     (if isClosed pc then (pc, None)
      else
        (let pc1 = pc\<lparr>isClosed := True\<rparr>;
             pc2 = pc1\<lparr>signalingState := SignalingStateClosed\<rparr>;
             (errs1, evs1) = (if iceTransport pc2 \<noteq> None
                              then (errList (ICETransport_Stop e), [EvICETransportStop])
                              else ([], []));
             pc3 = pc2\<lparr>connectionState := PeerConnectionStateClosed\<rparr>;
             (errs2, evs2) = (errList (DTLSTransport_Stop e), [EvDTLSTransportStop]);
             (errs3, evs3) = (if sctpTransport pc3 \<noteq> None
                              then (errList (SCTPTransport_Stop e), [EvSCTPTransportStop])
                              else ([], []));
             (errs4, evs4) = stopTransceivers_loop e (rtpTransceivers pc3) 0;
             closeErrs = errs1 @ errs2 @ errs3 @ errs4
         in (pc3\<lparr>trace := trace pc3 @ evs1 @ evs2 @ evs3 @ evs4\<rparr>, FlattenErrs closeErrs)))"

section \<open>AddICECandidate and WriteRTCP\<close>

definition AddICECandidate :: "env \<Rightarrow> PeerConnection \<Rightarrow> string \<Rightarrow> PeerConnection \<times> error option" where
  "AddICECandidate e pc candidate =
     (if RemoteDescription pc = None then (pc, Some (InvalidStateError ErrNoRemoteDescription))
      else
        (let candidateValue = TrimPrefix candidate ''candidate:'';
             attribute = NewAttribute ''candidate'' candidateValue
         in case AddRemoteCandidate e attribute of
              Some err \<Rightarrow> (pc, Some err)
            | None \<Rightarrow> (pc\<lparr>trace := trace pc @ [EvAddRemoteCandidate attribute]\<rparr>, None)))"

definition WriteRTCP :: "env \<Rightarrow> PeerConnection \<Rightarrow> string list \<Rightarrow> PeerConnection \<times> error option" where
  "WriteRTCP e pc pkts =
     (case rtcp_Marshal e pkts of
        Inl err \<Rightarrow> (pc, Some err)
      | Inr raw \<Rightarrow>
          (case getSRTCPSession e of
             Some err \<Rightarrow> (pc, None)
           | None \<Rightarrow>
               (case OpenWriteStream e of
                  Some err \<Rightarrow> (pc, Some (Errorf ''WriteRTCP failed to open WriteStream: %v''))
                | None \<Rightarrow>
                    (case WriteStream_Write e raw of
                       Some err \<Rightarrow> (pc, Some err)
                     | None \<Rightarrow> (pc\<lparr>trace := trace pc @ [EvWriteRTCP raw]\<rparr>, None)))))"

text \<open>
  The error value of the guard at the head of \<open>SetRemoteDescription\<close>.
\<close>

definition alreadyDefined :: error where
  "alreadyDefined =
     Errorf ''remoteDescription is already defined, SetRemoteDescription can only be called once''"

section \<open>SetConfiguration\<close>

text \<open>
  \<^verbatim>\<open>PendingLocalDescription\<close>, that is \<^verbatim>\<open>populateLocalCandidates\<close> on the pending local
  description: it adds the local candidates to the media sections of the pending
  description in place and hands back a description re-serialized from them (the pending
  one itself when serializing fails). The gatherer is set by the constructor, so the
  \<^verbatim>\<open>pc.iceGatherer == nil\<close> exit is not taken.
\<close>

definition PendingLocalDescription ::
  "env \<Rightarrow> PeerConnection \<Rightarrow> PeerConnection \<times> (error + SessionDescription option)" where
  "PendingLocalDescription e pc =
     (case pendingLocalDescription pc of
        None \<Rightarrow> (pc, Inr None)
      | Some orig \<Rightarrow>
          (case GetLocalCandidates e of
             Inl err \<Rightarrow> (pc, Inr (Some orig))
           | Inr candidates \<Rightarrow>
               (case parsed orig of
                  None \<Rightarrow> (pc, Inl (Panic ''nil pointer dereference''))
                | Some p \<Rightarrow>
                    (let p1 = p\<lparr>MediaDescriptions :=
                                   map (addCandidatesToMediaDescriptions e candidates)
                                       (MediaDescriptions p)\<rparr>;
                         orig1 = orig\<lparr>parsed := Some p1\<rparr>;
                         pc1 = pc\<lparr>pendingLocalDescription := Some orig1\<rparr>
                     in case Marshal e p1 of
                          Inl err \<Rightarrow> (pc1, Inr (Some orig1))
                        | Inr sdpBytes \<Rightarrow>
                            (pc1, Inr (Some \<lparr>Type = Type orig1, SDP = sdpBytes, parsed = None\<rparr>))))))"

definition LocalDescription ::
  "env \<Rightarrow> PeerConnection \<Rightarrow> PeerConnection \<times> (error + SessionDescription option)" where
  "LocalDescription e pc =
     (case PendingLocalDescription e pc of
        (pc1, Inl err) \<Rightarrow> (pc1, Inl err)
      | (pc1, Inr (Some localDescription)) \<Rightarrow> (pc1, Inr (Some localDescription))
      | (pc1, Inr None) \<Rightarrow> (pc1, Inr (currentLocalDescription pc1)))"

fun certificatesEqual_loop :: "env \<Rightarrow> Certificate list \<Rightarrow> Certificate list \<Rightarrow> bool" where
  "certificatesEqual_loop e (own # owns) (certificate # rest) =
     (if \<not> Certificate_Equals e own certificate then False
      else certificatesEqual_loop e owns rest)"
| "certificatesEqual_loop e _ _ = True"

fun validateServers_loop :: "env \<Rightarrow> ICEServer list \<Rightarrow> error option" where
  "validateServers_loop e [] = None"
| "validateServers_loop e (server # rest) =
     (case ICEServer_validate e server of
        Some err \<Rightarrow> Some err
      | None \<Rightarrow> validateServers_loop e rest)"

text \<open>
  The steps of \<^verbatim>\<open>SetConfiguration\<close> after the closed check, one definition per numbered
  step of the source; each hands back the PeerConnection as the step left it.
\<close>

definition setConfiguration_identity ::
  "PeerConnection \<Rightarrow> Configuration \<Rightarrow> PeerConnection \<times> error option" where
  "setConfiguration_identity pc cfg =
     (if PeerIdentity cfg \<noteq> [] then
        (if PeerIdentity cfg \<noteq> PeerIdentity (configuration pc)
         then (pc, Some (InvalidModificationError ErrModifyingPeerIdentity))
         else (pc\<lparr>configuration := (configuration pc)\<lparr>PeerIdentity := PeerIdentity cfg\<rparr>\<rparr>, None))
      else (pc, None))"

definition setConfiguration_certificates ::
  "env \<Rightarrow> PeerConnection \<Rightarrow> Configuration \<Rightarrow> PeerConnection \<times> error option" where
  "setConfiguration_certificates e pc cfg =
     (if length (Certificates cfg) > 0 then
        (if length (Certificates cfg) \<noteq> length (Certificates (configuration pc))
         then (pc, Some (InvalidModificationError ErrModifyingCertificates))
         else if \<not> certificatesEqual_loop e (Certificates (configuration pc)) (Certificates cfg)
         then (pc, Some (InvalidModificationError ErrModifyingCertificates))
         else (pc\<lparr>configuration := (configuration pc)\<lparr>Certificates := Certificates cfg\<rparr>\<rparr>, None))
      else (pc, None))"

definition setConfiguration_bundle ::
  "PeerConnection \<Rightarrow> Configuration \<Rightarrow> PeerConnection \<times> error option" where
  "setConfiguration_bundle pc cfg =
     (if BundlePolicy cfg \<noteq> 0 then
        (if BundlePolicy cfg \<noteq> BundlePolicy (configuration pc)
         then (pc, Some (InvalidModificationError ErrModifyingBundlePolicy))
         else (pc\<lparr>configuration := (configuration pc)\<lparr>BundlePolicy := BundlePolicy cfg\<rparr>\<rparr>, None))
      else (pc, None))"

definition setConfiguration_rtcpMux ::
  "PeerConnection \<Rightarrow> Configuration \<Rightarrow> PeerConnection \<times> error option" where
  "setConfiguration_rtcpMux pc cfg =
     (if RTCPMuxPolicy cfg \<noteq> 0 then
        (if RTCPMuxPolicy cfg \<noteq> RTCPMuxPolicy (configuration pc)
         then (pc, Some (InvalidModificationError ErrModifyingRTCPMuxPolicy))
         else (pc\<lparr>configuration := (configuration pc)\<lparr>RTCPMuxPolicy := RTCPMuxPolicy cfg\<rparr>\<rparr>, None))
      else (pc, None))"

definition setConfiguration_poolSize ::
  "env \<Rightarrow> PeerConnection \<Rightarrow> Configuration \<Rightarrow> PeerConnection \<times> error option" where
  "setConfiguration_poolSize e pc cfg =
     (if ICECandidatePoolSize cfg \<noteq> 0 then
        (if ICECandidatePoolSize (configuration pc) \<noteq> ICECandidatePoolSize cfg then
           (case LocalDescription e pc of
              (pc1, Inl err) \<Rightarrow> (pc1, Some err)
            | (pc1, Inr (Some ld)) \<Rightarrow>
                (pc1, Some (InvalidModificationError ErrModifyingICECandidatePoolSize))
            | (pc1, Inr None) \<Rightarrow>
                (pc1\<lparr>configuration :=
                        (configuration pc1)\<lparr>ICECandidatePoolSize := ICECandidatePoolSize cfg\<rparr>\<rparr>,
                 None))
         else (pc\<lparr>configuration :=
                     (configuration pc)\<lparr>ICECandidatePoolSize := ICECandidatePoolSize cfg\<rparr>\<rparr>,
               None))
      else (pc, None))"

definition setConfiguration_policyAndServers ::
  "env \<Rightarrow> PeerConnection \<Rightarrow> Configuration \<Rightarrow> PeerConnection \<times> error option" where
  "setConfiguration_policyAndServers e pc cfg =
     (let pc1 = (if ICETransportPolicy cfg \<noteq> 0
                 then pc\<lparr>configuration :=
                          (configuration pc)\<lparr>ICETransportPolicy := ICETransportPolicy cfg\<rparr>\<rparr>
                 else pc)
      in if length (ICEServers cfg) > 0 then
           (case validateServers_loop e (ICEServers cfg) of
              Some err \<Rightarrow> (pc1, Some err)
            | None \<Rightarrow>
                (pc1\<lparr>configuration := (configuration pc1)\<lparr>ICEServers := ICEServers cfg\<rparr>\<rparr>, None))
         else (pc1, None))"

definition SetConfiguration ::
  "env \<Rightarrow> PeerConnection \<Rightarrow> Configuration \<Rightarrow> PeerConnection \<times> error option" where
  "SetConfiguration e pc cfg =
     (if isClosed pc then (pc, Some (InvalidStateError ErrConnectionClosed))
      else
        (case setConfiguration_identity pc cfg of
           (pc1, Some err) \<Rightarrow> (pc1, Some err)
         | (pc1, None) \<Rightarrow>
        (case setConfiguration_certificates e pc1 cfg of
           (pc2, Some err) \<Rightarrow> (pc2, Some err)
         | (pc2, None) \<Rightarrow>
        (case setConfiguration_bundle pc2 cfg of
           (pc3, Some err) \<Rightarrow> (pc3, Some err)
         | (pc3, None) \<Rightarrow>
        (case setConfiguration_rtcpMux pc3 cfg of
           (pc4, Some err) \<Rightarrow> (pc4, Some err)
         | (pc4, None) \<Rightarrow>
        (case setConfiguration_poolSize e pc4 cfg of
           (pc5, Some err) \<Rightarrow> (pc5, Some err)
         | (pc5, None) \<Rightarrow> setConfiguration_policyAndServers e pc5 cfg))))))"

section \<open>AddTrack\<close>

definition reusableForTrack :: "RTPTransceiver \<Rightarrow> Track \<Rightarrow> bool" where
  "reusableForTrack t track =
     (\<not> stopped t \<and>
      (case Sender t of
         None \<Rightarrow> False
       | Some s \<Rightarrow>
           \<not> sender_hasSent s \<and>
           (case Receiver t of
              None \<Rightarrow> False
            | Some r \<Rightarrow>
                (case receiver_track r of
                   None \<Rightarrow> False
                 | Some rt \<Rightarrow> track_kind rt = track_kind track))))"

fun findReusable_loop :: "RTPTransceiver list \<Rightarrow> Track \<Rightarrow> nat \<Rightarrow> nat option" where
  "findReusable_loop [] track i = None"
| "findReusable_loop (t # ts) track i =
     (if reusableForTrack t track then Some i else findReusable_loop ts track (i + 1))"

definition newRTPTransceiver ::
  "PeerConnection \<Rightarrow> RTPReceiver option \<Rightarrow> RTPSender option \<Rightarrow> RTPTransceiverDirection
     \<Rightarrow> RTPCodecType \<Rightarrow> PeerConnection \<times> RTPTransceiver" where
  "newRTPTransceiver pc receiver sender direction k =
     (let t = \<lparr>Sender = sender, Receiver = receiver, Direction = direction, kind = k,
               stopped = False\<rparr>
      in (pc\<lparr>rtpTransceivers := rtpTransceivers pc @ [t]\<rparr>, t))"

definition AddTrack ::
  "env \<Rightarrow> PeerConnection \<Rightarrow> Track \<Rightarrow> PeerConnection \<times> (error + RTPSender option)" where
  "AddTrack e pc track =
     (if isClosed pc then (pc, Inl (InvalidStateError ErrConnectionClosed))
      else
        (case findReusable_loop (rtpTransceivers pc) track 0 of
           Some i \<Rightarrow>
             (case setSendingTrack e (rtpTransceivers pc ! i) track of
                (t1, res) \<Rightarrow>
                  (let pc1 = pc\<lparr>rtpTransceivers := (rtpTransceivers pc)[i := t1],
                                 trace := trace pc @ [EvSetSendingTrack i]\<rparr>
                   in case res of
                        Some err \<Rightarrow> (pc1, Inl err)
                      | None \<Rightarrow> (pc1, Inr (Sender t1))))
         | None \<Rightarrow>
             (case NewRTPReceiver e (track_kind track) of
                Inl err \<Rightarrow> (pc, Inl err)
              | Inr receiver \<Rightarrow>
                  (case NewRTPSender e track of
                     Inl err \<Rightarrow> (pc, Inl err)
                   | Inr sender \<Rightarrow>
                       (case newRTPTransceiver pc (Some receiver) (Some sender)
                               RTPTransceiverDirectionSendrecv (track_kind track) of
                          (pc1, transceiver) \<Rightarrow> (pc1, Inr (Sender transceiver)))))))"

section \<open>AddTransceiverFromKind\<close>

record RtpTransceiverInit =
  ti_Direction :: RTPTransceiverDirection

text \<open>
  \<^verbatim>\<open>pc.NewTrack\<close> with its random SSRC, id and label is the environment's \<open>NewTrack\<close>.
\<close>

definition AddTransceiverFromKind ::
  "env \<Rightarrow> PeerConnection \<Rightarrow> RTPCodecType \<Rightarrow> RtpTransceiverInit list
     \<Rightarrow> PeerConnection \<times> (error + RTPTransceiver)" where
  "AddTransceiverFromKind e pc k init =
     (if length init > 1 then
        (pc, Inl (Errorf ''AddTransceiverFromKind only accepts one RtpTransceiverInit''))
      else
        (let direction = (if length init = 1 then ti_Direction (init ! 0)
                          else RTPTransceiverDirectionSendrecv)
         in case direction of
              RTPTransceiverDirectionSendrecv \<Rightarrow>
                (case NewRTPReceiver e k of
                   Inl err \<Rightarrow> (pc, Inl err)
                 | Inr receiver \<Rightarrow>
                     (let codecs = GetCodecsByKind e k
                      in if length codecs = 0 then (pc, Inl (Errorf ''no %s codecs found''))
                         else
                           (case NewTrack e (codec_PayloadType (codecs ! 0)) of
                              Inl err \<Rightarrow> (pc, Inl err)
                            | Inr track \<Rightarrow>
                                (case NewRTPSender e track of
                                   Inl err \<Rightarrow> (pc, Inl err)
                                 | Inr sender \<Rightarrow>
                                     (case newRTPTransceiver pc (Some receiver) (Some sender)
                                             RTPTransceiverDirectionSendrecv k of
                                        (pc1, t) \<Rightarrow> (pc1, Inr t))))))
            | RTPTransceiverDirectionRecvonly \<Rightarrow>
                (case NewRTPReceiver e k of
                   Inl err \<Rightarrow> (pc, Inl err)
                 | Inr receiver \<Rightarrow>
                     (case newRTPTransceiver pc (Some receiver) None
                             RTPTransceiverDirectionRecvonly k of
                        (pc1, t) \<Rightarrow> (pc1, Inr t)))
            | _ \<Rightarrow>
                (pc, Inl (Errorf ''AddTransceiverFromKind currently only supports recvonly and sendrecv''))))"

section \<open>A concrete environment and PeerConnection\<close>

text \<open>
  One environment and a few PeerConnections and descriptions, on which the theorems
  below are run. The parser of the example accepts three texts and rejects every other
  one; the serializer renders every document as the same text.
\<close>

definition exampleFingerprint :: Attribute where
  "exampleFingerprint = NewAttribute ''fingerprint'' ''sha-256 AB:CD''"

definition exampleVideoDoc :: sdp_SessionDescription where
  "exampleVideoDoc =
     \<lparr>Attributes = [exampleFingerprint],
      MediaDescriptions =
        [\<lparr>Media = ''video'', Port = 9, Protos = [''UDP'', ''TLS'', ''RTP'', ''SAVPF''],
          Formats = [''96''], ConnectionInformation = None,
          MediaAttributes = [NewAttribute ''mid'' ''0'', NewPropertyAttribute ''sendrecv'']\<rparr>]\<rparr>"

definition examplePlanBVideoDoc :: sdp_SessionDescription where
  "examplePlanBVideoDoc =
     \<lparr>Attributes = [exampleFingerprint],
      MediaDescriptions =
        [\<lparr>Media = ''video'', Port = 9, Protos = [''UDP'', ''TLS'', ''RTP'', ''SAVPF''],
          Formats = [''96''], ConnectionInformation = None,
          MediaAttributes = [NewAttribute ''mid'' ''Video'', NewPropertyAttribute ''sendrecv'']\<rparr>]\<rparr>"

definition examplePlanBDataDoc :: sdp_SessionDescription where
  "examplePlanBDataDoc =
     \<lparr>Attributes = [exampleFingerprint],
      MediaDescriptions =
        [\<lparr>Media = ''application'', Port = 9, Protos = [''DTLS'', ''SCTP''],
          Formats = [''5000''], ConnectionInformation = None,
          MediaAttributes = [NewAttribute ''mid'' ''data'']\<rparr>]\<rparr>"

text \<open>A video section with two \<open>mid\<close> attributes, the second one a Plan-B name.\<close>

definition exampleTwoMidsDoc :: sdp_SessionDescription where
  "exampleTwoMidsDoc =
     \<lparr>Attributes = [exampleFingerprint],
      MediaDescriptions =
        [\<lparr>Media = ''video'', Port = 9, Protos = [''UDP'', ''TLS'', ''RTP'', ''SAVPF''],
          Formats = [''96''], ConnectionInformation = None,
          MediaAttributes = [NewAttribute ''mid'' ''0'', NewAttribute ''mid'' ''audio'',
                             NewPropertyAttribute ''sendrecv'']\<rparr>]\<rparr>"

definition exampleUnmarshal :: "string \<Rightarrow> error + sdp_SessionDescription" where
  "exampleUnmarshal s =
     (if s = ''v=0'' then Inr exampleVideoDoc
      else if s = ''v=0 planb video'' then Inr examplePlanBVideoDoc
      else if s = ''v=0 planb data'' then Inr examplePlanBDataDoc
      else Inl (CollaboratorError ''sdp: invalid syntax''))"

definition exampleCodec :: RTPCodec where
  "exampleCodec =
     \<lparr>codec_PayloadType = 96, codec_Name = ''VP8'', codec_ClockRate = 90000, codec_Channels = 0,
      codec_SDPFmtpLine = [], codec_RTCPFeedback = []\<rparr>"

definition exampleNewRTPCodecType :: "string \<Rightarrow> RTPCodecType" where
  "exampleNewRTPCodecType r =
     (if r = ''audio'' then RTPCodecTypeAudio
      else if r = ''video'' then RTPCodecTypeVideo
      else RTPCodecTypeUnknown)"

fun exampleRTPCodecType_String :: "RTPCodecType \<Rightarrow> string" where
  "exampleRTPCodecType_String RTPCodecTypeAudio = ''audio''"
| "exampleRTPCodecType_String RTPCodecTypeVideo = ''video''"
| "exampleRTPCodecType_String RTPCodecTypeUnknown = ''unknown''"

definition exampleNewDirection :: "string \<Rightarrow> RTPTransceiverDirection" where
  "exampleNewDirection raw =
     (if raw = ''sendrecv'' then RTPTransceiverDirectionSendrecv
      else if raw = ''sendonly'' then RTPTransceiverDirectionSendonly
      else if raw = ''recvonly'' then RTPTransceiverDirectionRecvonly
      else if raw = ''inactive'' then RTPTransceiverDirectionInactive
      else RTPTransceiverDirectionUnknown)"

fun exampleDirection_String :: "RTPTransceiverDirection \<Rightarrow> string" where
  "exampleDirection_String RTPTransceiverDirectionSendrecv = ''sendrecv''"
| "exampleDirection_String RTPTransceiverDirectionSendonly = ''sendonly''"
| "exampleDirection_String RTPTransceiverDirectionRecvonly = ''recvonly''"
| "exampleDirection_String RTPTransceiverDirectionInactive = ''inactive''"
| "exampleDirection_String RTPTransceiverDirectionUnknown = ''unknown''"

definition exampleEnv :: env where
  "exampleEnv =
     \<lparr>Unmarshal = exampleUnmarshal,
      Marshal = (\<lambda>d. Inr ''v=0''),
      GetFingerprints = (\<lambda>c. Inr [\<lparr>fp_Algorithm = ''sha-256'', fp_Value = ''ab:cd''\<rparr>]),
      ToUpper = map upperASCII,
      GetLocalParameters = Inr \<lparr>UsernameFragment = ''ufrag'', Password = ''pwd'', ICELite = False\<rparr>,
      GetLocalCandidates = Inr [],
      candidateValue = (\<lambda>c component. c),
      agentIsTrickle = False,
      Gather = None,
      SignalCandidates = None,
      AddRemoteCandidate = (\<lambda>a. None),
      ICETransport_Stop = None,
      DTLSTransport_Stop = None,
      SCTPTransport_Stop = None,
      RTPTransceiver_Stop = (\<lambda>t. None),
      setSendingTrack = (\<lambda>t track. (t, None)),
      NewSCTPTransport = \<lparr>sctp_MaxChannels = 65535, sctp_association = False\<rparr>,
      sctpMaxChannels = 65535,
      newDataChannel =
        (\<lambda>params. Inr \<lparr>dc_label = Label params, dc_id = ID params, dc_ordered = Ordered params,
                         dc_maxPacketLifeTime = MaxPacketLifeTime params,
                         dc_maxRetransmits = MaxRetransmits params\<rparr>),
      DataChannel_open = (\<lambda>d. None),
      NewRTPReceiver = (\<lambda>k. Inr \<lparr>receiver_track = None\<rparr>),
      NewRTPSender = (\<lambda>track. Inr \<lparr>sender_track = Some track, sender_hasSent = False\<rparr>),
      NewTrack =
        (\<lambda>payloadType. Inr \<lparr>track_payloadType = payloadType, track_ssrc = 1234, track_id = ''id'',
                              track_label = ''label'', track_kind = RTPCodecTypeVideo\<rparr>),
      GetCodecsByKind = (\<lambda>k. if k = RTPCodecTypeVideo then [exampleCodec] else []),
      NewRTPCodecType = exampleNewRTPCodecType,
      RTPCodecType_String = exampleRTPCodecType_String,
      NewRTPTransceiverDirection = exampleNewDirection,
      RTPTransceiverDirection_String = exampleDirection_String,
      Certificate_Equals = (\<lambda>a b. a = b),
      ICEServer_validate = (\<lambda>server. None),
      rtcp_Marshal = (\<lambda>pkts. Inr (concat pkts)),
      getSRTCPSession = None,
      OpenWriteStream = None,
      WriteStream_Write = (\<lambda>raw. None)\<rparr>"

text \<open>A PeerConnection as the constructor leaves it (Unified Plan, no transceiver).\<close>

definition examplePC :: PeerConnection where
  "examplePC =
     \<lparr>configuration =
        \<lparr>ICEServers = [], ICETransportPolicy = 2, BundlePolicy = 1, RTCPMuxPolicy = 2,
         PeerIdentity = [], Certificates = [''certificate''], ICECandidatePoolSize = 0,
         SDPSemantics = SDPSemanticsUnifiedPlan\<rparr>,
      currentLocalDescription = None,
      pendingLocalDescription = None,
      currentRemoteDescription = None,
      pendingRemoteDescription = None,
      signalingState = SignalingStateStable,
      connectionState = PeerConnectionStateNew,
      idpLoginURL = None,
      isClosed = False,
      lastOffer = [],
      lastAnswer = [],
      rtpTransceivers = [],
      dataChannels = Map.empty,
      dataChannelsRequested = 0,
      iceTransport = Some ICETransport,
      sctpTransport = None,
      trace = []\<rparr>"

definition exampleDescription :: "SDPType \<Rightarrow> string \<Rightarrow> SessionDescription" where
  "exampleDescription t s = \<lparr>Type = t, SDP = s, parsed = None\<rparr>"

text \<open>The same PeerConnection after its own offer \<^verbatim>\<open>v=0\<close> has been set locally.\<close>

definition exampleOfferingPC :: PeerConnection where
  "exampleOfferingPC =
     examplePC\<lparr>signalingState := SignalingStateHaveLocalOffer,
               pendingLocalDescription :=
                 Some \<lparr>Type = SDPTypeOffer, SDP = ''v=0'', parsed = Some exampleVideoDoc\<rparr>,
               lastOffer := ''v=0'',
               trace := [OnSignalingStateChange SignalingStateHaveLocalOffer, EvSignalCandidates]\<rparr>"

definition exampleTransceiver :: "RTPCodecType \<Rightarrow> RTPTransceiverDirection \<Rightarrow> RTPTransceiver" where
  "exampleTransceiver k d =
     \<lparr>Sender = None, Receiver = Some \<lparr>receiver_track = None\<rparr>, Direction = d, kind = k,
      stopped = False\<rparr>"

text \<open>
  A PeerConnection on which every even id from 0 to 65532 is taken, as after 32767 calls
  of \<^verbatim>\<open>CreateDataChannel\<close> without an ID; the ids 65534 and 65535 and the odd ids are
  free.
\<close>

definition exampleChannel :: "16 word \<Rightarrow> DataChannel" where
  "exampleChannel i =
     \<lparr>dc_label = ''chat'', dc_id = i, dc_ordered = True, dc_maxPacketLifeTime = None,
      dc_maxRetransmits = None\<rparr>"

definition exampleFullChannels :: "16 word \<rightharpoonup> DataChannel" where
  "exampleFullChannels i = (if even (unat i) \<and> i < 65534 then Some (exampleChannel i) else None)"

definition exampleFullPC :: PeerConnection where
  "exampleFullPC = examplePC\<lparr>dataChannels := exampleFullChannels, dataChannelsRequested := 32767\<rparr>"

text \<open>
  A PeerConnection constructed with Plan-B semantics, and the two transceivers that
  \<^verbatim>\<open>AddTransceiverFromKind\<close> adds for a receive-only audio kind and then for a video
  kind, in this order.
\<close>

definition examplePlanBPC :: PeerConnection where
  "examplePlanBPC =
     examplePC\<lparr>configuration := (configuration examplePC)\<lparr>SDPSemantics := SDPSemanticsPlanB\<rparr>\<rparr>"

definition exampleTwoKinds :: "PeerConnection \<Rightarrow> PeerConnection" where
  "exampleTwoKinds pc =
     fst (AddTransceiverFromKind exampleEnv
            (fst (AddTransceiverFromKind exampleEnv pc RTPCodecTypeAudio
                    [\<lparr>ti_Direction = RTPTransceiverDirectionRecvonly\<rparr>]))
            RTPCodecTypeVideo [])"

text \<open>
  A PeerConnection with an SCTP transport attached whose \<^verbatim>\<open>MaxChannels()\<close> is \<open>limit\<close>,
  and with the ids 0 and 2 taken.
\<close>

definition exampleSCTPPC :: "16 word \<Rightarrow> PeerConnection" where
  "exampleSCTPPC limit =
     examplePC\<lparr>sctpTransport := Some \<lparr>sctp_MaxChannels = limit, sctp_association = False\<rparr>,
               dataChannels := [0 \<mapsto> exampleChannel 0, 2 \<mapsto> exampleChannel 2],
               dataChannelsRequested := 2\<rparr>"
section \<open>Properties of setDescription\<close>

lemma setDescription_failure_keeps_state:
  "setDescription pc sd op = (pc', Some err) \<Longrightarrow> pc' = pc"
  unfolding setDescription_def setDescription_switch_def
  by (cases op; cases "Type sd")
     (auto simp: Let_def split: if_splits prod.splits)

lemma checkNextSignalingState_ok:
  "checkNextSignalingState cur next op t = (s, None) \<Longrightarrow> s = next"
  by (auto simp: checkNextSignalingState_def split: if_splits)

lemma checkNextSignalingState_answer:
  "(snd (checkNextSignalingState cur SignalingStateStable op SDPTypeAnswer) = None) =
     (op = stateChangeOpSetRemote
        \<and> (cur = SignalingStateHaveLocalOffer \<or> cur = SignalingStateHaveRemotePranswer)
      \<or> op = stateChangeOpSetLocal
        \<and> (cur = SignalingStateHaveRemoteOffer \<or> cur = SignalingStateHaveLocalPranswer))"
  by (cases cur; cases op)
     (simp_all add: checkNextSignalingState_def transitionTable_def rollbackPermitted_def)

lemma setDescription_setRemote_answer:
  assumes "Type sd = SDPTypeAnswer"
  shows "setDescription pc sd stateChangeOpSetRemote =
     (if isClosed pc then (pc, Some (InvalidStateError ErrConnectionClosed))
      else case checkNextSignalingState (signalingState pc) SignalingStateStable
                  stateChangeOpSetRemote SDPTypeAnswer of
             (nextState, None) \<Rightarrow>
               (pc\<lparr>currentRemoteDescription := Some sd,
                    currentLocalDescription := pendingLocalDescription pc,
                    pendingRemoteDescription := None,
                    pendingLocalDescription := None,
                    signalingState := nextState,
                    trace := trace pc @ [OnSignalingStateChange nextState]\<rparr>, None)
           | (nextState, Some err) \<Rightarrow> (pc, Some err))"
  using assms
  by (simp add: setDescription_def setDescription_switch_def Let_def
           split: prod.splits option.splits)

lemma setDescription_setLocal_answer:
  assumes "Type sd = SDPTypeAnswer"
  shows "setDescription pc sd stateChangeOpSetLocal =
     (if isClosed pc then (pc, Some (InvalidStateError ErrConnectionClosed))
      else if SDP sd \<noteq> lastAnswer pc then (pc, Some newSDPDoesNotMatchAnswer)
      else case checkNextSignalingState (signalingState pc) SignalingStateStable
                  stateChangeOpSetLocal SDPTypeAnswer of
             (nextState, None) \<Rightarrow>
               (pc\<lparr>currentLocalDescription := Some sd,
                    currentRemoteDescription := pendingRemoteDescription pc,
                    pendingRemoteDescription := None,
                    pendingLocalDescription := None,
                    signalingState := nextState,
                    trace := trace pc @ [OnSignalingStateChange nextState]\<rparr>, None)
           | (nextState, Some err) \<Rightarrow> (pc, Some err))"
  using assms
  by (simp add: setDescription_def setDescription_switch_def Let_def
           split: prod.splits option.splits)

lemma setDescription_unknown_op:
  "snd (setDescription pc sd stateChangeOpUnknown) \<noteq> None"
  by (simp add: setDescription_def setDescription_switch_def)

text \<open>
  C1. When a \<open>setDescription\<close> call that installs an answer succeeds, it was
  \<open>setRemote\<close> from have-local-offer or have-remote-pranswer, or \<open>setLocal\<close> from
  have-remote-offer or have-local-pranswer; afterwards the signaling state is stable, the
  answer is the current description of its side, the pending description of the other
  side has become that side's current description, and both pending slots are empty.
  Conversely, on an open connection each of the four combinations succeeds (for
  \<open>setLocal\<close>, when the text equals \<open>lastAnswer\<close>).
\<close>

theorem setDescription_answer_installs:
  assumes "Type sd = SDPTypeAnswer"
  shows "(setDescription pc sd op = (pc', None) \<longrightarrow>
            signalingState pc' = SignalingStateStable
          \<and> pendingLocalDescription pc' = None
          \<and> pendingRemoteDescription pc' = None
          \<and> (op = stateChangeOpSetRemote
                \<and> (signalingState pc = SignalingStateHaveLocalOffer
                    \<or> signalingState pc = SignalingStateHaveRemotePranswer)
                \<and> currentRemoteDescription pc' = Some sd
                \<and> currentLocalDescription pc' = pendingLocalDescription pc
              \<or> op = stateChangeOpSetLocal
                \<and> (signalingState pc = SignalingStateHaveRemoteOffer
                    \<or> signalingState pc = SignalingStateHaveLocalPranswer)
                \<and> currentLocalDescription pc' = Some sd
                \<and> currentRemoteDescription pc' = pendingRemoteDescription pc))
       \<and> (\<not> isClosed pc
            \<and> (op = stateChangeOpSetRemote
                  \<and> (signalingState pc = SignalingStateHaveLocalOffer
                      \<or> signalingState pc = SignalingStateHaveRemotePranswer)
                \<or> op = stateChangeOpSetLocal \<and> SDP sd = lastAnswer pc
                  \<and> (signalingState pc = SignalingStateHaveRemoteOffer
                      \<or> signalingState pc = SignalingStateHaveLocalPranswer))
          \<longrightarrow> snd (setDescription pc sd op) = None)"
proof (cases op)
  case stateChangeOpUnknown
  then show ?thesis
    using setDescription_unknown_op [of pc sd] by auto
next
  case stateChangeOpSetLocal
  note eq = setDescription_setLocal_answer [OF assms, of pc]
  show ?thesis
  proof (cases "checkNextSignalingState (signalingState pc) SignalingStateStable
                  stateChangeOpSetLocal SDPTypeAnswer")
    case (Pair nextState r)
    show ?thesis
    proof (cases r)
      case None
      with Pair have "nextState = SignalingStateStable"
        using checkNextSignalingState_ok by blast
      moreover from Pair None
      have "signalingState pc = SignalingStateHaveRemoteOffer
            \<or> signalingState pc = SignalingStateHaveLocalPranswer"
        using checkNextSignalingState_answer
                [of "signalingState pc" stateChangeOpSetLocal] by simp
      ultimately show ?thesis
        using stateChangeOpSetLocal Pair None by (auto simp: eq)
    next
      case (Some err)
      with Pair have "\<not> (signalingState pc = SignalingStateHaveRemoteOffer
            \<or> signalingState pc = SignalingStateHaveLocalPranswer)"
        using checkNextSignalingState_answer
                [of "signalingState pc" stateChangeOpSetLocal] by simp
      then show ?thesis
        using stateChangeOpSetLocal Pair Some by (auto simp: eq)
    qed
  qed
next
  case stateChangeOpSetRemote
  note eq = setDescription_setRemote_answer [OF assms, of pc]
  show ?thesis
  proof (cases "checkNextSignalingState (signalingState pc) SignalingStateStable
                  stateChangeOpSetRemote SDPTypeAnswer")
    case (Pair nextState r)
    show ?thesis
    proof (cases r)
      case None
      with Pair have "nextState = SignalingStateStable"
        using checkNextSignalingState_ok by blast
      moreover from Pair None
      have "signalingState pc = SignalingStateHaveLocalOffer
            \<or> signalingState pc = SignalingStateHaveRemotePranswer"
        using checkNextSignalingState_answer
                [of "signalingState pc" stateChangeOpSetRemote] by simp
      ultimately show ?thesis
        using stateChangeOpSetRemote Pair None by (auto simp: eq)
    next
      case (Some err)
      with Pair have "\<not> (signalingState pc = SignalingStateHaveLocalOffer
            \<or> signalingState pc = SignalingStateHaveRemotePranswer)"
        using checkNextSignalingState_answer
                [of "signalingState pc" stateChangeOpSetRemote] by simp
      then show ?thesis
        using stateChangeOpSetRemote Pair Some by (auto simp: eq)
    qed
  qed
qed

lemma example_setRemote_answer:
  "setDescription exampleOfferingPC (exampleDescription SDPTypeAnswer ''v=0'')
       stateChangeOpSetRemote =
     (exampleOfferingPC
        \<lparr>currentRemoteDescription := Some (exampleDescription SDPTypeAnswer ''v=0''),
         currentLocalDescription := pendingLocalDescription exampleOfferingPC,
         pendingRemoteDescription := None,
         pendingLocalDescription := None,
         signalingState := SignalingStateStable,
         trace := trace exampleOfferingPC @ [OnSignalingStateChange SignalingStateStable]\<rparr>,
      None)"
  by (simp add: setDescription_setRemote_answer exampleDescription_def
        checkNextSignalingState_def transitionTable_def exampleOfferingPC_def examplePC_def)

theorem setDescription_answer_installs_witness:
  "Type (exampleDescription SDPTypeAnswer ''v=0'') = SDPTypeAnswer
   \<and> snd (setDescription exampleOfferingPC (exampleDescription SDPTypeAnswer ''v=0'')
            stateChangeOpSetRemote) = None
   \<and> signalingState (fst (setDescription exampleOfferingPC
        (exampleDescription SDPTypeAnswer ''v=0'') stateChangeOpSetRemote)) = SignalingStateStable
   \<and> currentRemoteDescription (fst (setDescription exampleOfferingPC
        (exampleDescription SDPTypeAnswer ''v=0'') stateChangeOpSetRemote))
       = Some (exampleDescription SDPTypeAnswer ''v=0'')
   \<and> currentLocalDescription (fst (setDescription exampleOfferingPC
        (exampleDescription SDPTypeAnswer ''v=0'') stateChangeOpSetRemote))
       = Some \<lparr>Type = SDPTypeOffer, SDP = ''v=0'', parsed = Some exampleVideoDoc\<rparr>
   \<and> pendingLocalDescription (fst (setDescription exampleOfferingPC
        (exampleDescription SDPTypeAnswer ''v=0'') stateChangeOpSetRemote)) = None
   \<and> pendingRemoteDescription (fst (setDescription exampleOfferingPC
        (exampleDescription SDPTypeAnswer ''v=0'') stateChangeOpSetRemote)) = None"
proof -
  let ?sd = "exampleDescription SDPTypeAnswer ''v=0''"
  let ?r = "setDescription exampleOfferingPC ?sd stateChangeOpSetRemote"
  have t: "Type ?sd = SDPTypeAnswer"
    by (simp add: exampleDescription_def)
  have ok: "?r = (fst ?r, None)"
    by (simp add: example_setRemote_answer)
  have pend: "pendingLocalDescription exampleOfferingPC
                = Some \<lparr>Type = SDPTypeOffer, SDP = ''v=0'', parsed = Some exampleVideoDoc\<rparr>"
    by (simp add: exampleOfferingPC_def)
  have none: "snd ?r = None"
    by (simp add: example_setRemote_answer)
  from setDescription_answer_installs [OF t, of exampleOfferingPC stateChangeOpSetRemote "fst ?r"]
  have "signalingState (fst ?r) = SignalingStateStable
      \<and> pendingLocalDescription (fst ?r) = None
      \<and> pendingRemoteDescription (fst ?r) = None
      \<and> currentRemoteDescription (fst ?r) = Some ?sd
      \<and> currentLocalDescription (fst ?r) = pendingLocalDescription exampleOfferingPC"
    using ok by simp
  then show ?thesis using t none pend by simp
qed

text \<open>
  C10. \<open>setDescription\<close> is atomic on failure: whenever it returns an error (closed
  connection, text mismatch, forbidden transition, unrecognized type or op), the
  signaling state and the four description slots are what they were, and no
  signaling-state callback has been dispatched; indeed the whole PeerConnection is
  unchanged.
\<close>

theorem setDescription_atomic_on_failure:
  assumes "setDescription pc sd op = (pc', Some err)"
  shows "signalingState pc' = signalingState pc
       \<and> currentLocalDescription pc' = currentLocalDescription pc
       \<and> pendingLocalDescription pc' = pendingLocalDescription pc
       \<and> currentRemoteDescription pc' = currentRemoteDescription pc
       \<and> pendingRemoteDescription pc' = pendingRemoteDescription pc
       \<and> trace pc' = trace pc
       \<and> pc' = pc"
  using setDescription_failure_keeps_state [OF assms] by simp

theorem setDescription_atomic_on_failure_witness:
  "snd (setDescription exampleOfferingPC (exampleDescription SDPTypeOffer ''v=0'')
          stateChangeOpSetRemote)
     = Some (InvalidModificationError ErrTransitionNotPermitted)
   \<and> fst (setDescription exampleOfferingPC (exampleDescription SDPTypeOffer ''v=0'')
          stateChangeOpSetRemote) = exampleOfferingPC
   \<and> trace (fst (setDescription exampleOfferingPC (exampleDescription SDPTypeOffer ''v=0'')
          stateChangeOpSetRemote))
     = [OnSignalingStateChange SignalingStateHaveLocalOffer, EvSignalCandidates]"
proof -
  let ?r = "setDescription exampleOfferingPC (exampleDescription SDPTypeOffer ''v=0'')
              stateChangeOpSetRemote"
  have err: "snd ?r = Some (InvalidModificationError ErrTransitionNotPermitted)"
    by (simp add: setDescription_def setDescription_switch_def exampleDescription_def
          checkNextSignalingState_def transitionTable_def rollbackPermitted_def
          exampleOfferingPC_def examplePC_def)
  then have "?r = (fst ?r, Some (InvalidModificationError ErrTransitionNotPermitted))"
    by (simp add: prod_eq_iff)
  from setDescription_atomic_on_failure [OF this] err
  show ?thesis by (simp add: exampleOfferingPC_def)
qed

section \<open>Properties of SetLocalDescription\<close>










section \<open>Properties of satisfyTypeAndDirection\<close>

lemma getPreferredDirections_spec: "getPreferredDirections rd = spec_preferred rd"
  by (cases rd) (simp_all add: getPreferredDirections_def spec_preferred_def)

lemma scanTransceivers_filter:
  "scanTransceivers k d xs i =
     (case filter (\<lambda>j. kind (xs ! j) = k \<and> Direction (xs ! j) = d) [i ..< length xs] of
        [] \<Rightarrow> None
      | j # _ \<Rightarrow> Some (xs ! j, take j xs @ drop (Suc j) xs))"
proof (induction k d xs i rule: scanTransceivers.induct)
  case (1 k d xs i)
  show ?case
  proof (cases "i < length xs")
    case False
    then show ?thesis by (simp add: scanTransceivers.simps)
  next
    case True
    then have upt: "[i ..< length xs] = i # [i + 1 ..< length xs]"
      by (simp add: upt_conv_Cons)
    show ?thesis
    proof (cases "kind (xs ! i) \<noteq> k \<or> d \<noteq> Direction (xs ! i)")
      case miss: True
      then have "scanTransceivers k d xs i = scanTransceivers k d xs (i + 1)"
        using True by (subst scanTransceivers.simps) (simp add: Let_def)
      also have "\<dots> = (case filter (\<lambda>j. kind (xs ! j) = k \<and> Direction (xs ! j) = d)
                                  [i + 1 ..< length xs] of
                          [] \<Rightarrow> None
                        | j # _ \<Rightarrow> Some (xs ! j, take j xs @ drop (Suc j) xs))"
        using "1.IH" [OF True refl miss] .
      finally show ?thesis using miss by (subst upt) auto
    next
      case hit: False
      then have "scanTransceivers k d xs i = Some (xs ! i, take i xs @ drop (Suc i) xs)"
        using True by (subst scanTransceivers.simps) (simp add: Let_def)
      then show ?thesis using hit by (subst upt) auto
    qed
  qed
qed

lemma scanDirections_candidates:
  "scanDirections k ds xs =
     (case concat (map (\<lambda>d. map (Pair d)
                         (filter (\<lambda>i. kind (xs ! i) = k \<and> Direction (xs ! i) = d)
                                 [0 ..< length xs])) ds) of
        [] \<Rightarrow> None
      | (d, i) # _ \<Rightarrow> Some (xs ! i, take i xs @ drop (Suc i) xs))"
proof (induction ds)
  case Nil
  then show ?case by simp
next
  case (Cons d ds)
  show ?case
  proof (cases "filter (\<lambda>i. kind (xs ! i) = k \<and> Direction (xs ! i) = d) [0 ..< length xs]")
    case Nil
    then show ?thesis using Cons by (simp add: scanTransceivers_filter)
  next
    case (Cons j js)
    then show ?thesis by (simp add: scanTransceivers_filter)
  qed
qed

text \<open>
  C3. For every remote kind, remote direction and list of local transceivers,
  \<open>satisfyTypeAndDirection\<close> returns what the specification's satisfy procedure returns:
  with the preferred directions [recvonly, sendrecv] for a remote sendrecv or sendonly and
  [sendonly, sendrecv] for a remote recvonly, the first candidate in scanning order
  (directions in preferred order, transceivers in list order within a direction) together
  with the list without that element; and when there is no candidate, a fresh inactive
  transceiver of the requested kind together with the unchanged list.
\<close>

theorem satisfyTypeAndDirection_refines_spec:
  "satisfyTypeAndDirection k remote xs = spec_satisfy k remote xs"
proof -
  have "scanDirections k (getPreferredDirections remote) xs =
          (case spec_candidates k remote xs of
             [] \<Rightarrow> None
           | (d, i) # _ \<Rightarrow> Some (xs ! i, take i xs @ drop (Suc i) xs))"
    by (simp only: scanDirections_candidates getPreferredDirections_spec spec_candidates_def)
  then show ?thesis
    by (cases "spec_candidates k remote xs")
       (auto simp: satisfyTypeAndDirection_def spec_satisfy_def inactiveTransceiver_def)
qed

theorem satisfyTypeAndDirection_refines_spec_witness:
  "satisfyTypeAndDirection RTPCodecTypeVideo RTPTransceiverDirectionSendrecv
     [exampleTransceiver RTPCodecTypeVideo RTPTransceiverDirectionSendrecv,
      exampleTransceiver RTPCodecTypeAudio RTPTransceiverDirectionRecvonly,
      exampleTransceiver RTPCodecTypeVideo RTPTransceiverDirectionRecvonly]
   = (exampleTransceiver RTPCodecTypeVideo RTPTransceiverDirectionRecvonly,
      [exampleTransceiver RTPCodecTypeVideo RTPTransceiverDirectionSendrecv,
       exampleTransceiver RTPCodecTypeAudio RTPTransceiverDirectionRecvonly])
   \<and> satisfyTypeAndDirection RTPCodecTypeAudio RTPTransceiverDirectionRecvonly
     [exampleTransceiver RTPCodecTypeVideo RTPTransceiverDirectionSendrecv,
      exampleTransceiver RTPCodecTypeAudio RTPTransceiverDirectionRecvonly]
   = (\<lparr>Sender = None, Receiver = None, Direction = RTPTransceiverDirectionInactive,
       kind = RTPCodecTypeAudio, stopped = False\<rparr>,
      [exampleTransceiver RTPCodecTypeVideo RTPTransceiverDirectionSendrecv,
       exampleTransceiver RTPCodecTypeAudio RTPTransceiverDirectionRecvonly])"
  by (simp add: satisfyTypeAndDirection_refines_spec spec_satisfy_def spec_candidates_def
        spec_preferred_def exampleTransceiver_def upt_rec)

section \<open>Plan-B detection and the semantics check of CreateAnswer\<close>

lemma upper_lower_letters:
  "upperASCII CHR ''a'' = CHR ''A''" "upperASCII CHR ''u'' = CHR ''U''"
  "upperASCII CHR ''d'' = CHR ''D''" "upperASCII CHR ''i'' = CHR ''I''"
  "upperASCII CHR ''o'' = CHR ''O''" "upperASCII CHR ''v'' = CHR ''V''"
  "upperASCII CHR ''e'' = CHR ''E''" "upperASCII CHR ''t'' = CHR ''T''"
  "lowerASCII CHR ''a'' = CHR ''a''" "lowerASCII CHR ''u'' = CHR ''u''"
  "lowerASCII CHR ''d'' = CHR ''d''" "lowerASCII CHR ''i'' = CHR ''i''"
  "lowerASCII CHR ''o'' = CHR ''o''" "lowerASCII CHR ''v'' = CHR ''v''"
  "lowerASCII CHR ''e'' = CHR ''e''" "lowerASCII CHR ''t'' = CHR ''t''"
  by (simp_all add: upperASCII_def lowerASCII_def)

lemma lowerASCII_eq:
  "(lowerASCII c = CHR ''a'') = (c = CHR ''a'' \<or> c = CHR ''A'')"
  "(lowerASCII c = CHR ''u'') = (c = CHR ''u'' \<or> c = CHR ''U'')"
  "(lowerASCII c = CHR ''d'') = (c = CHR ''d'' \<or> c = CHR ''D'')"
  "(lowerASCII c = CHR ''i'') = (c = CHR ''i'' \<or> c = CHR ''I'')"
  "(lowerASCII c = CHR ''o'') = (c = CHR ''o'' \<or> c = CHR ''O'')"
  "(lowerASCII c = CHR ''v'') = (c = CHR ''v'' \<or> c = CHR ''V'')"
  "(lowerASCII c = CHR ''e'') = (c = CHR ''e'' \<or> c = CHR ''E'')"
  "(lowerASCII c = CHR ''t'') = (c = CHR ''t'' \<or> c = CHR ''T'')"
  by (simp_all add: lowerASCII_def)

lemma matchFold_lower:
  "p \<in> set ''audiovet'' \<Longrightarrow> matchFold p c = (lowerASCII c = p)"
  by (auto simp: matchFold_def upper_lower_letters lowerASCII_eq)

lemma matchLiteralFold_lower:
  "set w \<subseteq> set ''audiovet'' \<Longrightarrow> matchLiteralFold w s = (map lowerASCII s = w)"
proof (induction w s rule: matchLiteralFold.induct)
  case 1
  then show ?case by simp
next
  case (2 p ps c cs)
  then show ?case using matchFold_lower [of p c] by auto
qed auto

lemma detection_spec:
  "(length (detectionRegex_FindStringSubmatch s) = 2) =
     (equalIgnoringCase s ''audio'' \<or> equalIgnoringCase s ''video'' \<or> equalIgnoringCase s ''data'')"
proof -
  have "matchLiteralFold ''audio'' s = (map lowerASCII s = ''audio'')"
    by (rule matchLiteralFold_lower) simp
  moreover have "matchLiteralFold ''video'' s = (map lowerASCII s = ''video'')"
    by (rule matchLiteralFold_lower) simp
  moreover have "matchLiteralFold ''data'' s = (map lowerASCII s = ''data'')"
    by (rule matchLiteralFold_lower) simp
  moreover have "map lowerASCII ''audio'' = ''audio'' \<and> map lowerASCII ''video'' = ''video''
      \<and> map lowerASCII ''data'' = ''data''"
    by (simp add: upper_lower_letters)
  ultimately show ?thesis
    by (simp add: detectionRegex_FindStringSubmatch_def equalIgnoringCase_def)
qed

lemma descriptionIsPlanB_loop_spec:
  "descriptionIsPlanB_loop ms =
     list_ex (\<lambda>m. equalIgnoringCase (getMidValue m) ''audio''
                \<or> equalIgnoringCase (getMidValue m) ''video''
                \<or> equalIgnoringCase (getMidValue m) ''data'') ms"
  by (induction ms) (simp_all add: detection_spec)

lemma getMidValue_loop_filter:
  "getMidValue_loop as =
     (case filter (\<lambda>a. Key a = ''mid'') as of [] \<Rightarrow> [] | a # _ \<Rightarrow> Value a)"
  by (induction as) simp_all

lemma equalIgnoringCase_empty:
  "\<not> equalIgnoringCase [] ''audio''" "\<not> equalIgnoringCase [] ''video''"
  "\<not> equalIgnoringCase [] ''data''"
  by (simp_all add: equalIgnoringCase_def)

lemma descriptionIsPlanB_firstMid:
  "descriptionIsPlanB desc =
     (case desc of
        None \<Rightarrow> False
      | Some d \<Rightarrow> (case parsed d of None \<Rightarrow> False | Some p \<Rightarrow> firstMid_isPlanB p))"
proof -
  have "descriptionIsPlanB_loop ms =
          list_ex (\<lambda>m. case filter (\<lambda>a. Key a = ''mid'') (MediaAttributes m) of
                     [] \<Rightarrow> False
                   | a # _ \<Rightarrow> equalIgnoringCase (Value a) ''audio''
                              \<or> equalIgnoringCase (Value a) ''video''
                              \<or> equalIgnoringCase (Value a) ''data'') ms" for ms
    by (induction ms)
       (simp_all add: detection_spec getMidValue_def getMidValue_loop_filter
          equalIgnoringCase_empty split: list.splits)
  then show ?thesis
    by (simp add: descriptionIsPlanB_def firstMid_isPlanB_def split: option.splits)
qed

lemma single_mid_any:
  assumes "length (filter (\<lambda>a. Key a = k) as) \<le> 1"
  shows "(case filter (\<lambda>a. Key a = k) as of [] \<Rightarrow> False | a # _ \<Rightarrow> P (Value a))
           = list_ex (\<lambda>a. Key a = k \<and> P (Value a)) as"
proof -
  have "list_ex (\<lambda>a. Key a = k \<and> P (Value a)) as
          = list_ex (\<lambda>a. P (Value a)) (filter (\<lambda>a. Key a = k) as)"
    by (induction as) auto
  with assms show ?thesis
    by (cases "filter (\<lambda>a. Key a = k) as") (auto simp: list_ex_iff)
qed

lemma firstMid_isPlanB_spec:
  "singleMid p \<Longrightarrow> firstMid_isPlanB p = spec_isPlanB p"
proof -
  have "list_all (\<lambda>m. length (filter (\<lambda>a. Key a = ''mid'') (MediaAttributes m)) \<le> 1) ms \<Longrightarrow>
        list_ex (\<lambda>m. case filter (\<lambda>a. Key a = ''mid'') (MediaAttributes m) of
                     [] \<Rightarrow> False
                   | a # _ \<Rightarrow> equalIgnoringCase (Value a) ''audio''
                              \<or> equalIgnoringCase (Value a) ''video''
                              \<or> equalIgnoringCase (Value a) ''data'') ms
        = list_ex (\<lambda>m. list_ex (\<lambda>a. Key a = ''mid''
                              \<and> (equalIgnoringCase (Value a) ''audio''
                                 \<or> equalIgnoringCase (Value a) ''video''
                                 \<or> equalIgnoringCase (Value a) ''data''))
                         (MediaAttributes m)) ms" for ms
  proof (induction ms)
    case Nil
    then show ?case by simp
  next
    case (Cons m ms)
    from Cons.prems have "length (filter (\<lambda>a. Key a = ''mid'') (MediaAttributes m)) \<le> 1"
      by simp
    from single_mid_any [OF this, of "\<lambda>v. equalIgnoringCase v ''audio''
                              \<or> equalIgnoringCase v ''video''
                              \<or> equalIgnoringCase v ''data''"]
    show ?case using Cons by simp
  qed
  then show "singleMid p \<Longrightarrow> firstMid_isPlanB p = spec_isPlanB p"
    by (simp add: singleMid_def firstMid_isPlanB_def spec_isPlanB_def)
qed

lemma answerSemantics_mismatch:
  "semanticsMismatch sem detectedPlanB \<Longrightarrow>
     answerSemantics sem detectedPlanB k direction ls ms = Inl (TypeError ErrIncorrectSDPSemantics)"
  by (auto simp: semanticsMismatch_def answerSemantics_def)

lemma answerMedia_loop_mismatch:
  assumes "semanticsMismatch (SDPSemantics (configuration pc)) detectedPlanB"
  shows "(reachesRTPSection e ms \<longrightarrow>
            answerMedia_loop e pc iceParams candidates detectedPlanB ms st
              = Inl (TypeError ErrIncorrectSDPSemantics))
       \<and> (\<not> reachesRTPSection e ms \<longrightarrow>
            answerMedia_loop e pc iceParams candidates detectedPlanB ms st
              \<noteq> Inl (TypeError ErrIncorrectSDPSemantics))"
proof (induction ms arbitrary: st)
  case Nil
  then show ?case by simp
next
  case (Cons media rest)
  obtain d bundleValue localTransceivers where st: "st = (d, bundleValue, localTransceivers)"
    by (cases st)
  show ?case
  proof (cases "getMidValue media = []")
    case True
    then show ?thesis by (simp add: st)
  next
    case mid: False
    show ?thesis
    proof (cases "Media media = ''application''")
      case True
      then show ?thesis using mid Cons.IH by (simp add: st isRTPSection_def Let_def)
    next
      case notapp: False
      show ?thesis
      proof (cases "isRTPSection e media")
        case True
        then show ?thesis
          using mid notapp answerSemantics_mismatch [OF assms]
          by (simp add: st isRTPSection_def Let_def split: prod.splits)
      next
        case False
        then show ?thesis
          using mid notapp Cons.IH by (simp add: st isRTPSection_def Let_def)
      qed
    qed
  qed
qed

lemma addAnswerMediaTransceivers_mismatch:
  assumes "RemoteDescription pc = Some rd" and "parsed rd = Some p"
    and "GetLocalParameters e = Inr iceParams" and "GetLocalCandidates e = Inr candidates"
    and "semanticsMismatch (SDPSemantics (configuration pc)) (descriptionIsPlanB (Some rd))"
  shows "(reachesRTPSection e (MediaDescriptions p) \<longrightarrow>
            addAnswerMediaTransceivers e pc d = Inl (TypeError ErrIncorrectSDPSemantics))
       \<and> (\<not> reachesRTPSection e (MediaDescriptions p) \<longrightarrow>
            addAnswerMediaTransceivers e pc d \<noteq> Inl (TypeError ErrIncorrectSDPSemantics))"
proof -
  let ?planB = "descriptionIsPlanB (Some rd)"
  have det: "descriptionIsPlanB (RemoteDescription pc) = ?planB"
    using assms(1) by simp
  note loop = answerMedia_loop_mismatch
                [of pc ?planB e "MediaDescriptions p" iceParams candidates
                    "(d, ''BUNDLE'', rtpTransceivers pc)", OF assms(5)]
  show ?thesis
  proof (cases "answerMedia_loop e pc iceParams candidates ?planB (MediaDescriptions p)
                  (d, ''BUNDLE'', rtpTransceivers pc)")
    case (Inl err)
    with loop show ?thesis
      using assms(1-4) det by (auto simp: addAnswerMediaTransceivers_def Let_def)
  next
    case (Inr res)
    with loop show ?thesis
      using assms(1-4) det
      by (auto simp: addAnswerMediaTransceivers_def Let_def split: prod.splits)
  qed
qed

text \<open>
  C4. A remote description is detected as Plan-B if and only if, in at least one of its
  media sections, the first attribute with key \<open>mid\<close> has a value equal, ignoring the
  case of letters, to "audio", "video" or "data"; a description without a parsed document
  is not detected. When no section has more than one \<open>mid\<close> attribute, this is the
  specification's rule: some section carries a \<open>mid\<close> attribute with one of the three
  values. When \<open>CreateAnswer\<close> gets as far as walking the remote media sections (nil
  options, a remote description, no identity provider, connection open, fingerprints and
  local ICE parameters and candidates available) and the semantics do not fit
  (UnifiedPlan with a remote description detected Plan-B, or PlanB with one not detected
  Plan-B), it fails with TypeError(IncorrectSDPSemantics) if the walk reaches an RTP
  section (a section that is not an application section and whose kind and direction
  are recognised) before any section without a mid; and if it does not, the walk does
  not raise that error, since the check is made only while an RTP section is handled.
\<close>

theorem planB_detection_and_semantics_check:
  "descriptionIsPlanB desc =
     (case desc of
        None \<Rightarrow> False
      | Some d \<Rightarrow> (case parsed d of None \<Rightarrow> False | Some p \<Rightarrow> firstMid_isPlanB p))
   \<and> (parsed rd = Some p \<and> singleMid p \<longrightarrow> descriptionIsPlanB (Some rd) = spec_isPlanB p)
   \<and> (RemoteDescription pc = Some rd \<and> parsed rd = Some p
        \<and> idpLoginURL pc = None \<and> \<not> isClosed pc
        \<and> addFingerprint e pc (NewJSEPSessionDescription False) = Inr d0
        \<and> GetLocalParameters e = Inr iceParams \<and> GetLocalCandidates e = Inr candidates
        \<and> (SDPSemantics (configuration pc) = SDPSemanticsUnifiedPlan \<and> descriptionIsPlanB (Some rd)
            \<or> SDPSemantics (configuration pc) = SDPSemanticsPlanB \<and> \<not> descriptionIsPlanB (Some rd))
      \<longrightarrow> (reachesRTPSection e (MediaDescriptions p) \<longrightarrow>
               CreateAnswer e pc None = (pc, Inl (TypeError ErrIncorrectSDPSemantics)))
          \<and> (\<not> reachesRTPSection e (MediaDescriptions p) \<longrightarrow>
               addAnswerMediaTransceivers e pc d0 \<noteq> Inl (TypeError ErrIncorrectSDPSemantics)))"
proof -
  have part2: "(reachesRTPSection e (MediaDescriptions p) \<longrightarrow>
               CreateAnswer e pc None = (pc, Inl (TypeError ErrIncorrectSDPSemantics)))
          \<and> (\<not> reachesRTPSection e (MediaDescriptions p) \<longrightarrow>
               addAnswerMediaTransceivers e pc d0 \<noteq> Inl (TypeError ErrIncorrectSDPSemantics))"
    if rd: "RemoteDescription pc = Some rd" "parsed rd = Some p"
      and pre: "idpLoginURL pc = None" "\<not> isClosed pc"
        "addFingerprint e pc (NewJSEPSessionDescription False) = Inr d0"
      and ice: "GetLocalParameters e = Inr iceParams" "GetLocalCandidates e = Inr candidates"
      and mis: "SDPSemantics (configuration pc) = SDPSemanticsUnifiedPlan \<and> descriptionIsPlanB (Some rd)
            \<or> SDPSemantics (configuration pc) = SDPSemanticsPlanB \<and> \<not> descriptionIsPlanB (Some rd)"
  proof -
    from mis have "semanticsMismatch (SDPSemantics (configuration pc)) (descriptionIsPlanB (Some rd))"
      by (simp add: semanticsMismatch_def)
    note walk = addAnswerMediaTransceivers_mismatch [OF rd ice this, of d0]
    have "CreateAnswer e pc None = (pc, Inl (TypeError ErrIncorrectSDPSemantics))"
      if "addAnswerMediaTransceivers e pc d0 = Inl (TypeError ErrIncorrectSDPSemantics)"
      using that rd(1) pre by (simp add: CreateAnswer_def)
    with walk show ?thesis by blast
  qed
  have part1: "descriptionIsPlanB (Some rd) = spec_isPlanB p"
    if "parsed rd = Some p" "singleMid p"
    using that by (simp add: descriptionIsPlanB_firstMid firstMid_isPlanB_spec)
  show ?thesis
    using descriptionIsPlanB_firstMid [of desc] part1 part2 by blast
qed

lemmas sdp_builder_defs =
  NewJSEPSessionDescription_def WithValueAttribute_def WithFingerprint_def WithMedia_def
  NewJSEPMediaDescription_def media_WithValueAttribute_def media_WithPropertyAttribute_def
  WithICECredentials_def addCandidatesToMediaDescriptions_def NewAttribute_def
  NewPropertyAttribute_def

lemma example_planb_video_offer:
  "SetRemoteDescription exampleEnv examplePC (exampleDescription SDPTypeOffer ''v=0 planb video'') =
     (examplePC
        \<lparr>pendingRemoteDescription :=
           Some \<lparr>Type = SDPTypeOffer, SDP = ''v=0 planb video'', parsed = Some examplePlanBVideoDoc\<rparr>,
         signalingState := SignalingStateHaveRemoteOffer,
         sctpTransport := Some \<lparr>sctp_MaxChannels = 65535, sctp_association = False\<rparr>,
         trace := [OnSignalingStateChange SignalingStateHaveRemoteOffer,
                   EvStartNetworking False [] [] ''sha-256'' ''AB:CD'']\<rparr>,
      None)"
  by (simp add: SetRemoteDescription_def setDescription_def setDescription_switch_def
        checkNextSignalingState_def transitionTable_def rollbackPermitted_def
        RemoteDescription_def exampleDescription_def examplePC_def
        exampleEnv_def exampleUnmarshal_def examplePlanBVideoDoc_def exampleFingerprint_def
        NewAttribute_def NewPropertyAttribute_def IsICECandidate_def HasPrefix_def
        Attribute_String_def Let_def)

lemma example_planb_data_offer:
  "SetRemoteDescription exampleEnv examplePC (exampleDescription SDPTypeOffer ''v=0 planb data'') =
     (examplePC
        \<lparr>pendingRemoteDescription :=
           Some \<lparr>Type = SDPTypeOffer, SDP = ''v=0 planb data'', parsed = Some examplePlanBDataDoc\<rparr>,
         signalingState := SignalingStateHaveRemoteOffer,
         sctpTransport := Some \<lparr>sctp_MaxChannels = 65535, sctp_association = False\<rparr>,
         trace := [OnSignalingStateChange SignalingStateHaveRemoteOffer,
                   EvStartNetworking False [] [] ''sha-256'' ''AB:CD'']\<rparr>,
      None)"
  by (simp add: SetRemoteDescription_def setDescription_def setDescription_switch_def
        checkNextSignalingState_def transitionTable_def rollbackPermitted_def
        RemoteDescription_def exampleDescription_def examplePC_def
        exampleEnv_def exampleUnmarshal_def examplePlanBDataDoc_def exampleFingerprint_def
        NewAttribute_def NewPropertyAttribute_def IsICECandidate_def HasPrefix_def
        Attribute_String_def Let_def)

theorem planB_detection_and_semantics_check_witness:
  "snd (SetRemoteDescription exampleEnv examplePC
          (exampleDescription SDPTypeOffer ''v=0 planb video'')) = None
   \<and> SDPSemantics (configuration (fst (SetRemoteDescription exampleEnv examplePC
          (exampleDescription SDPTypeOffer ''v=0 planb video'')))) = SDPSemanticsUnifiedPlan
   \<and> descriptionIsPlanB (RemoteDescription (fst (SetRemoteDescription exampleEnv examplePC
          (exampleDescription SDPTypeOffer ''v=0 planb video''))))
   \<and> snd (CreateAnswer exampleEnv
        (fst (SetRemoteDescription exampleEnv examplePC
                (exampleDescription SDPTypeOffer ''v=0 planb video''))) None)
     = Inl (TypeError ErrIncorrectSDPSemantics)
   \<and> singleMid examplePlanBVideoDoc \<and> spec_isPlanB examplePlanBVideoDoc
   \<and> descriptionIsPlanB
        (Some \<lparr>Type = SDPTypeOffer, SDP = ''v=0 two mids'', parsed = Some exampleTwoMidsDoc\<rparr>)
       = False
   \<and> spec_isPlanB exampleTwoMidsDoc"
proof -
  let ?two = "\<lparr>Type = SDPTypeOffer, SDP = ''v=0 two mids'', parsed = Some exampleTwoMidsDoc\<rparr>"
  have "\<not> firstMid_isPlanB exampleTwoMidsDoc"
    by (simp add: firstMid_isPlanB_def exampleTwoMidsDoc_def NewAttribute_def
          NewPropertyAttribute_def equalIgnoringCase_def lowerASCII_def)
  with planB_detection_and_semantics_check [of "Some ?two"]
  have two: "descriptionIsPlanB (Some ?two) = False"
    by simp
  have two_spec: "spec_isPlanB exampleTwoMidsDoc"
    by (simp add: spec_isPlanB_def exampleTwoMidsDoc_def NewAttribute_def
          NewPropertyAttribute_def equalIgnoringCase_def lowerASCII_def)
  have single: "singleMid examplePlanBVideoDoc"
    by (simp add: singleMid_def examplePlanBVideoDoc_def NewAttribute_def
          NewPropertyAttribute_def)
  let ?rd = "\<lparr>Type = SDPTypeOffer, SDP = ''v=0 planb video'', parsed = Some examplePlanBVideoDoc\<rparr>"
  let ?pc = "fst (SetRemoteDescription exampleEnv examplePC
                (exampleDescription SDPTypeOffer ''v=0 planb video''))"
  have rd: "RemoteDescription ?pc = Some ?rd"
    by (simp add: example_planb_video_offer RemoteDescription_def)
  have p: "parsed ?rd = Some examplePlanBVideoDoc" by simp
  have pre: "idpLoginURL ?pc = None \<and> \<not> isClosed ?pc
      \<and> SDPSemantics (configuration ?pc) = SDPSemanticsUnifiedPlan"
    unfolding example_planb_video_offer fst_conv by (simp add: examplePC_def)
  have fp: "addFingerprint exampleEnv ?pc (NewJSEPSessionDescription False) =
              Inr (addFingerprint_loop exampleEnv [\<lparr>fp_Algorithm = ''sha-256'', fp_Value = ''ab:cd''\<rparr>]
                     (NewJSEPSessionDescription False))"
    unfolding example_planb_video_offer fst_conv
    by (simp add: addFingerprint_def examplePC_def exampleEnv_def)
  have ice: "GetLocalParameters exampleEnv
               = Inr \<lparr>UsernameFragment = ''ufrag'', Password = ''pwd'', ICELite = False\<rparr>
      \<and> GetLocalCandidates exampleEnv = Inr []"
    by (simp add: exampleEnv_def)
  have det: "descriptionIsPlanB (Some ?rd)"
    by (simp add: descriptionIsPlanB_firstMid firstMid_isPlanB_def examplePlanBVideoDoc_def
          getMidValue_def NewAttribute_def equalIgnoringCase_def lowerASCII_def)
  have reach: "reachesRTPSection exampleEnv (MediaDescriptions examplePlanBVideoDoc)"
    by (simp add: examplePlanBVideoDoc_def getMidValue_def isRTPSection_def getPeerDirection_def
          NewAttribute_def NewPropertyAttribute_def exampleEnv_def exampleNewRTPCodecType_def
          exampleNewDirection_def)
  from planB_detection_and_semantics_check
         [where pc = "?pc" and rd = "?rd" and p = examplePlanBVideoDoc and e = exampleEnv
            and ?d0.0 = "addFingerprint_loop exampleEnv
                      [\<lparr>fp_Algorithm = ''sha-256'', fp_Value = ''ab:cd''\<rparr>]
                      (NewJSEPSessionDescription False)"
            and iceParams = "\<lparr>UsernameFragment = ''ufrag'', Password = ''pwd'', ICELite = False\<rparr>"
            and candidates = "[]"]
       rd p pre fp ice det reach
  have "CreateAnswer exampleEnv ?pc None = (?pc, Inl (TypeError ErrIncorrectSDPSemantics))"
    by blast
  moreover have "snd (SetRemoteDescription exampleEnv examplePC
          (exampleDescription SDPTypeOffer ''v=0 planb video'')) = None"
    by (simp add: example_planb_video_offer)
  moreover have "spec_isPlanB examplePlanBVideoDoc"
    using planB_detection_and_semantics_check [where rd = "?rd" and p = examplePlanBVideoDoc]
      single det
    by simp
  ultimately show ?thesis
    using pre rd det single two two_spec by simp
qed

text \<open>
  The claim as stated fails for a remote offer that has a data section only: its mid
  \<open>data\<close> makes it Plan-B, and a PeerConnection with Unified Plan semantics answers it
  all the same, since no RTP section comes up on which the semantics would be checked.
\<close>

theorem planB_data_only_counterexample:
  "snd (SetRemoteDescription exampleEnv examplePC
          (exampleDescription SDPTypeOffer ''v=0 planb data'')) = None
   \<and> SDPSemantics (configuration (fst (SetRemoteDescription exampleEnv examplePC
          (exampleDescription SDPTypeOffer ''v=0 planb data'')))) = SDPSemanticsUnifiedPlan
   \<and> descriptionIsPlanB (RemoteDescription (fst (SetRemoteDescription exampleEnv examplePC
          (exampleDescription SDPTypeOffer ''v=0 planb data''))))
   \<and> isl (snd (CreateAnswer exampleEnv
        (fst (SetRemoteDescription exampleEnv examplePC
                (exampleDescription SDPTypeOffer ''v=0 planb data''))) None)) = False
   \<and> Type (projr (snd (CreateAnswer exampleEnv
        (fst (SetRemoteDescription exampleEnv examplePC
                (exampleDescription SDPTypeOffer ''v=0 planb data''))) None))) = SDPTypeAnswer
   \<and> map Media (MediaDescriptions (the (parsed (projr (snd (CreateAnswer exampleEnv
        (fst (SetRemoteDescription exampleEnv examplePC
                (exampleDescription SDPTypeOffer ''v=0 planb data''))) None))))))
     = [''application'']"
proof -
  have det: "descriptionIsPlanB
     (Some \<lparr>Type = SDPTypeOffer, SDP = ''v=0 planb data'', parsed = Some examplePlanBDataDoc\<rparr>)"
    by (simp add: descriptionIsPlanB_firstMid firstMid_isPlanB_def examplePlanBDataDoc_def
          getMidValue_def NewAttribute_def equalIgnoringCase_def lowerASCII_def)
  show ?thesis
    unfolding example_planb_data_offer fst_conv snd_conv
    using det
    by (simp add: CreateAnswer_def addAnswerMediaTransceivers_def addFingerprint_def
          RemoteDescription_def examplePC_def exampleEnv_def examplePlanBDataDoc_def
          getMidValue_def addDataMediaSection_def sdp_builder_defs Let_def)
qed

section \<open>The layout of an offer\<close>

lemma WithCodec_appends:
  "Media (WithCodec pt n cr ch f m) = Media m
   \<and> (\<exists>xs. MediaAttributes (WithCodec pt n cr ch f m) = MediaAttributes m @ xs)"
  by (simp add: WithCodec_def media_WithValueAttribute_def Let_def)

lemma addFeedback_loop_appends:
  "Media (addFeedback_loop pt fs m) = Media m
   \<and> (\<exists>xs. MediaAttributes (addFeedback_loop pt fs m) = MediaAttributes m @ xs)"
proof (induction fs arbitrary: m)
  case Nil
  then show ?case by simp
next
  case (Cons f fs)
  from Cons [of "media_WithValueAttribute ''rtcp-fb''
          (Itoa (unat pt) @ '' '' @ fb_Type f @ '' '' @ fb_Parameter f) m"]
  show ?case by (auto simp: media_WithValueAttribute_def)
qed

lemma addCodecs_loop_appends:
  "Media (addCodecs_loop cs m) = Media m
   \<and> (\<exists>xs. MediaAttributes (addCodecs_loop cs m) = MediaAttributes m @ xs)"
proof (induction cs arbitrary: m)
  case Nil
  then show ?case by simp
next
  case (Cons c cs)
  let ?m1 = "WithCodec (codec_PayloadType c) (codec_Name c) (codec_ClockRate c)
             (codec_Channels c) (codec_SDPFmtpLine c) m"
  let ?m2 = "addFeedback_loop (codec_PayloadType c) (codec_RTCPFeedback c) ?m1"
  from WithCodec_appends [of "codec_PayloadType c" "codec_Name c" "codec_ClockRate c"
         "codec_Channels c" "codec_SDPFmtpLine c" m]
       addFeedback_loop_appends [of "codec_PayloadType c" "codec_RTCPFeedback c" ?m1]
       Cons [of ?m2]
  show ?case by auto
qed

lemma WithMediaSource_appends:
  "Media (WithMediaSource s c l i m) = Media m
   \<and> (\<exists>xs. MediaAttributes (WithMediaSource s c l i m) = MediaAttributes m @ xs)"
  by (simp add: WithMediaSource_def media_WithValueAttribute_def)

lemma addMediaSources_loop_appends:
  "Media (addMediaSources_loop sem ts m) = Media m
   \<and> (\<exists>xs. MediaAttributes (addMediaSources_loop sem ts m) = MediaAttributes m @ xs)"
proof (induction ts arbitrary: m)
  case Nil
  then show ?case by simp
next
  case (Cons t ts)
  show ?case
  proof (cases "Sender t")
    case None
    with Cons show ?thesis by simp
  next
    case (Some s)
    show ?thesis
    proof (cases "sender_track s")
      case None
      with Some Cons show ?thesis by simp
    next
      case (Some track)
      let ?m1 = "WithMediaSource (track_ssrc track) (track_label track)
                   (track_label track) (track_id track) m"
      from WithMediaSource_appends [of "track_ssrc track" "track_label track"
             "track_label track" "track_id track" m] Cons [of ?m1]
      show ?thesis
        using \<open>Sender t = Some s\<close> Some
        by (auto simp: Let_def media_WithPropertyAttribute_def)
    qed
  qed
qed

lemma addCandidates_loop_appends:
  "Media (addCandidates_loop e cs m) = Media m
   \<and> (\<exists>xs. MediaAttributes (addCandidates_loop e cs m) = MediaAttributes m @ xs)"
proof (induction cs arbitrary: m)
  case Nil
  then show ?case by simp
next
  case (Cons c cs)
  from Cons [of "media_WithValueAttribute ''candidate'' (candidateValue e c 2)
         (media_WithValueAttribute ''candidate'' (candidateValue e c 1) m)"]
  show ?case by (auto simp: media_WithValueAttribute_def)
qed

lemma addCandidatesToMediaDescriptions_appends:
  "Media (addCandidatesToMediaDescriptions e cs m) = Media m
   \<and> (\<exists>xs. MediaAttributes (addCandidatesToMediaDescriptions e cs m) = MediaAttributes m @ xs)"
  using addCandidates_loop_appends [of e cs m]
  by (auto simp: addCandidatesToMediaDescriptions_def Let_def media_WithPropertyAttribute_def)

lemma getMidValue_loop_append:
  "list_ex (\<lambda>a. Key a = ''mid'') as \<Longrightarrow> getMidValue_loop (as @ xs) = getMidValue_loop as"
  by (induction as) auto

lemma getMidValue_appended:
  assumes "\<exists>xs. MediaAttributes m' = MediaAttributes m @ xs"
    and "list_ex (\<lambda>a. Key a = ''mid'') (MediaAttributes m)"
  shows "getMidValue m' = getMidValue m"
  using assms by (auto simp: getMidValue_def getMidValue_loop_append)

lemma Port_media_WithPropertyAttribute: "Port (media_WithPropertyAttribute k m) = Port m"
  by (simp add: media_WithPropertyAttribute_def)

lemma Port_addFeedback_loop: "Port (addFeedback_loop pt fs m) = Port m"
  by (induction fs arbitrary: m) (simp_all add: media_WithValueAttribute_def)

lemma Port_addCodecs_loop: "Port (addCodecs_loop cs m) = Port m"
  by (induction cs arbitrary: m)
     (simp_all add: Port_addFeedback_loop WithCodec_def media_WithValueAttribute_def Let_def)

lemma Port_addMediaSources_loop: "Port (addMediaSources_loop sem ts m) = Port m"
  by (induction sem ts m rule: addMediaSources_loop.induct)
     (simp_all add: WithMediaSource_def media_WithValueAttribute_def
        media_WithPropertyAttribute_def Let_def split: option.splits)

lemma Port_addCandidates_loop: "Port (addCandidates_loop e cs m) = Port m"
  by (induction cs arbitrary: m) (simp_all add: media_WithValueAttribute_def)

lemma Port_addCandidatesToMediaDescriptions:
  "Port (addCandidatesToMediaDescriptions e cs m) = Port m"
  by (simp add: addCandidatesToMediaDescriptions_def Port_addCandidates_loop
        media_WithPropertyAttribute_def Let_def)

lemma firstMid_appended:
  assumes "\<exists>xs. MediaAttributes m' = MediaAttributes m @ xs"
    and "list_ex (\<lambda>a. Key a = ''mid'') (MediaAttributes m)"
  shows "firstMid m' = firstMid m"
proof -
  from assms(1) obtain xs where xs: "MediaAttributes m' = MediaAttributes m @ xs" ..
  from assms(2) obtain a as where "filter (\<lambda>a. Key a = ''mid'') (MediaAttributes m) = a # as"
    by (cases "filter (\<lambda>a. Key a = ''mid'') (MediaAttributes m)")
       (auto simp: list_ex_iff filter_empty_conv)
  then show ?thesis by (simp add: firstMid_def xs)
qed

lemma addTransceiverSDP_section:
  "\<exists>m. addTransceiverSDP e pc d midValue iceParams candidates dtlsRole (t # ts) = Inr (WithMedia m d)
       \<and> Media m = RTPCodecType_String e (kind t)
       \<and> getMidValue m = (if GetCodecsByKind e (kind t) = [] then [] else midValue)
       \<and> sectionLayout m = spec_section e (kind t) midValue"
proof (cases "GetCodecsByKind e (kind t) = []")
  case True
  then have "addTransceiverSDP e pc d midValue iceParams candidates dtlsRole (t # ts)
               = Inr (WithMedia (rejectedMedia (RTPCodecType_String e (kind t))) d)"
    by (simp add: addTransceiverSDP_def Let_def)
  moreover have "Media (rejectedMedia (RTPCodecType_String e (kind t))) = RTPCodecType_String e (kind t)"
    "getMidValue (rejectedMedia (RTPCodecType_String e (kind t))) = []"
    "sectionLayout (rejectedMedia (RTPCodecType_String e (kind t)))
       = (RTPCodecType_String e (kind t), 0, None)"
    by (simp_all add: rejectedMedia_def getMidValue_def sectionLayout_def firstMid_def)
  ultimately show ?thesis using True by (auto simp: spec_section_def)
next
  case False
  let ?m5 = "media_WithPropertyAttribute ''rtcp-rsize''
              (media_WithPropertyAttribute ''rtcp-mux''
                (WithICECredentials (UsernameFragment iceParams) (Password iceParams)
                  (media_WithValueAttribute ''mid'' midValue
                    (media_WithValueAttribute ''setup'' (ConnectionRole_String dtlsRole)
                      (NewJSEPMediaDescription (RTPCodecType_String e (kind t)))))))"
  let ?m6 = "addCodecs_loop (GetCodecsByKind e (kind t)) ?m5"
  let ?m7 = "addMediaSources_loop (SDPSemantics (configuration pc)) (t # ts) ?m6"
  let ?m8 = "media_WithPropertyAttribute (RTPTransceiverDirection_String e (Direction t)) ?m7"
  let ?m9 = "addCandidatesToMediaDescriptions e candidates ?m8"
  have res: "addTransceiverSDP e pc d midValue iceParams candidates dtlsRole (t # ts)
               = Inr (WithMedia ?m9 d)"
    using False by (simp add: addTransceiverSDP_def Let_def)
  have m5: "Media ?m5 = RTPCodecType_String e (kind t)"
    "list_ex (\<lambda>a. Key a = ''mid'') (MediaAttributes ?m5)"
    "getMidValue ?m5 = midValue"
    "firstMid ?m5 = Some midValue"
    "Port ?m5 = 9"
    by (simp_all add: media_WithPropertyAttribute_def WithICECredentials_def
          media_WithValueAttribute_def NewJSEPMediaDescription_def getMidValue_def
          firstMid_def NewAttribute_def NewPropertyAttribute_def)
  have "Port ?m9 = Port ?m8"
    by (rule Port_addCandidatesToMediaDescriptions)
  also have "\<dots> = Port ?m7"
    by (rule Port_media_WithPropertyAttribute)
  also have "\<dots> = Port ?m6"
    by (rule Port_addMediaSources_loop)
  also have "\<dots> = Port ?m5"
    by (rule Port_addCodecs_loop)
  finally have port: "Port ?m9 = Port ?m5" .
  have "Media ?m9 = Media ?m5 \<and> (\<exists>xs. MediaAttributes ?m9 = MediaAttributes ?m5 @ xs)"
  proof -
    from addCodecs_loop_appends [of "GetCodecsByKind e (kind t)" ?m5]
    obtain x6 where 6: "Media ?m6 = Media ?m5" "MediaAttributes ?m6 = MediaAttributes ?m5 @ x6"
      by blast
    from addMediaSources_loop_appends [of "SDPSemantics (configuration pc)" "t # ts" ?m6]
    obtain x7 where 7: "Media ?m7 = Media ?m6" "MediaAttributes ?m7 = MediaAttributes ?m6 @ x7"
      by blast
    have 8: "Media ?m8 = Media ?m7"
      "MediaAttributes ?m8 = MediaAttributes ?m7 @
         [NewPropertyAttribute (RTPTransceiverDirection_String e (Direction t))]"
      by (simp_all add: media_WithPropertyAttribute_def)
    from addCandidatesToMediaDescriptions_appends [of e candidates ?m8]
    obtain x9 where 9: "Media ?m9 = Media ?m8" "MediaAttributes ?m9 = MediaAttributes ?m8 @ x9"
      by blast
    from 6 7 8 9 show ?thesis by simp
  qed
  with m5 have "Media ?m9 = RTPCodecType_String e (kind t)" "getMidValue ?m9 = midValue"
    "firstMid ?m9 = Some midValue"
    using getMidValue_appended [of ?m9 ?m5] firstMid_appended [of ?m9 ?m5] by auto
  moreover from this port m5(5)
  have "sectionLayout ?m9 = spec_section e (kind t) midValue"
    using False by (simp add: sectionLayout_def spec_section_def)
  ultimately show ?thesis using res False by auto
qed

lemma addDataMediaSection_section:
  "\<exists>m. addDataMediaSection e d midValue iceParams candidates dtlsRole = WithMedia m d
       \<and> Media m = ''application'' \<and> getMidValue m = midValue
       \<and> sectionLayout m = (''application'', 9, Some midValue)"
proof -
  let ?m5 = "WithICECredentials (UsernameFragment iceParams) (Password iceParams)
     (media_WithPropertyAttribute ''sctpmap:5000 webrtc-datachannel 1024''
       (media_WithPropertyAttribute (RTPTransceiverDirection_String e RTPTransceiverDirectionSendrecv)
         (media_WithValueAttribute ''mid'' midValue
           (media_WithValueAttribute ''setup'' (ConnectionRole_String dtlsRole)
              \<lparr>Media = ''application'', Port = 9, Protos = [''DTLS'', ''SCTP''],
                Formats = [''5000''], ConnectionInformation = Some (''IN'', ''IP4'', ''0.0.0.0''),
                MediaAttributes = []\<rparr>))))"
  let ?m6 = "addCandidatesToMediaDescriptions e candidates ?m5"
  have res: "addDataMediaSection e d midValue iceParams candidates dtlsRole = WithMedia ?m6 d"
    by (simp add: addDataMediaSection_def Let_def)
  have m5: "Media ?m5 = ''application''"
    "list_ex (\<lambda>a. Key a = ''mid'') (MediaAttributes ?m5)"
    "getMidValue ?m5 = midValue"
    "firstMid ?m5 = Some midValue"
    "Port ?m5 = 9"
    by (simp_all add: media_WithPropertyAttribute_def WithICECredentials_def
          media_WithValueAttribute_def getMidValue_def firstMid_def NewAttribute_def
          NewPropertyAttribute_def)
  from addCandidatesToMediaDescriptions_appends [of e candidates ?m5] m5
  have "Media ?m6 = ''application''" "getMidValue ?m6 = midValue" "firstMid ?m6 = Some midValue"
    using getMidValue_appended [of ?m6 ?m5] firstMid_appended [of ?m6 ?m5] by auto
  moreover from this m5(5)
  have "sectionLayout ?m6 = (''application'', 9, Some midValue)"
    by (simp add: sectionLayout_def Port_addCandidatesToMediaDescriptions)
  ultimately show ?thesis using res by blast
qed


lemma offerTransceivers_loop_layout:
  "\<exists>d' secs.
     offerTransceivers_loop e pc iceParams candidates ts (d, bv, n)
       = Inr (d', bv @ concat (map (\<lambda>i. '' '' @ Itoa i) [n ..< n + length ts]), n + length ts)
     \<and> Attributes d' = Attributes d
     \<and> MediaDescriptions d' = MediaDescriptions d @ secs
     \<and> map Media secs = map (\<lambda>t. RTPCodecType_String e (kind t)) ts
     \<and> map getMidValue secs = spec_unifiedMids e ts n
     \<and> map sectionLayout secs = map (\<lambda>(i, t). spec_section e (kind t) (Itoa i)) (enumerate n ts)"
proof (induction ts arbitrary: d bv n)
  case Nil
  then show ?case by (simp add: spec_unifiedMids_def)
next
  case (Cons t ts)
  from addTransceiverSDP_section [of e pc d "Itoa n" iceParams candidates ConnectionRoleActpass t "[]"]
  obtain m where m:
    "addTransceiverSDP e pc d (Itoa n) iceParams candidates ConnectionRoleActpass [t]
       = Inr (WithMedia m d)"
    "Media m = RTPCodecType_String e (kind t)"
    "getMidValue m = (if GetCodecsByKind e (kind t) = [] then [] else Itoa n)"
    "sectionLayout m = spec_section e (kind t) (Itoa n)"
    by blast
  from Cons [of "WithMedia m d" "bv @ '' '' @ Itoa n" "Suc n"]
  obtain d' secs where IH:
    "offerTransceivers_loop e pc iceParams candidates ts (WithMedia m d, bv @ '' '' @ Itoa n, Suc n)
       = Inr (d', (bv @ '' '' @ Itoa n) @ concat (map (\<lambda>i. '' '' @ Itoa i) [Suc n ..< Suc n + length ts]),
              Suc n + length ts)"
    "Attributes d' = Attributes (WithMedia m d)"
    "MediaDescriptions d' = MediaDescriptions (WithMedia m d) @ secs"
    "map Media secs = map (\<lambda>t. RTPCodecType_String e (kind t)) ts"
    "map getMidValue secs = spec_unifiedMids e ts (Suc n)"
    "map sectionLayout secs = map (\<lambda>(i, t). spec_section e (kind t) (Itoa i)) (enumerate (Suc n) ts)"
    by blast
  have "[n ..< Suc (n + length ts)] = n # [Suc n ..< Suc (n + length ts)]"
    by (rule upt_conv_Cons) simp
  then have upt: "[n ..< n + length (t # ts)] = n # [Suc n ..< Suc n + length ts]"
    by simp
  have "offerTransceivers_loop e pc iceParams candidates (t # ts) (d, bv, n)
       = Inr (d', bv @ concat (map (\<lambda>i. '' '' @ Itoa i) [n ..< n + length (t # ts)]),
              n + length (t # ts))"
    unfolding upt using m(1) IH(1) by (simp add: Let_def appendBundle_def)
  moreover have "Attributes d' = Attributes d"
    using IH(2) by (simp add: WithMedia_def)
  moreover have "MediaDescriptions d' = MediaDescriptions d @ (m # secs)"
    using IH(3) by (simp add: WithMedia_def)
  moreover have "map Media (m # secs) = map (\<lambda>t. RTPCodecType_String e (kind t)) (t # ts)"
    using m(2) IH(4) by simp
  moreover have "map getMidValue (m # secs) = spec_unifiedMids e (t # ts) n"
    using m(3) IH(5) by (simp add: spec_unifiedMids_def)
  moreover have "map sectionLayout (m # secs)
      = map (\<lambda>(i, t). spec_section e (kind t) (Itoa i)) (enumerate n (t # ts))"
    using m(4) IH(6) by simp
  ultimately show ?case by blast
qed

lemma spec_unifiedMids_all_codecs:
  "list_all (\<lambda>t. GetCodecsByKind e (kind t) \<noteq> []) ts \<Longrightarrow>
     spec_unifiedMids e ts n = map Itoa [n ..< n + length ts]"
proof (induction ts arbitrary: n)
  case Nil
  then show ?case by (simp add: spec_unifiedMids_def)
next
  case (Cons t ts)
  have "[n ..< Suc (n + length ts)] = n # [Suc n ..< Suc (n + length ts)]"
    by (rule upt_conv_Cons) simp
  then have upt: "[n ..< n + length (t # ts)] = n # [Suc n ..< Suc n + length ts]"
    by simp
  from Cons.prems Cons.IH [of "Suc n"] show ?case
    unfolding upt by (simp add: spec_unifiedMids_def)
qed

lemma offerPlanBKind_layout:
  assumes "\<forall>t \<in> set ts. kind t = k"
  shows "\<exists>d' secs.
     offerPlanBKind e pc iceParams candidates midValue ts (d, bv, n)
       = Inr (d', bv @ (if ts \<noteq> [] then '' '' @ midValue else []), n + (if ts \<noteq> [] then 1 else 0))
     \<and> Attributes d' = Attributes d
     \<and> MediaDescriptions d' = MediaDescriptions d @ secs
     \<and> map getMidValue secs =
         (if ts \<noteq> [] then [if GetCodecsByKind e k = [] then [] else midValue] else [])
     \<and> map sectionLayout secs = (if ts \<noteq> [] then [spec_section e k midValue] else [])"
proof (cases ts)
  case Nil
  then show ?thesis by (simp add: offerPlanBKind_def)
next
  case (Cons t rest)
  from addTransceiverSDP_section [of e pc d midValue iceParams candidates ConnectionRoleActpass t rest]
  obtain m where m:
    "addTransceiverSDP e pc d midValue iceParams candidates ConnectionRoleActpass (t # rest)
       = Inr (WithMedia m d)"
    "getMidValue m = (if GetCodecsByKind e (kind t) = [] then [] else midValue)"
    "sectionLayout m = spec_section e (kind t) midValue"
    by blast
  from assms Cons have k: "kind t = k" by simp
  have "offerPlanBKind e pc iceParams candidates midValue ts (d, bv, n)
       = Inr (WithMedia m d, bv @ '' '' @ midValue, n + 1)"
    using Cons m(1) by (simp add: offerPlanBKind_def appendBundle_def)
  moreover have "Attributes (WithMedia m d) = Attributes d"
    "MediaDescriptions (WithMedia m d) = MediaDescriptions d @ [m]"
    by (simp_all add: WithMedia_def)
  moreover have "map getMidValue [m] = [if GetCodecsByKind e k = [] then [] else midValue]"
    "map sectionLayout [m] = [spec_section e k midValue]"
    using m(2,3) k by simp_all
  ultimately show ?thesis using Cons by auto
qed

lemma addFingerprint_loop_attributes:
  "MediaDescriptions (addFingerprint_loop e fps d) = MediaDescriptions d
   \<and> filter (\<lambda>a. Key a = ''group'') (Attributes (addFingerprint_loop e fps d))
       = filter (\<lambda>a. Key a = ''group'') (Attributes d)"
proof (induction fps arbitrary: d)
  case Nil
  then show ?case by simp
next
  case (Cons fp fps)
  from Cons [of "WithFingerprint (fp_Algorithm fp) (ToUpper e (fp_Value fp)) d"]
  show ?case
    by (simp add: WithFingerprint_def WithValueAttribute_def NewAttribute_def)
qed

lemma addFingerprint_blank:
  assumes "addFingerprint e pc (NewJSEPSessionDescription False) = Inr d0"
  shows "MediaDescriptions d0 = [] \<and> filter (\<lambda>a. Key a = ''group'') (Attributes d0) = []"
proof -
  from assms obtain fps where "d0 = addFingerprint_loop e fps (NewJSEPSessionDescription False)"
    by (auto simp: addFingerprint_def split: list.splits sum.splits)
  with addFingerprint_loop_attributes [of e fps "NewJSEPSessionDescription False"]
  show ?thesis by (simp add: NewJSEPSessionDescription_def)
qed

lemma CreateOffer_success:
  assumes "CreateOffer e pc options = (pc', Inr desc)"
  shows "\<exists>d0 iceParams candidates d1 bv n.
           addFingerprint e pc (NewJSEPSessionDescription False) = Inr d0
         \<and> offerSections e pc iceParams candidates d0 = Inr (d1, bv, n)
         \<and> parsed desc =
             Some (WithValueAttribute ''group''
                     (bv @ '' '' @ (if SDPSemantics (configuration pc) = SDPSemanticsPlanB
                                    then ''data'' else Itoa n))
                     (addDataMediaSection e d1
                        (if SDPSemantics (configuration pc) = SDPSemanticsPlanB
                         then ''data'' else Itoa n)
                        iceParams candidates ConnectionRoleActpass))"
proof -
  from assms have pre: "options = None" "idpLoginURL pc = None" "\<not> isClosed pc"
    by (auto simp: CreateOffer_def Let_def split: if_splits)
  from assms pre obtain d0 where d0: "addFingerprint e pc (NewJSEPSessionDescription False) = Inr d0"
    by (cases "addFingerprint e pc (NewJSEPSessionDescription False)")
       (auto simp: CreateOffer_def Let_def)
  from assms pre d0 obtain iceParams where ip: "GetLocalParameters e = Inr iceParams"
    by (cases "GetLocalParameters e") (auto simp: CreateOffer_def Let_def)
  from assms pre d0 ip obtain candidates where cs: "GetLocalCandidates e = Inr candidates"
    by (cases "GetLocalCandidates e") (auto simp: CreateOffer_def Let_def)
  from assms pre d0 ip cs obtain d1 bv n where
    os: "offerSections e pc iceParams candidates d0 = Inr (d1, bv, n)"
    by (cases "offerSections e pc iceParams candidates d0")
       (auto simp: CreateOffer_def Let_def)
  from assms pre d0 ip cs os
  have "parsed desc =
             Some (WithValueAttribute ''group''
                     (bv @ '' '' @ (if SDPSemantics (configuration pc) = SDPSemanticsPlanB
                                    then ''data'' else Itoa n))
                     (addDataMediaSection e d1
                        (if SDPSemantics (configuration pc) = SDPSemanticsPlanB
                         then ''data'' else Itoa n)
                        iceParams candidates ConnectionRoleActpass))"
    by (auto simp: CreateOffer_def Let_def appendBundle_def split: sum.splits if_splits)
  with d0 os show ?thesis by blast
qed

lemma spec_bundle_upto:
  "''BUNDLE'' @ concat (map (\<lambda>i. '' '' @ Itoa i) [0 ..< n]) @ '' '' @ Itoa n
     = spec_bundle (map Itoa [0 ..< Suc n])"
  by (simp add: spec_bundle_def comp_def)

lemma CreateOffer_unified_layout:
  assumes "CreateOffer e pc options = (pc', Inr desc)"
    and "SDPSemantics (configuration pc) \<noteq> SDPSemanticsPlanB"
  shows "\<exists>d. parsed desc = Some d
       \<and> map Media (MediaDescriptions d)
           = map (\<lambda>t. RTPCodecType_String e (kind t)) (rtpTransceivers pc) @ [''application'']
       \<and> map getMidValue (MediaDescriptions d)
           = spec_unifiedMids e (rtpTransceivers pc) 0 @ [Itoa (length (rtpTransceivers pc))]
       \<and> groupAttributes d = [spec_bundle (map Itoa [0 ..< Suc (length (rtpTransceivers pc))])]
       \<and> map sectionLayout (MediaDescriptions d) = spec_unifiedLayout e (rtpTransceivers pc)"
proof -
  let ?ts = "rtpTransceivers pc"
  from CreateOffer_success [OF assms(1)] assms(2) obtain d0 iceParams candidates d1 bv n where
    d0: "addFingerprint e pc (NewJSEPSessionDescription False) = Inr d0"
    and os: "offerSections e pc iceParams candidates d0 = Inr (d1, bv, n)"
    and p: "parsed desc = Some (WithValueAttribute ''group'' (bv @ '' '' @ Itoa n)
              (addDataMediaSection e d1 (Itoa n) iceParams candidates ConnectionRoleActpass))"
    by auto
  from addFingerprint_blank [OF d0]
  have blank: "MediaDescriptions d0 = []" "filter (\<lambda>a. Key a = ''group'') (Attributes d0) = []"
    by simp_all
  from offerTransceivers_loop_layout [of e pc iceParams candidates ?ts d0 "''BUNDLE''" 0]
  obtain d' secs where loop:
    "offerTransceivers_loop e pc iceParams candidates ?ts (d0, ''BUNDLE'', 0)
       = Inr (d', ''BUNDLE'' @ concat (map (\<lambda>i. '' '' @ Itoa i) [0 ..< 0 + length ?ts]),
              0 + length ?ts)"
    "Attributes d' = Attributes d0"
    "MediaDescriptions d' = MediaDescriptions d0 @ secs"
    "map Media secs = map (\<lambda>t. RTPCodecType_String e (kind t)) ?ts"
    "map getMidValue secs = spec_unifiedMids e ?ts 0"
    "map sectionLayout secs = map (\<lambda>(i, t). spec_section e (kind t) (Itoa i)) (enumerate 0 ?ts)"
    by blast
  have "offerSections e pc iceParams candidates d0
          = offerTransceivers_loop e pc iceParams candidates ?ts (d0, ''BUNDLE'', 0)"
    using assms(2) by (simp add: offerSections_def)
  with os loop(1)
  have "(Inr (d1, bv, n) :: error + sdp_SessionDescription \<times> string \<times> nat)
          = Inr (d', ''BUNDLE'' @ concat (map (\<lambda>i. '' '' @ Itoa i) [0 ..< 0 + length ?ts]),
                 0 + length ?ts)"
    by (simp only:)
  then have eq: "d1 = d'" "bv = ''BUNDLE'' @ concat (map (\<lambda>i. '' '' @ Itoa i) [0 ..< length ?ts])"
    "n = length ?ts"
    by auto
  from addDataMediaSection_section [of e d1 "Itoa n" iceParams candidates ConnectionRoleActpass]
  obtain m where m:
    "addDataMediaSection e d1 (Itoa n) iceParams candidates ConnectionRoleActpass = WithMedia m d1"
    "Media m = ''application''" "getMidValue m = Itoa n"
    "sectionLayout m = (''application'', 9, Some (Itoa n))"
    by blast
  let ?d = "WithValueAttribute ''group'' (bv @ '' '' @ Itoa n) (WithMedia m d1)"
  have "parsed desc = Some ?d" using p m(1) by simp
  moreover have "MediaDescriptions ?d = secs @ [m]"
    using loop(3) blank(1) eq(1) by (simp add: WithValueAttribute_def WithMedia_def)
  moreover have "groupAttributes ?d = [bv @ '' '' @ Itoa n]"
    using loop(2) blank(2) eq(1)
    by (simp add: groupAttributes_def WithValueAttribute_def WithMedia_def NewAttribute_def)
  moreover have "bv @ '' '' @ Itoa n = spec_bundle (map Itoa [0 ..< Suc (length ?ts)])"
    using spec_bundle_upto [of "length ?ts"] eq(2,3) by simp
  ultimately show ?thesis
    using loop(4,5,6) m(2,3,4) eq(3) by (simp add: spec_unifiedLayout_def)
qed

lemma CreateOffer_planB_layout:
  assumes "CreateOffer e pc options = (pc', Inr desc)"
    and "SDPSemantics (configuration pc) = SDPSemanticsPlanB"
  shows "\<exists>d. parsed desc = Some d
       \<and> map getMidValue (MediaDescriptions d) = spec_planBMids e (rtpTransceivers pc)
       \<and> groupAttributes d = [spec_bundle (spec_planBNames (rtpTransceivers pc))]
       \<and> map sectionLayout (MediaDescriptions d) = spec_planBLayout e (rtpTransceivers pc)"
proof -
  let ?video = "filter (\<lambda>t. kind t = RTPCodecTypeVideo) (rtpTransceivers pc)"
  let ?audio = "filter (\<lambda>t. kind t = RTPCodecTypeAudio) (rtpTransceivers pc)"
  from CreateOffer_success [OF assms(1)] assms(2) obtain d0 iceParams candidates d1 bv n where
    d0: "addFingerprint e pc (NewJSEPSessionDescription False) = Inr d0"
    and os: "offerSections e pc iceParams candidates d0 = Inr (d1, bv, n)"
    and p: "parsed desc = Some (WithValueAttribute ''group'' (bv @ '' '' @ ''data'')
              (addDataMediaSection e d1 ''data'' iceParams candidates ConnectionRoleActpass))"
    by auto
  from addFingerprint_blank [OF d0]
  have blank: "MediaDescriptions d0 = []" "filter (\<lambda>a. Key a = ''group'') (Attributes d0) = []"
    by simp_all
  have vk: "\<forall>t \<in> set ?video. kind t = RTPCodecTypeVideo" by simp
  have ak: "\<forall>t \<in> set ?audio. kind t = RTPCodecTypeAudio" by simp
  from offerPlanBKind_layout [OF vk, of e pc iceParams candidates "''video''" d0 "''BUNDLE''" 0]
  obtain dv sv where v:
    "offerPlanBKind e pc iceParams candidates ''video'' ?video (d0, ''BUNDLE'', 0)
       = Inr (dv, ''BUNDLE'' @ (if ?video \<noteq> [] then '' '' @ ''video'' else []),
              0 + (if ?video \<noteq> [] then 1 else 0))"
    "Attributes dv = Attributes d0"
    "MediaDescriptions dv = MediaDescriptions d0 @ sv"
    "map getMidValue sv =
       (if ?video \<noteq> [] then [if GetCodecsByKind e RTPCodecTypeVideo = [] then [] else ''video'']
        else [])"
    "map sectionLayout sv = (if ?video \<noteq> [] then [spec_section e RTPCodecTypeVideo ''video''] else [])"
    by blast
  from offerPlanBKind_layout [OF ak, of e pc iceParams candidates "''audio''" dv
         "''BUNDLE'' @ (if ?video \<noteq> [] then '' '' @ ''video'' else [])"
         "0 + (if ?video \<noteq> [] then 1 else 0)"]
  obtain da sa where a:
    "offerPlanBKind e pc iceParams candidates ''audio'' ?audio
        (dv, ''BUNDLE'' @ (if ?video \<noteq> [] then '' '' @ ''video'' else []),
         0 + (if ?video \<noteq> [] then 1 else 0))
       = Inr (da, (''BUNDLE'' @ (if ?video \<noteq> [] then '' '' @ ''video'' else []))
                    @ (if ?audio \<noteq> [] then '' '' @ ''audio'' else []),
              (0 + (if ?video \<noteq> [] then 1 else 0)) + (if ?audio \<noteq> [] then 1 else 0))"
    "Attributes da = Attributes dv"
    "MediaDescriptions da = MediaDescriptions dv @ sa"
    "map getMidValue sa =
       (if ?audio \<noteq> [] then [if GetCodecsByKind e RTPCodecTypeAudio = [] then [] else ''audio'']
        else [])"
    "map sectionLayout sa = (if ?audio \<noteq> [] then [spec_section e RTPCodecTypeAudio ''audio''] else [])"
    by blast
  have "offerSections e pc iceParams candidates d0
          = offerPlanBKind e pc iceParams candidates ''audio'' ?audio
              (dv, ''BUNDLE'' @ (if ?video \<noteq> [] then '' '' @ ''video'' else []),
               0 + (if ?video \<noteq> [] then 1 else 0))"
    using assms(2) v(1) by (simp add: offerSections_def Let_def)
  with os a(1)
  have "(Inr (d1, bv, n) :: error + sdp_SessionDescription \<times> string \<times> nat)
          = Inr (da, (''BUNDLE'' @ (if ?video \<noteq> [] then '' '' @ ''video'' else []))
                    @ (if ?audio \<noteq> [] then '' '' @ ''audio'' else []),
              (0 + (if ?video \<noteq> [] then 1 else 0)) + (if ?audio \<noteq> [] then 1 else 0))"
    by (simp only:)
  then have eq: "d1 = da"
    "bv = (''BUNDLE'' @ (if ?video \<noteq> [] then '' '' @ ''video'' else []))
            @ (if ?audio \<noteq> [] then '' '' @ ''audio'' else [])"
    by auto
  from addDataMediaSection_section [of e d1 "''data''" iceParams candidates ConnectionRoleActpass]
  obtain m where m:
    "addDataMediaSection e d1 ''data'' iceParams candidates ConnectionRoleActpass = WithMedia m d1"
    "getMidValue m = ''data''"
    "sectionLayout m = (''application'', 9, Some ''data'')"
    by blast
  let ?d = "WithValueAttribute ''group'' (bv @ '' '' @ ''data'') (WithMedia m d1)"
  have "parsed desc = Some ?d" using p m(1) by simp
  moreover have "MediaDescriptions ?d = sv @ sa @ [m]"
    using v(3) a(3) blank(1) eq(1) by (simp add: WithValueAttribute_def WithMedia_def)
  moreover have "groupAttributes ?d = [bv @ '' '' @ ''data'']"
    using v(2) a(2) blank(2) eq(1)
    by (simp add: groupAttributes_def WithValueAttribute_def WithMedia_def NewAttribute_def)
  moreover have "bv @ '' '' @ ''data'' = spec_bundle (spec_planBNames (rtpTransceivers pc))"
    unfolding eq(2) by (simp add: spec_bundle_def spec_planBNames_def)
  ultimately show ?thesis
    using v(4,5) a(4,5) m(2,3) by (simp add: spec_planBMids_def spec_planBLayout_def)
qed

text \<open>
  C5. For every successful \<open>CreateOffer\<close> that is not under Plan-B, the i-th
  transceiver of the registry produces the i-th section, of the transceiver's kind, the
  data section comes last, and the session's group attribute is BUNDLE followed by the
  decimal strings 0 to n, n being the number of transceivers. The i-th section has port 9
  and the mid i when the media engine has a codec for the transceiver's kind, and is a
  rejected section, with port 0 and without any mid attribute, when it has none; the data
  section has port 9 and the mid n. So when every transceiver's kind has a codec, the
  mids are "0" to "n" in order and the BUNDLE group lists exactly the mids of the sections
  in emission order. Under Plan-B the sections are, in this order, one video section
  (when there is a video transceiver), one audio section (when there is an audio
  transceiver) and the data section; the group attribute lists the names \<open>video\<close>,
  \<open>audio\<close>, \<open>data\<close> of the sections emitted, and each section has port 9 and its
  name as mid, except that the video or audio section is rejected, with port 0 and
  without mid, when the media engine has no codec of the kind. The mid of a section is
  read as the value of its first attribute with key \<open>mid\<close>.
\<close>

theorem CreateOffer_section_layout:
  assumes "CreateOffer e pc options = (pc', Inr desc)"
  shows "\<exists>d. parsed desc = Some d
       \<and> (SDPSemantics (configuration pc) \<noteq> SDPSemanticsPlanB \<longrightarrow>
            map Media (MediaDescriptions d)
              = map (\<lambda>t. RTPCodecType_String e (kind t)) (rtpTransceivers pc) @ [''application'']
          \<and> map getMidValue (MediaDescriptions d)
              = spec_unifiedMids e (rtpTransceivers pc) 0 @ [Itoa (length (rtpTransceivers pc))]
          \<and> groupAttributes d = [spec_bundle (map Itoa [0 ..< Suc (length (rtpTransceivers pc))])]
          \<and> map sectionLayout (MediaDescriptions d) = spec_unifiedLayout e (rtpTransceivers pc)
          \<and> (list_all (\<lambda>t. GetCodecsByKind e (kind t) \<noteq> []) (rtpTransceivers pc) \<longrightarrow>
                map getMidValue (MediaDescriptions d) = map Itoa [0 ..< Suc (length (rtpTransceivers pc))]
              \<and> groupAttributes d = [spec_bundle (map getMidValue (MediaDescriptions d))]))
       \<and> (SDPSemantics (configuration pc) = SDPSemanticsPlanB \<longrightarrow>
            map getMidValue (MediaDescriptions d) = spec_planBMids e (rtpTransceivers pc)
          \<and> groupAttributes d = [spec_bundle (spec_planBNames (rtpTransceivers pc))]
          \<and> map sectionLayout (MediaDescriptions d) = spec_planBLayout e (rtpTransceivers pc))"
proof (cases "SDPSemantics (configuration pc) = SDPSemanticsPlanB")
  case True
  from CreateOffer_planB_layout [OF assms True] True show ?thesis by auto
next
  case False
  from CreateOffer_unified_layout [OF assms False] obtain d where d:
    "parsed desc = Some d"
    "map Media (MediaDescriptions d)
       = map (\<lambda>t. RTPCodecType_String e (kind t)) (rtpTransceivers pc) @ [''application'']"
    "map getMidValue (MediaDescriptions d)
       = spec_unifiedMids e (rtpTransceivers pc) 0 @ [Itoa (length (rtpTransceivers pc))]"
    "groupAttributes d = [spec_bundle (map Itoa [0 ..< Suc (length (rtpTransceivers pc))])]"
    "map sectionLayout (MediaDescriptions d) = spec_unifiedLayout e (rtpTransceivers pc)"
    by blast
  have "map getMidValue (MediaDescriptions d) = map Itoa [0 ..< Suc (length (rtpTransceivers pc))]"
    if "list_all (\<lambda>t. GetCodecsByKind e (kind t) \<noteq> []) (rtpTransceivers pc)"
    using spec_unifiedMids_all_codecs [OF that, of 0] d(3) by simp
  with d False show ?thesis by auto
qed

lemma Itoa_small: "Itoa 0 = ''0''" "Itoa (Suc 0) = ''1''"
  by (simp_all add: Itoa.simps)

lemma example_add_video:
  "AddTransceiverFromKind exampleEnv examplePC RTPCodecTypeVideo [] =
     (examplePC
        \<lparr>rtpTransceivers :=
           [\<lparr>Sender = Some \<lparr>sender_track =
                               Some \<lparr>track_payloadType = 96, track_ssrc = 1234, track_id = ''id'',
                                     track_label = ''label'', track_kind = RTPCodecTypeVideo\<rparr>,
                             sender_hasSent = False\<rparr>,
              Receiver = Some \<lparr>receiver_track = None\<rparr>,
              Direction = RTPTransceiverDirectionSendrecv, kind = RTPCodecTypeVideo,
              stopped = False\<rparr>]\<rparr>,
      Inr \<lparr>Sender = Some \<lparr>sender_track =
                               Some \<lparr>track_payloadType = 96, track_ssrc = 1234, track_id = ''id'',
                                     track_label = ''label'', track_kind = RTPCodecTypeVideo\<rparr>,
                             sender_hasSent = False\<rparr>,
            Receiver = Some \<lparr>receiver_track = None\<rparr>,
            Direction = RTPTransceiverDirectionSendrecv, kind = RTPCodecTypeVideo,
            stopped = False\<rparr>)"
  by (simp add: AddTransceiverFromKind_def newRTPTransceiver_def exampleEnv_def examplePC_def
        exampleCodec_def Let_def)

lemma example_add_audio:
  "AddTransceiverFromKind exampleEnv examplePC RTPCodecTypeAudio
       [\<lparr>ti_Direction = RTPTransceiverDirectionRecvonly\<rparr>] =
     (examplePC
        \<lparr>rtpTransceivers :=
           [\<lparr>Sender = None, Receiver = Some \<lparr>receiver_track = None\<rparr>,
              Direction = RTPTransceiverDirectionRecvonly, kind = RTPCodecTypeAudio,
              stopped = False\<rparr>]\<rparr>,
      Inr \<lparr>Sender = None, Receiver = Some \<lparr>receiver_track = None\<rparr>,
            Direction = RTPTransceiverDirectionRecvonly, kind = RTPCodecTypeAudio,
            stopped = False\<rparr>)"
  by (simp add: AddTransceiverFromKind_def newRTPTransceiver_def exampleEnv_def examplePC_def
        Let_def)

lemma offerSections_succeeds:
  "\<exists>r. offerSections e pc iceParams candidates d0 = Inr r"
proof (cases "SDPSemantics (configuration pc) = SDPSemanticsPlanB")
  case False
  from offerTransceivers_loop_layout [of e pc iceParams candidates "rtpTransceivers pc" d0 "''BUNDLE''" 0]
  show ?thesis using False by (auto simp: offerSections_def)
next
  case True
  let ?video = "filter (\<lambda>t. kind t = RTPCodecTypeVideo) (rtpTransceivers pc)"
  let ?audio = "filter (\<lambda>t. kind t = RTPCodecTypeAudio) (rtpTransceivers pc)"
  have vk: "\<forall>t \<in> set ?video. kind t = RTPCodecTypeVideo" by simp
  have ak: "\<forall>t \<in> set ?audio. kind t = RTPCodecTypeAudio" by simp
  from offerPlanBKind_layout [OF vk, of e pc iceParams candidates "''video''" d0 "''BUNDLE''" 0]
  obtain dv bv n where v:
    "offerPlanBKind e pc iceParams candidates ''video'' ?video (d0, ''BUNDLE'', 0) = Inr (dv, bv, n)"
    by blast
  from offerPlanBKind_layout [OF ak, of e pc iceParams candidates "''audio''" dv bv n]
  obtain da ba na where
    "offerPlanBKind e pc iceParams candidates ''audio'' ?audio (dv, bv, n) = Inr (da, ba, na)"
    by blast
  with v True show ?thesis by (simp add: offerSections_def Let_def)
qed

lemma CreateOffer_succeeds:
  assumes "idpLoginURL pc = None" and "\<not> isClosed pc"
    and "addFingerprint e pc (NewJSEPSessionDescription False) = Inr d0"
    and "GetLocalParameters e = Inr iceParams" and "GetLocalCandidates e = Inr candidates"
    and "\<And>d. Marshal e d = Inr (text d)"
  shows "CreateOffer e pc None
           = (fst (CreateOffer e pc None), Inr (projr (snd (CreateOffer e pc None))))"
proof -
  from offerSections_succeeds [of e pc iceParams candidates d0]
  obtain d1 b where "offerSections e pc iceParams candidates d0 = Inr (d1, b)"
    by (metis surj_pair)
  then have "isl (snd (CreateOffer e pc None)) = False"
    using assms by (simp add: CreateOffer_def Let_def split: prod.splits)
  then show ?thesis
    by (cases "snd (CreateOffer e pc None)") (simp_all add: prod_eq_iff)
qed

lemma example_CreateOffer_succeeds:
  assumes "idpLoginURL pc = None" and "\<not> isClosed pc"
    and "Certificates (configuration pc) = [''certificate'']"
  shows "CreateOffer exampleEnv pc None
           = (fst (CreateOffer exampleEnv pc None),
              Inr (projr (snd (CreateOffer exampleEnv pc None))))"
proof (rule CreateOffer_succeeds [OF assms(1,2)])
  show "addFingerprint exampleEnv pc (NewJSEPSessionDescription False)
          = Inr (addFingerprint_loop exampleEnv [\<lparr>fp_Algorithm = ''sha-256'', fp_Value = ''ab:cd''\<rparr>]
                   (NewJSEPSessionDescription False))"
    using assms(3) by (simp add: addFingerprint_def exampleEnv_def)
  show "GetLocalParameters exampleEnv
          = Inr \<lparr>UsernameFragment = ''ufrag'', Password = ''pwd'', ICELite = False\<rparr>"
    "GetLocalCandidates exampleEnv = Inr []"
    "\<And>d. Marshal exampleEnv d = Inr ((\<lambda>d. ''v=0'') d)"
    by (simp_all add: exampleEnv_def)
qed

lemma example_two_kinds:
  "exampleTwoKinds pc =
     pc\<lparr>rtpTransceivers := rtpTransceivers pc @
           [\<lparr>Sender = None, Receiver = Some \<lparr>receiver_track = None\<rparr>,
              Direction = RTPTransceiverDirectionRecvonly, kind = RTPCodecTypeAudio,
              stopped = False\<rparr>,
            \<lparr>Sender = Some \<lparr>sender_track =
                               Some \<lparr>track_payloadType = 96, track_ssrc = 1234, track_id = ''id'',
                                     track_label = ''label'', track_kind = RTPCodecTypeVideo\<rparr>,
                             sender_hasSent = False\<rparr>,
              Receiver = Some \<lparr>receiver_track = None\<rparr>,
              Direction = RTPTransceiverDirectionSendrecv, kind = RTPCodecTypeVideo,
              stopped = False\<rparr>]\<rparr>"
  by (simp add: exampleTwoKinds_def AddTransceiverFromKind_def newRTPTransceiver_def
        exampleEnv_def exampleCodec_def Let_def)

lemma Itoa_two: "Itoa 2 = ''2''" "Itoa (Suc (Suc 0)) = ''2''"
  by (simp_all add: Itoa.simps)

theorem CreateOffer_section_layout_witness:
  "isl (snd (CreateOffer exampleEnv
        (fst (AddTransceiverFromKind exampleEnv examplePC RTPCodecTypeVideo [])) None)) = False
   \<and> map getMidValue (MediaDescriptions (the (parsed (projr (snd (CreateOffer exampleEnv
        (fst (AddTransceiverFromKind exampleEnv examplePC RTPCodecTypeVideo [])) None))))))
       = [''0'', ''1'']
   \<and> map Media (MediaDescriptions (the (parsed (projr (snd (CreateOffer exampleEnv
        (fst (AddTransceiverFromKind exampleEnv examplePC RTPCodecTypeVideo [])) None))))))
       = [''video'', ''application'']
   \<and> groupAttributes (the (parsed (projr (snd (CreateOffer exampleEnv
        (fst (AddTransceiverFromKind exampleEnv examplePC RTPCodecTypeVideo [])) None)))))
       = [''BUNDLE 0 1'']
   \<and> map kind (rtpTransceivers (exampleTwoKinds examplePC))
       = [RTPCodecTypeAudio, RTPCodecTypeVideo]
   \<and> isl (snd (CreateOffer exampleEnv (exampleTwoKinds examplePC) None)) = False
   \<and> map sectionLayout (MediaDescriptions (the (parsed (projr (snd
        (CreateOffer exampleEnv (exampleTwoKinds examplePC) None))))))
       = [(''audio'', 0, None), (''video'', 9, Some ''1''), (''application'', 9, Some ''2'')]
   \<and> groupAttributes (the (parsed (projr (snd
        (CreateOffer exampleEnv (exampleTwoKinds examplePC) None)))))
       = [''BUNDLE 0 1 2'']
   \<and> SDPSemantics (configuration (exampleTwoKinds examplePlanBPC)) = SDPSemanticsPlanB
   \<and> isl (snd (CreateOffer exampleEnv (exampleTwoKinds examplePlanBPC) None)) = False
   \<and> map sectionLayout (MediaDescriptions (the (parsed (projr (snd
        (CreateOffer exampleEnv (exampleTwoKinds examplePlanBPC) None))))))
       = [(''video'', 9, Some ''video''), (''audio'', 0, None), (''application'', 9, Some ''data'')]
   \<and> groupAttributes (the (parsed (projr (snd
        (CreateOffer exampleEnv (exampleTwoKinds examplePlanBPC) None)))))
       = [''BUNDLE video audio data'']"
proof -
  let ?pc = "fst (AddTransceiverFromKind exampleEnv examplePC RTPCodecTypeVideo [])"
  let ?r = "CreateOffer exampleEnv ?pc None"
  let ?u = "exampleTwoKinds examplePC"
  let ?ru = "CreateOffer exampleEnv ?u None"
  let ?b = "exampleTwoKinds examplePlanBPC"
  let ?rb = "CreateOffer exampleEnv ?b None"
  have sem: "SDPSemantics (configuration ?pc) \<noteq> SDPSemanticsPlanB"
    unfolding example_add_video fst_conv by (simp add: examplePC_def)
  have semu: "SDPSemantics (configuration ?u) \<noteq> SDPSemanticsPlanB"
    by (simp add: example_two_kinds examplePC_def)
  have semb: "SDPSemantics (configuration ?b) = SDPSemanticsPlanB"
    by (simp add: example_two_kinds examplePlanBPC_def)
  have r: "?r = (fst ?r, Inr (projr (snd ?r)))"
    by (rule example_CreateOffer_succeeds; unfold example_add_video fst_conv)
       (simp_all add: examplePC_def)
  have ru: "?ru = (fst ?ru, Inr (projr (snd ?ru)))"
    by (rule example_CreateOffer_succeeds) (simp_all add: example_two_kinds examplePC_def)
  have rb: "?rb = (fst ?rb, Inr (projr (snd ?rb)))"
    by (rule example_CreateOffer_succeeds)
       (simp_all add: example_two_kinds examplePlanBPC_def examplePC_def)
  from CreateOffer_section_layout [OF r] sem obtain d where d:
    "parsed (projr (snd ?r)) = Some d"
    "map Media (MediaDescriptions d)
       = map (\<lambda>t. RTPCodecType_String exampleEnv (kind t)) (rtpTransceivers ?pc) @ [''application'']"
    "map getMidValue (MediaDescriptions d)
       = spec_unifiedMids exampleEnv (rtpTransceivers ?pc) 0 @ [Itoa (length (rtpTransceivers ?pc))]"
    "groupAttributes d = [spec_bundle (map Itoa [0 ..< Suc (length (rtpTransceivers ?pc))])]"
    by blast
  from CreateOffer_section_layout [OF ru] semu obtain du where du:
    "parsed (projr (snd ?ru)) = Some du"
    "groupAttributes du = [spec_bundle (map Itoa [0 ..< Suc (length (rtpTransceivers ?u))])]"
    "map sectionLayout (MediaDescriptions du) = spec_unifiedLayout exampleEnv (rtpTransceivers ?u)"
    by blast
  from CreateOffer_section_layout [OF rb] semb obtain db where db:
    "parsed (projr (snd ?rb)) = Some db"
    "groupAttributes db = [spec_bundle (spec_planBNames (rtpTransceivers ?b))]"
    "map sectionLayout (MediaDescriptions db) = spec_planBLayout exampleEnv (rtpTransceivers ?b)"
    by blast
  have ts: "map kind (rtpTransceivers ?pc) = [RTPCodecTypeVideo]"
    unfolding example_add_video fst_conv by simp
  then obtain t where t: "rtpTransceivers ?pc = [t]" "kind t = RTPCodecTypeVideo"
    by auto
  have 1: "map Media (MediaDescriptions d) = [''video'', ''application'']"
    using d(2) t by (simp add: exampleEnv_def)
  have 2: "map getMidValue (MediaDescriptions d) = [''0'', ''1'']"
    using d(3) t by (simp add: spec_unifiedMids_def exampleEnv_def Itoa_small)
  have 3: "groupAttributes d = [''BUNDLE 0 1'']"
    using d(4) t by (simp add: spec_bundle_def Itoa_small)
  have ku: "map kind (rtpTransceivers ?u) = [RTPCodecTypeAudio, RTPCodecTypeVideo]"
    by (simp add: example_two_kinds examplePC_def)
  have 4: "map sectionLayout (MediaDescriptions du)
      = [(''audio'', 0, None), (''video'', 9, Some ''1''), (''application'', 9, Some ''2'')]"
    unfolding du(3)
    by (simp add: example_two_kinds examplePC_def spec_unifiedLayout_def spec_section_def
          exampleEnv_def Itoa_small Itoa_two)
  have 5: "groupAttributes du = [''BUNDLE 0 1 2'']"
    unfolding du(2)
    by (simp add: example_two_kinds examplePC_def spec_bundle_def upt_rec Itoa_small Itoa_two)
  have 6: "map sectionLayout (MediaDescriptions db)
      = [(''video'', 9, Some ''video''), (''audio'', 0, None), (''application'', 9, Some ''data'')]"
    unfolding db(3)
    by (simp add: example_two_kinds examplePlanBPC_def examplePC_def spec_planBLayout_def
          spec_section_def exampleEnv_def)
  have 7: "groupAttributes db = [''BUNDLE video audio data'']"
    unfolding db(2)
    by (simp add: example_two_kinds examplePlanBPC_def examplePC_def spec_bundle_def
          spec_planBNames_def)
  have ok: "isl (snd ?r) = False" "isl (snd ?ru) = False" "isl (snd ?rb) = False"
    by (subst r, simp) (subst ru, simp, subst rb, simp)
  show ?thesis
    using ok d(1) du(1) db(1) 1 2 3 4 5 6 7 ku semb by simp
qed

text \<open>
  The claim as stated fails when the media engine has no codec for a transceiver's
  kind: with video codecs only, a receive-only audio transceiver added by
  \<open>AddTransceiverFromKind\<close> yields a rejected first section without a mid, while the
  BUNDLE group still lists "0".
\<close>

theorem CreateOffer_rejected_section_counterexample:
  "isl (snd (AddTransceiverFromKind exampleEnv examplePC RTPCodecTypeAudio
               [\<lparr>ti_Direction = RTPTransceiverDirectionRecvonly\<rparr>])) = False
   \<and> SDPSemantics (configuration (fst (AddTransceiverFromKind exampleEnv examplePC RTPCodecTypeAudio
               [\<lparr>ti_Direction = RTPTransceiverDirectionRecvonly\<rparr>]))) = SDPSemanticsUnifiedPlan
   \<and> isl (snd (CreateOffer exampleEnv
        (fst (AddTransceiverFromKind exampleEnv examplePC RTPCodecTypeAudio
               [\<lparr>ti_Direction = RTPTransceiverDirectionRecvonly\<rparr>])) None)) = False
   \<and> map getMidValue (MediaDescriptions (the (parsed (projr (snd (CreateOffer exampleEnv
        (fst (AddTransceiverFromKind exampleEnv examplePC RTPCodecTypeAudio
               [\<lparr>ti_Direction = RTPTransceiverDirectionRecvonly\<rparr>])) None))))))
       = [[], ''1'']
   \<and> map Port (MediaDescriptions (the (parsed (projr (snd (CreateOffer exampleEnv
        (fst (AddTransceiverFromKind exampleEnv examplePC RTPCodecTypeAudio
               [\<lparr>ti_Direction = RTPTransceiverDirectionRecvonly\<rparr>])) None))))))
       = [0, 9]
   \<and> groupAttributes (the (parsed (projr (snd (CreateOffer exampleEnv
        (fst (AddTransceiverFromKind exampleEnv examplePC RTPCodecTypeAudio
               [\<lparr>ti_Direction = RTPTransceiverDirectionRecvonly\<rparr>])) None)))))
       = [''BUNDLE 0 1'']"
  unfolding example_add_audio fst_conv snd_conv
  by (simp add: CreateOffer_def offerSections_def addFingerprint_def addTransceiverSDP_def
        addDataMediaSection_def rejectedMedia_def getMidValue_def groupAttributes_def
        appendBundle_def sdp_builder_defs examplePC_def exampleEnv_def Itoa_small Let_def)

section \<open>Properties of SetRemoteDescription\<close>

lemma SetRemoteDescription_guard:
  "currentRemoteDescription pc \<noteq> None \<Longrightarrow> SetRemoteDescription e pc desc = (pc, Some alreadyDefined)"
  by (simp add: SetRemoteDescription_def alreadyDefined_def)

lemma setDescription_setRemote_answer_current:
  assumes "Type sd = SDPTypeAnswer"
    and "setDescription pc sd stateChangeOpSetRemote = (pc1, None)"
  shows "currentRemoteDescription pc1 = Some sd"
  using assms(2) unfolding setDescription_setRemote_answer [OF assms(1)]
  by (auto split: if_splits prod.splits option.splits)

lemma setDescription_setRemote_pending:
  assumes "Type sd \<noteq> SDPTypeAnswer"
    and "setDescription pc sd stateChangeOpSetRemote = (pc1, None)"
  shows "currentRemoteDescription pc1 = currentRemoteDescription pc
       \<and> pendingRemoteDescription pc1 = (if Type sd = SDPTypeRollback then None else Some sd)"
  using assms
  by (cases "Type sd")
     (auto simp: setDescription_def setDescription_switch_def Let_def
           split: prod.splits option.splits if_splits)

lemma SetRemoteDescription_success:
  assumes "SetRemoteDescription e pc desc = (pc2, None)"
  shows "\<exists>p pc1. Unmarshal e (SDP desc) = Inr p
           \<and> setDescription pc (desc\<lparr>parsed := Some p\<rparr>) stateChangeOpSetRemote = (pc1, None)
           \<and> currentRemoteDescription pc2 = currentRemoteDescription pc1
           \<and> pendingRemoteDescription pc2 = pendingRemoteDescription pc1
           \<and> RemoteDescription pc1 \<noteq> None
           \<and> currentRemoteDescription pc = None"
proof -
  from assms have open_pc: "currentRemoteDescription pc = None" "\<not> isClosed pc"
    by (auto simp: SetRemoteDescription_def split: if_splits)
  from assms open_pc obtain p where p: "Unmarshal e (SDP desc) = Inr p"
    by (cases "Unmarshal e (SDP desc)") (auto simp: SetRemoteDescription_def)
  obtain pc1 r where sd: "setDescription pc (desc\<lparr>parsed := Some p\<rparr>) stateChangeOpSetRemote = (pc1, r)"
    by (cases "setDescription pc (desc\<lparr>parsed := Some p\<rparr>) stateChangeOpSetRemote")
  from assms open_pc p sd have r: "r = None"
    by (cases r) (auto simp: SetRemoteDescription_def Let_def)
  from assms open_pc p sd r
  have "currentRemoteDescription pc2 = currentRemoteDescription pc1
      \<and> pendingRemoteDescription pc2 = pendingRemoteDescription pc1
      \<and> RemoteDescription pc1 \<noteq> None"
    by (auto simp: SetRemoteDescription_def Let_def
             split: option.splits prod.splits if_splits)
  with p sd r open_pc(1) show ?thesis by blast
qed

lemma SetRemoteDescription_pending:
  assumes "Type desc \<noteq> SDPTypeAnswer" and "SetRemoteDescription e pc desc = (pc2, None)"
  shows "currentRemoteDescription pc2 = None
       \<and> (\<exists>p. Unmarshal e (SDP desc) = Inr p
              \<and> pendingRemoteDescription pc2 = Some (desc\<lparr>parsed := Some p\<rparr>))"
proof -
  from SetRemoteDescription_success [OF assms(2)] obtain p pc1 where
    p: "Unmarshal e (SDP desc) = Inr p"
    and sd: "setDescription pc (desc\<lparr>parsed := Some p\<rparr>) stateChangeOpSetRemote = (pc1, None)"
    and cur: "currentRemoteDescription pc2 = currentRemoteDescription pc1"
    and pen: "pendingRemoteDescription pc2 = pendingRemoteDescription pc1"
    and rd: "RemoteDescription pc1 \<noteq> None"
    and none: "currentRemoteDescription pc = None"
    by blast
  from assms(1) have "Type (desc\<lparr>parsed := Some p\<rparr>) \<noteq> SDPTypeAnswer" by simp
  from setDescription_setRemote_pending [OF this sd]
  have 1: "currentRemoteDescription pc1 = currentRemoteDescription pc"
    and 2: "pendingRemoteDescription pc1
              = (if Type desc = SDPTypeRollback then None else Some (desc\<lparr>parsed := Some p\<rparr>))"
    by simp_all
  from rd 1 none have "pendingRemoteDescription pc1 \<noteq> None"
    by (simp add: RemoteDescription_def split: if_splits)
  with 2 have "pendingRemoteDescription pc1 = Some (desc\<lparr>parsed := Some p\<rparr>)"
    by (simp split: if_splits)
  with p cur pen 1 none show ?thesis by simp
qed

lemma SetRemoteDescription_unguarded:
  assumes "currentRemoteDescription pc = None"
  shows "(isClosed pc \<longrightarrow>
            SetRemoteDescription e pc desc = (pc, Some (InvalidStateError ErrConnectionClosed)))
       \<and> (\<not> isClosed pc \<and> Unmarshal e (SDP desc) = Inl err \<longrightarrow>
            SetRemoteDescription e pc desc = (pc, Some err))
       \<and> (\<not> isClosed pc \<and> Unmarshal e (SDP desc) = Inr p
            \<and> setDescription pc (desc\<lparr>parsed := Some p\<rparr>) stateChangeOpSetRemote = (pc1, Some err) \<longrightarrow>
            SetRemoteDescription e pc desc = (pc1, Some err))"
  using assms by (simp add: SetRemoteDescription_def Let_def)

text \<open>
  C6. \<open>SetRemoteDescription\<close> fails with the error "remoteDescription is already
  defined, SetRemoteDescription can only be called once", and changes nothing, whenever a
  current remote description is set; so on every PeerConnection on which a previous
  \<open>SetRemoteDescription\<close> call that installed an answer has succeeded, each further call
  fails with that error. After a successful call with a description of another type the
  current remote description is still unset and the description, with its parsed
  document, is the pending remote description. And while the current remote description
  is unset the guard does not decide the call: it fails with
  InvalidStateError(ConnectionClosed) on a closed connection; on an open one with the
  parser's error when the parser rejects the text; and with the error of
  \<open>setDescription\<close> when the parser accepts the text and \<open>setDescription\<close> (the check
  of type and operation and the signaling state machine) fails.
\<close>

theorem SetRemoteDescription_once_after_answer:
  "(currentRemoteDescription pc \<noteq> None \<longrightarrow>
      SetRemoteDescription e' pc desc' =
        (pc, Some (Errorf ''remoteDescription is already defined, SetRemoteDescription can only be called once'')))
   \<and> (Type desc = SDPTypeAnswer \<and> SetRemoteDescription e pc desc = (pc', None) \<longrightarrow>
      SetRemoteDescription e' pc' desc' =
        (pc', Some (Errorf ''remoteDescription is already defined, SetRemoteDescription can only be called once'')))
   \<and> (Type desc \<noteq> SDPTypeAnswer \<and> SetRemoteDescription e pc desc = (pc', None) \<longrightarrow>
      currentRemoteDescription pc' = None
      \<and> (\<exists>p. Unmarshal e (SDP desc) = Inr p
             \<and> pendingRemoteDescription pc' = Some (desc\<lparr>parsed := Some p\<rparr>)))
   \<and> (currentRemoteDescription pc = None \<longrightarrow>
        (isClosed pc \<longrightarrow>
           SetRemoteDescription e' pc desc' = (pc, Some (InvalidStateError ErrConnectionClosed)))
      \<and> (\<not> isClosed pc \<and> Unmarshal e' (SDP desc') = Inl err \<longrightarrow>
           SetRemoteDescription e' pc desc' = (pc, Some err))
      \<and> (\<not> isClosed pc \<and> Unmarshal e' (SDP desc') = Inr p'
           \<and> setDescription pc (desc'\<lparr>parsed := Some p'\<rparr>) stateChangeOpSetRemote = (pc1, Some err) \<longrightarrow>
           SetRemoteDescription e' pc desc' = (pc1, Some err)))"
proof -
  have "currentRemoteDescription pc' \<noteq> None"
    if t: "Type desc = SDPTypeAnswer" and ok: "SetRemoteDescription e pc desc = (pc', None)"
  proof -
    from SetRemoteDescription_success [OF ok] obtain p pc1 where
      sd: "setDescription pc (desc\<lparr>parsed := Some p\<rparr>) stateChangeOpSetRemote = (pc1, None)"
      and cur: "currentRemoteDescription pc' = currentRemoteDescription pc1"
      by blast
    from t have "Type (desc\<lparr>parsed := Some p\<rparr>) = SDPTypeAnswer" by simp
    from setDescription_setRemote_answer_current [OF this sd] cur show ?thesis by simp
  qed
  then have 12: "(currentRemoteDescription pc \<noteq> None \<longrightarrow>
      SetRemoteDescription e' pc desc' =
        (pc, Some (Errorf ''remoteDescription is already defined, SetRemoteDescription can only be called once'')))
   \<and> (Type desc = SDPTypeAnswer \<and> SetRemoteDescription e pc desc = (pc', None) \<longrightarrow>
      SetRemoteDescription e' pc' desc' =
        (pc', Some (Errorf ''remoteDescription is already defined, SetRemoteDescription can only be called once'')))"
    using SetRemoteDescription_guard [of _ e'] by (auto simp: alreadyDefined_def)
  show ?thesis
    using 12 SetRemoteDescription_pending [of desc e pc pc']
      SetRemoteDescription_unguarded [of pc e' desc' err p' pc1]
    by blast
qed

lemma example_pranswer:
  "SetRemoteDescription exampleEnv exampleOfferingPC (exampleDescription SDPTypePranswer ''v=0'') =
     (exampleOfferingPC
        \<lparr>pendingRemoteDescription :=
           Some \<lparr>Type = SDPTypePranswer, SDP = ''v=0'', parsed = Some exampleVideoDoc\<rparr>,
         signalingState := SignalingStateHaveRemotePranswer,
         sctpTransport := Some \<lparr>sctp_MaxChannels = 65535, sctp_association = False\<rparr>,
         trace := [OnSignalingStateChange SignalingStateHaveLocalOffer, EvSignalCandidates,
                   OnSignalingStateChange SignalingStateHaveRemotePranswer,
                   EvStartNetworking True [] [] ''sha-256'' ''AB:CD'']\<rparr>,
      None)"
  by (simp add: SetRemoteDescription_def setDescription_def setDescription_switch_def
        checkNextSignalingState_def transitionTable_def rollbackPermitted_def
        RemoteDescription_def exampleDescription_def exampleOfferingPC_def examplePC_def
        exampleEnv_def exampleUnmarshal_def exampleVideoDoc_def exampleFingerprint_def
        NewAttribute_def NewPropertyAttribute_def IsICECandidate_def HasPrefix_def
        Attribute_String_def Let_def)

lemma example_answer_after_pranswer:
  "SetRemoteDescription exampleEnv
     (exampleOfferingPC
        \<lparr>pendingRemoteDescription :=
           Some \<lparr>Type = SDPTypePranswer, SDP = ''v=0'', parsed = Some exampleVideoDoc\<rparr>,
         signalingState := SignalingStateHaveRemotePranswer,
         sctpTransport := Some \<lparr>sctp_MaxChannels = 65535, sctp_association = False\<rparr>,
         trace := [OnSignalingStateChange SignalingStateHaveLocalOffer, EvSignalCandidates,
                   OnSignalingStateChange SignalingStateHaveRemotePranswer,
                   EvStartNetworking True [] [] ''sha-256'' ''AB:CD'']\<rparr>)
     (exampleDescription SDPTypeAnswer ''v=0'') =
     (exampleOfferingPC
        \<lparr>currentLocalDescription :=
           Some \<lparr>Type = SDPTypeOffer, SDP = ''v=0'', parsed = Some exampleVideoDoc\<rparr>,
         pendingLocalDescription := None,
         currentRemoteDescription :=
           Some \<lparr>Type = SDPTypeAnswer, SDP = ''v=0'', parsed = Some exampleVideoDoc\<rparr>,
         pendingRemoteDescription := None,
         signalingState := SignalingStateStable,
         sctpTransport := Some \<lparr>sctp_MaxChannels = 65535, sctp_association = False\<rparr>,
         trace := [OnSignalingStateChange SignalingStateHaveLocalOffer, EvSignalCandidates,
                   OnSignalingStateChange SignalingStateHaveRemotePranswer,
                   EvStartNetworking True [] [] ''sha-256'' ''AB:CD'',
                   OnSignalingStateChange SignalingStateStable,
                   EvStartNetworking True [] [] ''sha-256'' ''AB:CD'']\<rparr>,
      None)"
  by (simp add: SetRemoteDescription_def setDescription_def setDescription_switch_def
        checkNextSignalingState_def transitionTable_def rollbackPermitted_def
        RemoteDescription_def exampleDescription_def exampleOfferingPC_def examplePC_def
        exampleEnv_def exampleUnmarshal_def exampleVideoDoc_def exampleFingerprint_def
        NewAttribute_def NewPropertyAttribute_def IsICECandidate_def HasPrefix_def
        Attribute_String_def Let_def)

theorem SetRemoteDescription_once_after_answer_witness:
  "Type (exampleDescription SDPTypeAnswer ''v=0'') = SDPTypeAnswer
   \<and> snd (SetRemoteDescription exampleEnv
        (fst (SetRemoteDescription exampleEnv exampleOfferingPC
                (exampleDescription SDPTypePranswer ''v=0'')))
        (exampleDescription SDPTypeAnswer ''v=0'')) = None
   \<and> snd (SetRemoteDescription exampleEnv
        (fst (SetRemoteDescription exampleEnv
           (fst (SetRemoteDescription exampleEnv exampleOfferingPC
                   (exampleDescription SDPTypePranswer ''v=0'')))
           (exampleDescription SDPTypeAnswer ''v=0'')))
        (exampleDescription SDPTypeAnswer ''v=0''))
     = Some (Errorf ''remoteDescription is already defined, SetRemoteDescription can only be called once'')
   \<and> snd (SetRemoteDescription exampleEnv exampleOfferingPC
          (exampleDescription SDPTypePranswer ''v=0'')) = None
   \<and> currentRemoteDescription (fst (SetRemoteDescription exampleEnv exampleOfferingPC
          (exampleDescription SDPTypePranswer ''v=0''))) = None
   \<and> pendingRemoteDescription (fst (SetRemoteDescription exampleEnv exampleOfferingPC
          (exampleDescription SDPTypePranswer ''v=0'')))
       = Some \<lparr>Type = SDPTypePranswer, SDP = ''v=0'', parsed = Some exampleVideoDoc\<rparr>
   \<and> SetRemoteDescription exampleEnv
        (fst (SetRemoteDescription exampleEnv exampleOfferingPC
                (exampleDescription SDPTypePranswer ''v=0'')))
        (exampleDescription SDPTypeAnswer ''v=0x'')
     = (fst (SetRemoteDescription exampleEnv exampleOfferingPC
                (exampleDescription SDPTypePranswer ''v=0'')),
        Some (CollaboratorError ''sdp: invalid syntax''))"
proof -
  let ?pr = "exampleDescription SDPTypePranswer ''v=0''"
  let ?pc1 = "fst (SetRemoteDescription exampleEnv exampleOfferingPC
                (exampleDescription SDPTypePranswer ''v=0''))"
  let ?a = "exampleDescription SDPTypeAnswer ''v=0''"
  let ?x = "exampleDescription SDPTypeAnswer ''v=0x''"
  let ?r = "SetRemoteDescription exampleEnv ?pc1 ?a"
  have pr: "Type ?pr \<noteq> SDPTypeAnswer" by (simp add: exampleDescription_def)
  have pr_none: "snd (SetRemoteDescription exampleEnv exampleOfferingPC ?pr) = None"
    by (simp add: example_pranswer)
  then have pr_ok: "SetRemoteDescription exampleEnv exampleOfferingPC ?pr = (?pc1, None)"
    by (simp add: prod_eq_iff)
  from SetRemoteDescription_once_after_answer
         [where e = exampleEnv and desc = "?pr" and pc = exampleOfferingPC and pc' = "?pc1"]
       pr pr_ok
  obtain p where pending: "currentRemoteDescription ?pc1 = None"
    "Unmarshal exampleEnv (SDP ?pr) = Inr p"
    "pendingRemoteDescription ?pc1 = Some (?pr\<lparr>parsed := Some p\<rparr>)"
    by blast
  from pending(2) have "p = exampleVideoDoc"
    by (simp add: exampleDescription_def exampleEnv_def exampleUnmarshal_def)
  with pending(3)
  have pend: "pendingRemoteDescription ?pc1
                = Some \<lparr>Type = SDPTypePranswer, SDP = ''v=0'', parsed = Some exampleVideoDoc\<rparr>"
    by (simp add: exampleDescription_def)
  have open1: "\<not> isClosed ?pc1"
    unfolding example_pranswer fst_conv by (simp add: exampleOfferingPC_def examplePC_def)
  have bad: "Unmarshal exampleEnv (SDP ?x) = Inl (CollaboratorError ''sdp: invalid syntax'')"
    by (simp add: exampleDescription_def exampleEnv_def exampleUnmarshal_def)
  from SetRemoteDescription_once_after_answer
         [where e' = exampleEnv and desc' = "?x" and pc = "?pc1"
            and err = "CollaboratorError ''sdp: invalid syntax''"]
       pending(1) open1 bad
  have unparsed: "SetRemoteDescription exampleEnv ?pc1 ?x
                    = (?pc1, Some (CollaboratorError ''sdp: invalid syntax''))"
    by blast
  have t: "Type ?a = SDPTypeAnswer" by (simp add: exampleDescription_def)
  have none: "snd ?r = None"
    unfolding example_pranswer fst_conv example_answer_after_pranswer by simp
  then have ok: "?r = (fst ?r, None)" by (simp add: prod_eq_iff)
  from SetRemoteDescription_once_after_answer
         [where e = exampleEnv and e' = exampleEnv and desc = "?a" and desc' = "?a"
            and pc = "?pc1" and pc' = "fst ?r"] t ok
  have "SetRemoteDescription exampleEnv (fst ?r) ?a =
          (fst ?r, Some (Errorf ''remoteDescription is already defined, SetRemoteDescription can only be called once''))"
    by blast
  with t none pr_none pending(1) pend unparsed show ?thesis by simp
qed

text \<open>
  The claim as stated fails after a remote pranswer: the call that installs the
  pranswer succeeds and the later call that installs the answer succeeds as well. It
  also fails after a remote offer: a second offer is refused, but by the signaling state
  machine and not with the "already defined" error.
\<close>

lemma example_remote_offer:
  "SetRemoteDescription exampleEnv examplePC (exampleDescription SDPTypeOffer ''v=0'') =
     (examplePC
        \<lparr>pendingRemoteDescription :=
           Some \<lparr>Type = SDPTypeOffer, SDP = ''v=0'', parsed = Some exampleVideoDoc\<rparr>,
         signalingState := SignalingStateHaveRemoteOffer,
         sctpTransport := Some \<lparr>sctp_MaxChannels = 65535, sctp_association = False\<rparr>,
         trace := [OnSignalingStateChange SignalingStateHaveRemoteOffer,
                   EvStartNetworking False [] [] ''sha-256'' ''AB:CD'']\<rparr>,
      None)"
  by (simp add: SetRemoteDescription_def setDescription_def setDescription_switch_def
        checkNextSignalingState_def transitionTable_def rollbackPermitted_def
        RemoteDescription_def exampleDescription_def examplePC_def
        exampleEnv_def exampleUnmarshal_def exampleVideoDoc_def exampleFingerprint_def
        NewAttribute_def NewPropertyAttribute_def IsICECandidate_def HasPrefix_def
        Attribute_String_def Let_def)

theorem SetRemoteDescription_twice_counterexample:
  "snd (SetRemoteDescription exampleEnv exampleOfferingPC
          (exampleDescription SDPTypePranswer ''v=0'')) = None
   \<and> snd (SetRemoteDescription exampleEnv
        (fst (SetRemoteDescription exampleEnv exampleOfferingPC
                (exampleDescription SDPTypePranswer ''v=0'')))
        (exampleDescription SDPTypeAnswer ''v=0'')) = None
   \<and> snd (SetRemoteDescription exampleEnv examplePC
          (exampleDescription SDPTypeOffer ''v=0'')) = None
   \<and> snd (SetRemoteDescription exampleEnv
        (fst (SetRemoteDescription exampleEnv examplePC
                (exampleDescription SDPTypeOffer ''v=0'')))
        (exampleDescription SDPTypeOffer ''v=0''))
     = Some (InvalidModificationError ErrTransitionNotPermitted)"
proof -
  have "snd (SetRemoteDescription exampleEnv
        (fst (SetRemoteDescription exampleEnv examplePC
                (exampleDescription SDPTypeOffer ''v=0'')))
        (exampleDescription SDPTypeOffer ''v=0''))
     = Some (InvalidModificationError ErrTransitionNotPermitted)"
    unfolding example_remote_offer fst_conv
    by (simp add: SetRemoteDescription_def setDescription_def setDescription_switch_def
        checkNextSignalingState_def transitionTable_def rollbackPermitted_def
        exampleDescription_def examplePC_def exampleEnv_def exampleUnmarshal_def Let_def)
  moreover have "snd (SetRemoteDescription exampleEnv
        (fst (SetRemoteDescription exampleEnv exampleOfferingPC
                (exampleDescription SDPTypePranswer ''v=0'')))
        (exampleDescription SDPTypeAnswer ''v=0'')) = None"
    unfolding example_pranswer fst_conv example_answer_after_pranswer by simp
  ultimately show ?thesis
    by (simp add: example_pranswer example_remote_offer)
qed

section \<open>Properties of generateDataChannelID\<close>

lemma generateDataChannelID_loop_result:
  assumes "mx \<noteq> 0"
  shows "\<exists>r. generateDataChannelID_loop chans mx i = Some r \<and>
     (case r of
        Inl err \<Rightarrow> err = OperationError ErrMaxDataChannelID
          \<and> (\<forall>j. i \<le> j \<and> j < mx - 1 \<and> even (unat j - unat i) \<longrightarrow> chans j \<noteq> None)
      | Inr r \<Rightarrow> i \<le> r \<and> r < mx - 1 \<and> even (unat r - unat i) \<and> chans r = None
          \<and> (\<forall>j. i \<le> j \<and> j < r \<and> even (unat j - unat i) \<longrightarrow> chans j \<noteq> None))"
proof (induction "unat (mx - 1) - unat i" arbitrary: i rule: less_induct)
  case less
  show ?case
  proof (cases "i < mx - 1")
    case False
    then have "generateDataChannelID_loop chans mx i = Some (Inl (OperationError ErrMaxDataChannelID))"
      by (subst generateDataChannelID_loop.simps) simp
    moreover have "\<forall>j. i \<le> j \<and> j < mx - 1 \<and> even (unat j - unat i) \<longrightarrow> chans j \<noteq> None"
      using False by auto
    ultimately show ?thesis by simp
  next
    case True
    show ?thesis
    proof (cases "chans i")
      case None
      with True have "generateDataChannelID_loop chans mx i = Some (Inr i)"
        by (subst generateDataChannelID_loop.simps) simp
      with True None show ?thesis by auto
    next
      case (Some c)
      with True have step: "generateDataChannelID_loop chans mx i = generateDataChannelID_loop chans mx (i + 2)"
        by (subst generateDataChannelID_loop.simps) simp
      have lim: "unat (mx - 1) \<le> 65534"
      proof -
        have "unat (mx - 1) = unat mx - 1"
          using assms by (simp add: unat_minus_one)
        moreover have "unat mx < 2 ^ LENGTH(16)" by (rule unsigned_less)
        ultimately show ?thesis by simp
      qed
      from True have lt: "unat i < unat (mx - 1)" by (simp add: word_less_nat_alt)
      have "unat i + unat (2 :: 16 word) < 2 ^ LENGTH(16)"
        using lt lim by simp
      then have "unat (i + 2) = unat i + unat (2 :: 16 word)"
        by (simp only: unat_add_lem)
      then have u2: "unat (i + 2) = unat i + 2" by simp
      have "unat (mx - 1) - unat (i + 2) < unat (mx - 1) - unat i"
        using lt u2 by simp
      from less [OF this] obtain r where
        r: "generateDataChannelID_loop chans mx (i + 2) = Some r"
        and rs: "(case r of
        Inl err \<Rightarrow> err = OperationError ErrMaxDataChannelID
          \<and> (\<forall>j. i + 2 \<le> j \<and> j < mx - 1 \<and> even (unat j - unat (i + 2)) \<longrightarrow> chans j \<noteq> None)
      | Inr r \<Rightarrow> i + 2 \<le> r \<and> r < mx - 1 \<and> even (unat r - unat (i + 2)) \<and> chans r = None
          \<and> (\<forall>j. i + 2 \<le> j \<and> j < r \<and> even (unat j - unat (i + 2)) \<longrightarrow> chans j \<noteq> None))"
        by blast
      have next_id: "i + 2 \<le> j \<and> even (unat j - unat (i + 2))"
        if "i \<le> j" "even (unat j - unat i)" "j \<noteq> i" for j
      proof -
        from that(1) have "unat i \<le> unat j" by (simp add: word_le_nat_alt)
        moreover from that(3) have "unat i \<noteq> unat j" by (simp add: word_unat_eq_iff)
        ultimately have "unat i + 2 \<le> unat j \<and> even (unat j - (unat i + 2))"
          using that(2) by presburger
        then show ?thesis by (simp only: word_le_nat_alt u2) 
      qed
      have cover: "chans j \<noteq> None"
        if "i \<le> j" "even (unat j - unat i)"
           "i + 2 \<le> j \<and> even (unat j - unat (i + 2)) \<longrightarrow> chans j \<noteq> None" for j
        using that Some next_id [of j] by (cases "j = i") auto
      show ?thesis
      proof (cases r)
        case (Inl err)
        with rs cover show ?thesis
          unfolding step r by auto
      next
        case (Inr x)
        with rs have a: "i + 2 \<le> x" "x < mx - 1" "even (unat x - unat (i + 2))" "chans x = None"
          and b: "\<forall>j. i + 2 \<le> j \<and> j < x \<and> even (unat j - unat (i + 2)) \<longrightarrow> chans j \<noteq> None"
          by auto
        from a(1) u2 have ix: "unat i + 2 \<le> unat x" by (simp add: word_le_nat_alt)
        then have "i \<le> x" by (simp add: word_le_nat_alt)
        moreover have "even (unat x - unat i)"
          using a(3) u2 ix by presburger
        ultimately show ?thesis
          unfolding step r using Inr a b cover by auto
      qed
    qed
  qed
qed

lemma generateDataChannelID_result:
  assumes "channelLimit e pc \<noteq> 0"
  shows "\<exists>r. generateDataChannelID e pc True = Some r \<and>
     (case r of
        Inl err \<Rightarrow> err = OperationError ErrMaxDataChannelID
          \<and> (\<forall>j. j < channelLimit e pc - 1 \<and> even (unat j) \<longrightarrow> dataChannels pc j \<noteq> None)
      | Inr r \<Rightarrow> r < channelLimit e pc - 1 \<and> even (unat r) \<and> dataChannels pc r = None
          \<and> (\<forall>j. j < r \<and> even (unat j) \<longrightarrow> dataChannels pc j \<noteq> None))"
proof -
  from generateDataChannelID_loop_result [OF assms, of "dataChannels pc" 0] obtain r where
    r: "generateDataChannelID_loop (dataChannels pc) (channelLimit e pc) 0 = Some r"
    and rs: "(case r of
        Inl err \<Rightarrow> err = OperationError ErrMaxDataChannelID
          \<and> (\<forall>j. 0 \<le> j \<and> j < channelLimit e pc - 1 \<and> even (unat j - unat (0 :: 16 word))
                 \<longrightarrow> dataChannels pc j \<noteq> None)
      | Inr r \<Rightarrow> 0 \<le> r \<and> r < channelLimit e pc - 1 \<and> even (unat r - unat (0 :: 16 word))
          \<and> dataChannels pc r = None
          \<and> (\<forall>j. 0 \<le> j \<and> j < r \<and> even (unat j - unat (0 :: 16 word))
                 \<longrightarrow> dataChannels pc j \<noteq> None))"
    by blast
  show ?thesis
    using r rs by (cases r) (auto simp: generateDataChannelID_def)
qed

lemma generateDataChannelID_id_iff:
  assumes "channelLimit e pc \<noteq> 0"
  shows "generateDataChannelID e pc True = Some (Inr i) \<longleftrightarrow>
           even (unat i) \<and> i < channelLimit e pc - 1 \<and> dataChannels pc i = None
           \<and> (\<forall>j. j < i \<and> even (unat j) \<longrightarrow> dataChannels pc j \<noteq> None)"
proof -
  from generateDataChannelID_result [OF assms] obtain r where
    r: "generateDataChannelID e pc True = Some r"
    and rs: "(case r of
        Inl err \<Rightarrow> err = OperationError ErrMaxDataChannelID
          \<and> (\<forall>j. j < channelLimit e pc - 1 \<and> even (unat j) \<longrightarrow> dataChannels pc j \<noteq> None)
      | Inr r \<Rightarrow> r < channelLimit e pc - 1 \<and> even (unat r) \<and> dataChannels pc r = None
          \<and> (\<forall>j. j < r \<and> even (unat j) \<longrightarrow> dataChannels pc j \<noteq> None))"
    by blast
  show ?thesis
  proof (cases r)
    case (Inl err)
    with r rs show ?thesis by auto
  next
    case (Inr x)
    with rs have x: "x < channelLimit e pc - 1" "even (unat x)" "dataChannels pc x = None"
      "\<forall>j. j < x \<and> even (unat j) \<longrightarrow> dataChannels pc j \<noteq> None"
      by auto
    show ?thesis
    proof
      assume "generateDataChannelID e pc True = Some (Inr i)"
      with r Inr have "i = x" by simp
      with x show "even (unat i) \<and> i < channelLimit e pc - 1 \<and> dataChannels pc i = None
           \<and> (\<forall>j. j < i \<and> even (unat j) \<longrightarrow> dataChannels pc j \<noteq> None)"
        by simp
    next
      assume i: "even (unat i) \<and> i < channelLimit e pc - 1 \<and> dataChannels pc i = None
           \<and> (\<forall>j. j < i \<and> even (unat j) \<longrightarrow> dataChannels pc j \<noteq> None)"
      have "\<not> x < i" using i x by blast
      moreover have "\<not> i < x" using i x by blast
      ultimately have "i = x" by simp
      with r Inr show "generateDataChannelID e pc True = Some (Inr i)" by simp
    qed
  qed
qed

lemma generateDataChannelID_fails_iff:
  assumes "channelLimit e pc \<noteq> 0"
  shows "generateDataChannelID e pc True = Some (Inl (OperationError ErrMaxDataChannelID)) \<longleftrightarrow>
           (\<forall>j. even (unat j) \<and> j < channelLimit e pc - 1 \<longrightarrow> dataChannels pc j \<noteq> None)"
proof -
  from generateDataChannelID_result [OF assms] obtain r where
    r: "generateDataChannelID e pc True = Some r"
    and rs: "(case r of
        Inl err \<Rightarrow> err = OperationError ErrMaxDataChannelID
          \<and> (\<forall>j. j < channelLimit e pc - 1 \<and> even (unat j) \<longrightarrow> dataChannels pc j \<noteq> None)
      | Inr r \<Rightarrow> r < channelLimit e pc - 1 \<and> even (unat r) \<and> dataChannels pc r = None
          \<and> (\<forall>j. j < r \<and> even (unat j) \<longrightarrow> dataChannels pc j \<noteq> None))"
    by blast
  show ?thesis
  proof (cases r)
    case (Inl err)
    with r rs show ?thesis by auto
  next
    case (Inr x)
    with r rs show ?thesis by auto
  qed
qed

lemma CreateDataChannel_generated:
  assumes "optionsCarryNoID options"
  shows "CreateDataChannel e pc label options =
     (if isClosed pc then Some (pc, Inl (InvalidStateError ErrConnectionClosed))
      else case generateDataChannelID e pc True of
             None \<Rightarrow> None
           | Some (Inl err) \<Rightarrow> Some (pc, Inl err)
           | Some (Inr i) \<Rightarrow>
               (let params =
                      (case options of
                         None \<Rightarrow>
                           \<lparr>Label = label, ID = i, Ordered = True,
                            MaxPacketLifeTime = None, MaxRetransmits = None\<rparr>
                       | Some opts \<Rightarrow>
                           \<lparr>Label = label, ID = i,
                            Ordered = (case init_Ordered opts of None \<Rightarrow> True | Some b \<Rightarrow> b),
                            MaxPacketLifeTime = init_MaxPacketLifeTime opts,
                            MaxRetransmits = init_MaxRetransmits opts\<rparr>)
                in case newDataChannel e params of
                     Inl err \<Rightarrow> Some (pc, Inl err)
                   | Inr d \<Rightarrow>
                       if dc_maxPacketLifeTime d \<noteq> None \<and> dc_maxRetransmits d \<noteq> None
                       then Some (pc, Inl (TypeError ErrRetransmitsOrPacketLifeTime))
                       else
                         (let pc1 = pc\<lparr>dataChannels := (dataChannels pc)(i \<mapsto> d),
                                        dataChannelsRequested := dataChannelsRequested pc + 1\<rparr>;
                              sctpReady = (case sctpTransport pc of
                                             None \<Rightarrow> False
                                           | Some t \<Rightarrow> sctp_association t)
                          in if sctpReady then
                               (case DataChannel_open e d of
                                  Some err \<Rightarrow> Some (pc1, Inl err)
                                | None \<Rightarrow>
                                    Some (pc1\<lparr>trace := trace pc1 @ [EvDataChannelOpen i]\<rparr>, Inr d))
                             else Some (pc1, Inr d))))"
  using assms
  by (cases options)
     (simp_all add: CreateDataChannel_def optionsCarryNoID_def Let_def
        split: option.splits sum.splits)

lemma CreateDataChannel_registers_generated:
  assumes "optionsCarryNoID options"
    and "CreateDataChannel e pc label options = Some (pc', Inr d)"
  shows "\<exists>i. generateDataChannelID e pc True = Some (Inr i)
            \<and> dataChannels pc' = (dataChannels pc)(i \<mapsto> d)"
  using assms(2) unfolding CreateDataChannel_generated [OF assms(1)]
  by (auto simp: Let_def split: if_splits option.splits sum.splits)

lemma CreateDataChannel_exhausted:
  assumes "optionsCarryNoID options" and "\<not> isClosed pc"
    and "generateDataChannelID e pc True = Some (Inl err)"
  shows "CreateDataChannel e pc label options = Some (pc, Inl err)"
  using assms(2,3) unfolding CreateDataChannel_generated [OF assms(1)] by simp

text \<open>
  C7. Let the limit be \<open>sctpTransport.MaxChannels()\<close> when SCTP is attached and
  \<open>sctpMaxChannels\<close> otherwise, and let it be at least 1. Then
  \<open>generateDataChannelID\<close> for the offering side always returns; it returns the id \<open>i\<close>
  exactly when \<open>i\<close> is the smallest even id absent from the data-channel map and
  \<open>i < limit - 1\<close>; and it fails with OperationError(MaxDataChannelID) exactly when
  every even id strictly below \<open>limit - 1\<close> is taken (the loop bound is
  \<open>id < max-1\<close>, so the id \<open>limit - 1\<close> itself is never handed out). A
  \<open>CreateDataChannel\<close> call whose options carry no ID and that succeeds registers its
  channel under that generated id, which was absent from the map before, so the ids
  chosen this way are even and pairwise distinct; and on an open connection it fails
  with the same error when the generation fails.
\<close>

theorem generateDataChannelID_smallest_even:
  assumes "limit = (case sctpTransport pc of
                      None \<Rightarrow> sctpMaxChannels e
                    | Some t \<Rightarrow> sctp_MaxChannels t)"
    and "limit \<noteq> 0"
  shows "generateDataChannelID e pc True \<noteq> None
       \<and> (\<forall>i. generateDataChannelID e pc True = Some (Inr i) \<longleftrightarrow>
               even (unat i) \<and> i < limit - 1 \<and> dataChannels pc i = None
               \<and> (\<forall>j. j < i \<and> even (unat j) \<longrightarrow> dataChannels pc j \<noteq> None))
       \<and> (generateDataChannelID e pc True = Some (Inl (OperationError ErrMaxDataChannelID)) \<longleftrightarrow>
            (\<forall>j. even (unat j) \<and> j < limit - 1 \<longrightarrow> dataChannels pc j \<noteq> None))
       \<and> (\<forall>label options pc' d.
             optionsCarryNoID options \<and> CreateDataChannel e pc label options = Some (pc', Inr d) \<longrightarrow>
             (\<exists>i. generateDataChannelID e pc True = Some (Inr i)
                  \<and> even (unat i) \<and> i < limit - 1 \<and> dataChannels pc i = None
                  \<and> dataChannels pc' = (dataChannels pc)(i \<mapsto> d)))
       \<and> (\<forall>label options.
             optionsCarryNoID options \<and> \<not> isClosed pc
             \<and> generateDataChannelID e pc True = Some (Inl (OperationError ErrMaxDataChannelID)) \<longrightarrow>
             CreateDataChannel e pc label options
               = Some (pc, Inl (OperationError ErrMaxDataChannelID)))"
proof -
  from assms(1) have lim: "channelLimit e pc = limit"
    by (simp add: channelLimit_def)
  with assms(2) have nz: "channelLimit e pc \<noteq> 0" by simp
  have total: "generateDataChannelID e pc True \<noteq> None"
    using generateDataChannelID_result [OF nz] by auto
  have reg: "\<exists>i. generateDataChannelID e pc True = Some (Inr i)
                  \<and> even (unat i) \<and> i < limit - 1 \<and> dataChannels pc i = None
                  \<and> dataChannels pc' = (dataChannels pc)(i \<mapsto> d)"
    if "optionsCarryNoID options" "CreateDataChannel e pc label options = Some (pc', Inr d)"
    for label options pc' d
  proof -
    from CreateDataChannel_registers_generated [OF that] obtain i where
      i: "generateDataChannelID e pc True = Some (Inr i)"
         "dataChannels pc' = (dataChannels pc)(i \<mapsto> d)"
      by blast
    with generateDataChannelID_id_iff [OF nz, of i] lim show ?thesis by auto
  qed
  show ?thesis
    using total generateDataChannelID_id_iff [OF nz] generateDataChannelID_fails_iff [OF nz]
      reg CreateDataChannel_exhausted
    unfolding lim
    by blast
qed

lemma even_below_four:
  fixes j :: "16 word"
  assumes "j < 4" and "even (unat j)"
  shows "j = 0 \<or> j = 2"
proof -
  from assms(1) have "unat j < 4" by (simp add: word_less_nat_alt)
  then have "unat j = 0 \<or> unat j = 1 \<or> unat j = 2 \<or> unat j = 3" by arith
  with assms(2) have "unat j = 0 \<or> unat j = 2" by auto
  then show ?thesis by (auto simp: word_unat_eq_iff)
qed

theorem generateDataChannelID_smallest_even_witness:
  "sctpTransport examplePC = None \<and> sctpMaxChannels exampleEnv = 65535
   \<and> generateDataChannelID exampleEnv examplePC True = Some (Inr 0)
   \<and> sctpTransport (exampleSCTPPC 10) = Some \<lparr>sctp_MaxChannels = 10, sctp_association = False\<rparr>
   \<and> dom (dataChannels (exampleSCTPPC 10)) = {0, 2}
   \<and> generateDataChannelID exampleEnv (exampleSCTPPC 10) True = Some (Inr 4)
   \<and> CreateDataChannel exampleEnv (exampleSCTPPC 10) ''chat'' None
       = Some ((exampleSCTPPC 10)
                 \<lparr>dataChannels := (dataChannels (exampleSCTPPC 10))(4 \<mapsto> exampleChannel 4),
                  dataChannelsRequested := 3\<rparr>,
               Inr (exampleChannel 4))
   \<and> sctpTransport (exampleSCTPPC 5) = Some \<lparr>sctp_MaxChannels = 5, sctp_association = False\<rparr>
   \<and> dom (dataChannels (exampleSCTPPC 5)) = {0, 2}
   \<and> generateDataChannelID exampleEnv (exampleSCTPPC 5) True
       = Some (Inl (OperationError ErrMaxDataChannelID))
   \<and> CreateDataChannel exampleEnv (exampleSCTPPC 5) ''chat'' None
       = Some (exampleSCTPPC 5, Inl (OperationError ErrMaxDataChannelID))"
proof -
  have l0: "(65535 :: 16 word) = (case sctpTransport examplePC of
                      None \<Rightarrow> sctpMaxChannels exampleEnv
                    | Some t \<Rightarrow> sctp_MaxChannels t)"
    by (simp add: exampleEnv_def examplePC_def)
  have nz: "(65535 :: 16 word) \<noteq> 0" "(10 :: 16 word) \<noteq> 0" "(5 :: 16 word) \<noteq> 0"
    by simp_all
  have "even (unat (0 :: 16 word)) \<and> (0 :: 16 word) < 65535 - 1
        \<and> dataChannels examplePC 0 = None
        \<and> (\<forall>j. j < (0 :: 16 word) \<and> even (unat j) \<longrightarrow> dataChannels examplePC j \<noteq> None)"
    by (simp add: examplePC_def)
  with generateDataChannelID_smallest_even [OF l0 nz(1)]
  have g0: "generateDataChannelID exampleEnv examplePC True = Some (Inr 0)" by simp
  have l10: "(10 :: 16 word) = (case sctpTransport (exampleSCTPPC 10) of
                      None \<Rightarrow> sctpMaxChannels exampleEnv
                    | Some t \<Rightarrow> sctp_MaxChannels t)"
    by (simp add: exampleSCTPPC_def)
  have "even (unat (4 :: 16 word)) \<and> (4 :: 16 word) < 10 - 1
        \<and> dataChannels (exampleSCTPPC 10) 4 = None
        \<and> (\<forall>j. j < (4 :: 16 word) \<and> even (unat j) \<longrightarrow> dataChannels (exampleSCTPPC 10) j \<noteq> None)"
    using even_below_four by (auto simp: exampleSCTPPC_def)
  with generateDataChannelID_smallest_even [OF l10 nz(2)]
  have g10: "generateDataChannelID exampleEnv (exampleSCTPPC 10) True = Some (Inr 4)" by simp
  have l5: "(5 :: 16 word) = (case sctpTransport (exampleSCTPPC 5) of
                      None \<Rightarrow> sctpMaxChannels exampleEnv
                    | Some t \<Rightarrow> sctp_MaxChannels t)"
    by (simp add: exampleSCTPPC_def)
  have "\<forall>j. even (unat j) \<and> j < (5 :: 16 word) - 1 \<longrightarrow> dataChannels (exampleSCTPPC 5) j \<noteq> None"
    using even_below_four by (auto simp: exampleSCTPPC_def)
  with generateDataChannelID_smallest_even [OF l5 nz(3)]
  have g5: "generateDataChannelID exampleEnv (exampleSCTPPC 5) True
              = Some (Inl (OperationError ErrMaxDataChannelID))" by simp
  have c10: "CreateDataChannel exampleEnv (exampleSCTPPC 10) ''chat'' None
       = Some ((exampleSCTPPC 10)
                 \<lparr>dataChannels := (dataChannels (exampleSCTPPC 10))(4 \<mapsto> exampleChannel 4),
                  dataChannelsRequested := 3\<rparr>,
               Inr (exampleChannel 4))"
    using g10
    by (simp add: CreateDataChannel_def exampleSCTPPC_def examplePC_def exampleEnv_def
          exampleChannel_def Let_def)
  have "optionsCarryNoID None \<and> \<not> isClosed (exampleSCTPPC 5)"
    by (simp add: optionsCarryNoID_def exampleSCTPPC_def examplePC_def)
  with generateDataChannelID_smallest_even [OF l5 nz(3)] g5
  have c5: "CreateDataChannel exampleEnv (exampleSCTPPC 5) ''chat'' None
       = Some (exampleSCTPPC 5, Inl (OperationError ErrMaxDataChannelID))"
    by blast
  have "sctpTransport examplePC = None \<and> sctpMaxChannels exampleEnv = 65535"
    by (simp add: examplePC_def exampleEnv_def)
  moreover have "sctpTransport (exampleSCTPPC 10)
                   = Some \<lparr>sctp_MaxChannels = 10, sctp_association = False\<rparr>
      \<and> sctpTransport (exampleSCTPPC 5) = Some \<lparr>sctp_MaxChannels = 5, sctp_association = False\<rparr>
      \<and> dom (dataChannels (exampleSCTPPC 10)) = {0, 2}
      \<and> dom (dataChannels (exampleSCTPPC 5)) = {0, 2}"
    by (auto simp: exampleSCTPPC_def)
  ultimately show ?thesis
    using g0 g10 g5 c10 c5 by simp
qed

lemma example_full_limit: "channelLimit exampleEnv exampleFullPC = 65535"
  by (simp add: channelLimit_def exampleEnv_def exampleFullPC_def examplePC_def)

text \<open>
  The claim as stated fails at the upper end: with the bound 65535 the largest usable
  id is 65534, which is even; when every even id up to 65532 is taken and 65534 is free,
  the allocation fails all the same.
\<close>

theorem generateDataChannelID_boundary_counterexample:
  "sctpTransport exampleFullPC = None
   \<and> sctpMaxChannels exampleEnv = 65535
   \<and> even (unat (65534 :: 16 word))
   \<and> (65534 :: 16 word) \<le> sctpMaxChannels exampleEnv - 1
   \<and> dataChannels exampleFullPC 65534 = None
   \<and> generateDataChannelID exampleEnv exampleFullPC True
       = Some (Inl (OperationError ErrMaxDataChannelID))"
proof -
  have l: "channelLimit exampleEnv exampleFullPC \<noteq> 0"
    by (simp add: example_full_limit)
  have "\<forall>j. even (unat j) \<and> j < channelLimit exampleEnv exampleFullPC - 1
            \<longrightarrow> dataChannels exampleFullPC j \<noteq> None"
    by (simp add: example_full_limit) (simp add: exampleFullPC_def exampleFullChannels_def)
  with generateDataChannelID_fails_iff [OF l]
  have "generateDataChannelID exampleEnv exampleFullPC True
          = Some (Inl (OperationError ErrMaxDataChannelID))"
    by blast
  moreover have "dataChannels exampleFullPC 65534 = None"
    by (simp add: exampleFullPC_def exampleFullChannels_def)
  moreover have "sctpTransport exampleFullPC = None \<and> sctpMaxChannels exampleEnv = 65535"
    by (simp add: exampleFullPC_def examplePC_def exampleEnv_def)
  ultimately show ?thesis by simp
qed

section \<open>Properties of Close\<close>

lemma Close_sets_isClosed: "isClosed (fst (Close e pc))"
  by (simp add: Close_def Let_def split: prod.splits)

lemma Close_when_closed: "isClosed pc \<Longrightarrow> Close e pc = (pc, None)"
  by (simp add: Close_def)

text \<open>
  C9. \<open>Close\<close> is idempotent. After a first \<open>Close\<close> (whatever it returned), a further
  \<open>Close\<close> returns nil and leaves the PeerConnection exactly as it was, the record of
  transport and transceiver stops included, so that nothing is shut down a second time;
  as the state is unchanged, the same holds for every later call. When the first call
  returns nil, both calls return nil.
\<close>

theorem Close_idempotent:
  "Close e' (fst (Close e pc)) = (fst (Close e pc), None)
   \<and> trace (fst (Close e' (fst (Close e pc)))) = trace (fst (Close e pc))"
  by (simp add: Close_when_closed [OF Close_sets_isClosed])

theorem Close_idempotent_witness:
  "snd (Close exampleEnv examplePC) = None
   \<and> snd (Close exampleEnv (fst (Close exampleEnv examplePC))) = None
   \<and> trace (fst (Close exampleEnv (fst (Close exampleEnv examplePC))))
       = [EvICETransportStop, EvDTLSTransportStop]"
proof -
  have first: "snd (Close exampleEnv examplePC) = None
      \<and> trace (fst (Close exampleEnv examplePC)) = [EvICETransportStop, EvDTLSTransportStop]"
    by (simp add: Close_def Let_def exampleEnv_def examplePC_def errList_def FlattenErrs_def)
  from Close_idempotent [of exampleEnv exampleEnv examplePC] first
  show ?thesis by simp
qed

section \<open>Calls on a closed PeerConnection\<close>

lemma Close_fields:
  "idpLoginURL (fst (Close e pc)) = idpLoginURL pc
   \<and> currentRemoteDescription (fst (Close e pc)) = currentRemoteDescription pc
   \<and> pendingRemoteDescription (fst (Close e pc)) = pendingRemoteDescription pc"
  by (simp add: Close_def Let_def split: prod.splits)

lemma closed_rejects:
  assumes "isClosed pc"
  shows "SetLocalDescription e pc desc = (pc, Some (InvalidStateError ErrConnectionClosed))"
    and "SetConfiguration e pc cfg = (pc, Some (InvalidStateError ErrConnectionClosed))"
    and "AddTrack e pc track = (pc, Inl (InvalidStateError ErrConnectionClosed))"
    and "CreateDataChannel e pc label options = Some (pc, Inl (InvalidStateError ErrConnectionClosed))"
    and "idpLoginURL pc = None \<Longrightarrow>
           CreateOffer e pc None = (pc, Inl (InvalidStateError ErrConnectionClosed))"
    and "idpLoginURL pc = None \<Longrightarrow> RemoteDescription pc \<noteq> None \<Longrightarrow>
           CreateAnswer e pc None = (pc, Inl (InvalidStateError ErrConnectionClosed))"
    and "currentRemoteDescription pc = None \<Longrightarrow>
           SetRemoteDescription e pc desc = (pc, Some (InvalidStateError ErrConnectionClosed))"
  using assms
  by (simp_all add: SetLocalDescription_def SetConfiguration_def AddTrack_def
        CreateDataChannel_def CreateOffer_def CreateAnswer_def SetRemoteDescription_def)

lemma closed_other_checks:
  shows "offerOptions \<noteq> None \<Longrightarrow>
           CreateOffer e pc offerOptions = (pc, Inl (Errorf ''TODO handle options''))"
    and "idpLoginURL pc \<noteq> None \<Longrightarrow>
           CreateOffer e pc None = (pc, Inl (Errorf ''TODO handle identity provider''))"
    and "answerOptions \<noteq> None \<Longrightarrow>
           CreateAnswer e pc answerOptions = (pc, Inl (Errorf ''TODO handle options''))"
    and "RemoteDescription pc = None \<Longrightarrow>
           CreateAnswer e pc None = (pc, Inl (InvalidStateError ErrNoRemoteDescription))"
    and "RemoteDescription pc \<noteq> None \<Longrightarrow> idpLoginURL pc \<noteq> None \<Longrightarrow>
           CreateAnswer e pc None = (pc, Inl (Errorf ''TODO handle identity provider''))"
    and "currentRemoteDescription pc \<noteq> None \<Longrightarrow>
           SetRemoteDescription e pc desc =
             (pc, Some (Errorf ''remoteDescription is already defined, SetRemoteDescription can only be called once''))"
  by (simp_all add: CreateOffer_def CreateAnswer_def SetRemoteDescription_def)

lemma unchecked_calls:
  shows "RemoteDescription pc = None \<Longrightarrow>
           AddICECandidate e pc candidate = (pc, Some (InvalidStateError ErrNoRemoteDescription))"
    and "RemoteDescription pc \<noteq> None \<Longrightarrow>
           AddRemoteCandidate e (NewAttribute ''candidate'' (TrimPrefix candidate ''candidate:''))
             = Some err \<Longrightarrow>
           AddICECandidate e pc candidate = (pc, Some err)"
    and "RemoteDescription pc \<noteq> None \<Longrightarrow>
           AddRemoteCandidate e (NewAttribute ''candidate'' (TrimPrefix candidate ''candidate:''))
             = None \<Longrightarrow>
           snd (AddICECandidate e pc candidate) = None"
    and "rtcp_Marshal e pkts = Inl err \<Longrightarrow> WriteRTCP e pc pkts = (pc, Some err)"
    and "rtcp_Marshal e pkts = Inr raw \<Longrightarrow> getSRTCPSession e \<noteq> None \<Longrightarrow>
           WriteRTCP e pc pkts = (pc, None)"
    and "rtcp_Marshal e pkts = Inr raw \<Longrightarrow> getSRTCPSession e = None \<Longrightarrow>
           OpenWriteStream e \<noteq> None \<Longrightarrow>
           WriteRTCP e pc pkts = (pc, Some (Errorf ''WriteRTCP failed to open WriteStream: %v''))"
    and "rtcp_Marshal e pkts = Inr raw \<Longrightarrow> getSRTCPSession e = None \<Longrightarrow>
           OpenWriteStream e = None \<Longrightarrow>
           snd (WriteRTCP e pc pkts) = WriteStream_Write e raw"
  by (auto simp: AddICECandidate_def WriteRTCP_def Let_def split: option.splits)

text \<open>
  C8. After \<open>Close\<close> has returned (with or without an error), on the same
  PeerConnection: \<open>SetLocalDescription\<close>, \<open>SetConfiguration\<close>, \<open>AddTrack\<close> and
  \<open>CreateDataChannel\<close> fail with InvalidStateError(ConnectionClosed) and change
  nothing; so does \<open>CreateOffer\<close> when called without options and no identity provider
  is set; so does \<open>CreateAnswer\<close> when called without options, a remote description is
  present and no identity provider is set; and so does \<open>SetRemoteDescription\<close> when no
  current remote description is set. In those three functions other checks come before
  the closed check: \<open>CreateOffer\<close> and \<open>CreateAnswer\<close> fail with "TODO handle
  options" when options are given, \<open>CreateAnswer\<close> without options fails with
  InvalidStateError(NoRemoteDescription) when there is no remote description, both fail
  with "TODO handle identity provider" when an identity provider is set (for
  \<open>CreateAnswer\<close>, when a remote description is present), and \<open>SetRemoteDescription\<close>
  fails with the "already defined" error when a current remote description is set.
  \<open>AddICECandidate\<close> and \<open>WriteRTCP\<close> do not look at the closed flag.
  \<open>AddICECandidate\<close> fails with InvalidStateError(NoRemoteDescription) when there is no
  remote description, and otherwise returns what handing the candidate to the ICE
  transport returns. \<open>WriteRTCP\<close> returns the marshaller's error when marshalling the
  packets fails; when it succeeds, nil if the SRTCP session is not available, the
  "failed to open WriteStream" error if the write stream cannot be opened, and otherwise
  the outcome of the write.
\<close>

theorem closed_connection_rejects_calls:
  assumes "Close e0 pc0 = (pc, r)"
  shows "SetLocalDescription e pc desc = (pc, Some (InvalidStateError ErrConnectionClosed))
       \<and> SetConfiguration e pc cfg = (pc, Some (InvalidStateError ErrConnectionClosed))
       \<and> AddTrack e pc track = (pc, Inl (InvalidStateError ErrConnectionClosed))
       \<and> CreateDataChannel e pc label options
           = Some (pc, Inl (InvalidStateError ErrConnectionClosed))
       \<and> (idpLoginURL pc0 = None \<longrightarrow>
            CreateOffer e pc None = (pc, Inl (InvalidStateError ErrConnectionClosed)))
       \<and> (idpLoginURL pc0 = None \<and> RemoteDescription pc0 \<noteq> None \<longrightarrow>
            CreateAnswer e pc None = (pc, Inl (InvalidStateError ErrConnectionClosed)))
       \<and> (currentRemoteDescription pc0 = None \<longrightarrow>
            SetRemoteDescription e pc desc = (pc, Some (InvalidStateError ErrConnectionClosed)))
       \<and> (offerOptions \<noteq> None \<longrightarrow>
            CreateOffer e pc offerOptions = (pc, Inl (Errorf ''TODO handle options'')))
       \<and> (idpLoginURL pc0 \<noteq> None \<longrightarrow>
            CreateOffer e pc None = (pc, Inl (Errorf ''TODO handle identity provider'')))
       \<and> (answerOptions \<noteq> None \<longrightarrow>
            CreateAnswer e pc answerOptions = (pc, Inl (Errorf ''TODO handle options'')))
       \<and> (RemoteDescription pc0 = None \<longrightarrow>
            CreateAnswer e pc None = (pc, Inl (InvalidStateError ErrNoRemoteDescription)))
       \<and> (RemoteDescription pc0 \<noteq> None \<and> idpLoginURL pc0 \<noteq> None \<longrightarrow>
            CreateAnswer e pc None = (pc, Inl (Errorf ''TODO handle identity provider'')))
       \<and> (currentRemoteDescription pc0 \<noteq> None \<longrightarrow>
            SetRemoteDescription e pc desc =
              (pc, Some (Errorf ''remoteDescription is already defined, SetRemoteDescription can only be called once'')))
       \<and> (RemoteDescription pc0 = None \<longrightarrow>
            AddICECandidate e pc candidate = (pc, Some (InvalidStateError ErrNoRemoteDescription)))
       \<and> (RemoteDescription pc0 \<noteq> None
            \<and> AddRemoteCandidate e (NewAttribute ''candidate'' (TrimPrefix candidate ''candidate:''))
                = Some err \<longrightarrow>
            AddICECandidate e pc candidate = (pc, Some err))
       \<and> (RemoteDescription pc0 \<noteq> None
            \<and> AddRemoteCandidate e (NewAttribute ''candidate'' (TrimPrefix candidate ''candidate:''))
                = None \<longrightarrow>
            snd (AddICECandidate e pc candidate) = None)
       \<and> (rtcp_Marshal e pkts = Inl err \<longrightarrow> WriteRTCP e pc pkts = (pc, Some err))
       \<and> (rtcp_Marshal e pkts = Inr raw \<and> getSRTCPSession e \<noteq> None \<longrightarrow>
            WriteRTCP e pc pkts = (pc, None))
       \<and> (rtcp_Marshal e pkts = Inr raw \<and> getSRTCPSession e = None \<and> OpenWriteStream e \<noteq> None \<longrightarrow>
            WriteRTCP e pc pkts = (pc, Some (Errorf ''WriteRTCP failed to open WriteStream: %v'')))
       \<and> (rtcp_Marshal e pkts = Inr raw \<and> getSRTCPSession e = None \<and> OpenWriteStream e = None \<longrightarrow>
            snd (WriteRTCP e pc pkts) = WriteStream_Write e raw)"
proof -
  from assms have pc: "pc = fst (Close e0 pc0)" by simp
  have closed: "isClosed pc"
    unfolding pc by (rule Close_sets_isClosed)
  have idp: "idpLoginURL pc = idpLoginURL pc0"
    and cur: "currentRemoteDescription pc = currentRemoteDescription pc0"
    and rem: "RemoteDescription pc = RemoteDescription pc0"
    unfolding pc using Close_fields [of e0 pc0] by (simp_all add: RemoteDescription_def)
  have first: "SetLocalDescription e pc desc = (pc, Some (InvalidStateError ErrConnectionClosed))
       \<and> SetConfiguration e pc cfg = (pc, Some (InvalidStateError ErrConnectionClosed))
       \<and> AddTrack e pc track = (pc, Inl (InvalidStateError ErrConnectionClosed))
       \<and> CreateDataChannel e pc label options
           = Some (pc, Inl (InvalidStateError ErrConnectionClosed))
       \<and> (idpLoginURL pc0 = None \<longrightarrow>
            CreateOffer e pc None = (pc, Inl (InvalidStateError ErrConnectionClosed)))
       \<and> (idpLoginURL pc0 = None \<and> RemoteDescription pc0 \<noteq> None \<longrightarrow>
            CreateAnswer e pc None = (pc, Inl (InvalidStateError ErrConnectionClosed)))
       \<and> (currentRemoteDescription pc0 = None \<longrightarrow>
            SetRemoteDescription e pc desc = (pc, Some (InvalidStateError ErrConnectionClosed)))"
    using closed_rejects [OF closed] idp cur rem by simp
  have second: "(offerOptions \<noteq> None \<longrightarrow>
            CreateOffer e pc offerOptions = (pc, Inl (Errorf ''TODO handle options'')))
       \<and> (idpLoginURL pc0 \<noteq> None \<longrightarrow>
            CreateOffer e pc None = (pc, Inl (Errorf ''TODO handle identity provider'')))
       \<and> (answerOptions \<noteq> None \<longrightarrow>
            CreateAnswer e pc answerOptions = (pc, Inl (Errorf ''TODO handle options'')))
       \<and> (RemoteDescription pc0 = None \<longrightarrow>
            CreateAnswer e pc None = (pc, Inl (InvalidStateError ErrNoRemoteDescription)))
       \<and> (RemoteDescription pc0 \<noteq> None \<and> idpLoginURL pc0 \<noteq> None \<longrightarrow>
            CreateAnswer e pc None = (pc, Inl (Errorf ''TODO handle identity provider'')))
       \<and> (currentRemoteDescription pc0 \<noteq> None \<longrightarrow>
            SetRemoteDescription e pc desc =
              (pc, Some (Errorf ''remoteDescription is already defined, SetRemoteDescription can only be called once'')))"
    unfolding idp [symmetric] cur [symmetric] rem [symmetric]
    by (auto simp: closed_other_checks)
  have third: "(RemoteDescription pc0 = None \<longrightarrow>
            AddICECandidate e pc candidate = (pc, Some (InvalidStateError ErrNoRemoteDescription)))
       \<and> (RemoteDescription pc0 \<noteq> None
            \<and> AddRemoteCandidate e (NewAttribute ''candidate'' (TrimPrefix candidate ''candidate:''))
                = Some err \<longrightarrow>
            AddICECandidate e pc candidate = (pc, Some err))
       \<and> (RemoteDescription pc0 \<noteq> None
            \<and> AddRemoteCandidate e (NewAttribute ''candidate'' (TrimPrefix candidate ''candidate:''))
                = None \<longrightarrow>
            snd (AddICECandidate e pc candidate) = None)
       \<and> (rtcp_Marshal e pkts = Inl err \<longrightarrow> WriteRTCP e pc pkts = (pc, Some err))
       \<and> (rtcp_Marshal e pkts = Inr raw \<and> getSRTCPSession e \<noteq> None \<longrightarrow>
            WriteRTCP e pc pkts = (pc, None))
       \<and> (rtcp_Marshal e pkts = Inr raw \<and> getSRTCPSession e = None \<and> OpenWriteStream e \<noteq> None \<longrightarrow>
            WriteRTCP e pc pkts = (pc, Some (Errorf ''WriteRTCP failed to open WriteStream: %v'')))
       \<and> (rtcp_Marshal e pkts = Inr raw \<and> getSRTCPSession e = None \<and> OpenWriteStream e = None \<longrightarrow>
            snd (WriteRTCP e pc pkts) = WriteStream_Write e raw)"
    unfolding rem [symmetric]
    by (auto simp: unchecked_calls)
  from first second third show ?thesis
    by (elim conjE, intro conjI) assumption+
qed

lemma example_Close:
  "Close exampleEnv examplePC =
     (examplePC\<lparr>isClosed := True, signalingState := SignalingStateClosed,
                connectionState := PeerConnectionStateClosed,
                trace := [EvICETransportStop, EvDTLSTransportStop]\<rparr>, None)"
  by (simp add: Close_def Let_def exampleEnv_def examplePC_def errList_def FlattenErrs_def)

theorem closed_connection_rejects_calls_witness:
  "snd (Close exampleEnv examplePC) = None
   \<and> snd (CreateOffer exampleEnv (fst (Close exampleEnv examplePC)) None)
       = Inl (InvalidStateError ErrConnectionClosed)
   \<and> snd (SetLocalDescription exampleEnv (fst (Close exampleEnv examplePC))
            (exampleDescription SDPTypeOffer ''v=0''))
       = Some (InvalidStateError ErrConnectionClosed)
   \<and> snd (SetRemoteDescription exampleEnv (fst (Close exampleEnv examplePC))
            (exampleDescription SDPTypeOffer ''v=0''))
       = Some (InvalidStateError ErrConnectionClosed)
   \<and> CreateDataChannel exampleEnv (fst (Close exampleEnv examplePC)) ''chat'' None
       = Some (fst (Close exampleEnv examplePC), Inl (InvalidStateError ErrConnectionClosed))
   \<and> snd (CreateAnswer exampleEnv (fst (Close exampleEnv examplePC)) None)
       = Inl (InvalidStateError ErrNoRemoteDescription)
   \<and> snd (AddICECandidate exampleEnv (fst (Close exampleEnv examplePC))
            ''candidate:1 1 udp 2130706431 192.0.2.1 3478 typ host'')
       = Some (InvalidStateError ErrNoRemoteDescription)
   \<and> snd (WriteRTCP exampleEnv (fst (Close exampleEnv examplePC)) [''rr'']) = None
   \<and> snd (WriteRTCP (exampleEnv\<lparr>rtcp_Marshal := (\<lambda>pkts. Inl (CollaboratorError ''rtcp: invalid packet''))\<rparr>)
            (fst (Close exampleEnv examplePC)) [''rr''])
       = Some (CollaboratorError ''rtcp: invalid packet'')"
proof -
  let ?bad = "exampleEnv\<lparr>rtcp_Marshal := (\<lambda>pkts. Inl (CollaboratorError ''rtcp: invalid packet''))\<rparr>"
  have rd: "RemoteDescription examplePC = None"
    by (simp add: RemoteDescription_def examplePC_def)
  have m: "rtcp_Marshal exampleEnv [''rr''] = Inr ''rr'' \<and> getSRTCPSession exampleEnv = None
      \<and> OpenWriteStream exampleEnv = None \<and> WriteStream_Write exampleEnv ''rr'' = None"
    by (simp add: exampleEnv_def)
  have mbad: "rtcp_Marshal ?bad [''rr''] = Inl (CollaboratorError ''rtcp: invalid packet'')"
    by simp
  have c: "Close exampleEnv examplePC = (fst (Close exampleEnv examplePC), None)"
    by (simp add: example_Close)
  have f: "idpLoginURL examplePC = None \<and> currentRemoteDescription examplePC = None"
    by (simp add: examplePC_def)
  from closed_connection_rejects_calls [OF c, of exampleEnv] f
  have "CreateOffer exampleEnv (fst (Close exampleEnv examplePC)) None
          = (fst (Close exampleEnv examplePC), Inl (InvalidStateError ErrConnectionClosed))"
    and "\<And>desc. SetLocalDescription exampleEnv (fst (Close exampleEnv examplePC)) desc
          = (fst (Close exampleEnv examplePC), Some (InvalidStateError ErrConnectionClosed))"
    and "\<And>desc. SetRemoteDescription exampleEnv (fst (Close exampleEnv examplePC)) desc
          = (fst (Close exampleEnv examplePC), Some (InvalidStateError ErrConnectionClosed))"
    and "\<And>label options. CreateDataChannel exampleEnv (fst (Close exampleEnv examplePC)) label options
          = Some (fst (Close exampleEnv examplePC), Inl (InvalidStateError ErrConnectionClosed))"
    by blast+
  moreover from closed_connection_rejects_calls [OF c, of exampleEnv] rd
  have "CreateAnswer exampleEnv (fst (Close exampleEnv examplePC)) None
          = (fst (Close exampleEnv examplePC), Inl (InvalidStateError ErrNoRemoteDescription))"
    and "\<And>candidate. AddICECandidate exampleEnv (fst (Close exampleEnv examplePC)) candidate
          = (fst (Close exampleEnv examplePC), Some (InvalidStateError ErrNoRemoteDescription))"
    by blast+
  moreover from closed_connection_rejects_calls
                  [OF c, where e = exampleEnv and pkts = "[''rr'']" and raw = "''rr''"] m
  have "snd (WriteRTCP exampleEnv (fst (Close exampleEnv examplePC)) [''rr'']) = None"
    by simp
  moreover from closed_connection_rejects_calls
                  [OF c, where e = "?bad" and pkts = "[''rr'']"
                     and err = "CollaboratorError ''rtcp: invalid packet''"] mbad
  have "WriteRTCP ?bad (fst (Close exampleEnv examplePC)) [''rr'']
          = (fst (Close exampleEnv examplePC), Some (CollaboratorError ''rtcp: invalid packet''))"
    by blast
  moreover have "snd (Close exampleEnv examplePC) = None"
    by (simp add: example_Close)
  ultimately show ?thesis by simp
qed

text \<open>
  The claim as stated fails on a PeerConnection that is closed right after its
  construction: \<open>CreateAnswer\<close> and \<open>AddICECandidate\<close> report the missing remote
  description, and \<open>WriteRTCP\<close>, when the SRTCP session is not available, discards the
  packets and returns nil.
\<close>

theorem closed_connection_counterexample:
  "isClosed (fst (Close exampleEnv examplePC))
   \<and> snd (CreateAnswer exampleEnv (fst (Close exampleEnv examplePC)) None)
       = Inl (InvalidStateError ErrNoRemoteDescription)
   \<and> snd (AddICECandidate exampleEnv (fst (Close exampleEnv examplePC))
            ''candidate:1 1 udp 2130706431 192.0.2.1 3478 typ host'')
       = Some (InvalidStateError ErrNoRemoteDescription)
   \<and> snd (WriteRTCP (exampleEnv\<lparr>getSRTCPSession := Some (CollaboratorError ''no SRTCP session'')\<rparr>)
            (fst (Close exampleEnv examplePC)) [])
       = None"
  unfolding example_Close fst_conv
  by (simp add: CreateAnswer_def AddICECandidate_def WriteRTCP_def
        RemoteDescription_def examplePC_def exampleEnv_def)

end
